theory Spec2Isabelle
  imports Complex_Main
begin

section \<open>FreeDrive: storage allocation and capacity tracking\<close>

text \<open>
  A shallow embedding of the backend services of FreeDrive: the helpers
  (\<^verbatim>\<open>utils/helpers.js\<close>), the constants (\<^verbatim>\<open>utils/constants.js\<close>), the record store client
  (\<^verbatim>\<open>services/supabase.js\<close>), the provider client (\<^verbatim>\<open>services/github.js\<close>), the repository
  manager (\<^verbatim>\<open>services/repoManager.js\<close>), the file manager (\<^verbatim>\<open>services/fileManager.js\<close>)
  and the sync route of \<^verbatim>\<open>routes/repos.js\<close>.

  Conventions of the embedding.
  \<^item> JavaScript numbers that hold sizes in megabytes are exact rationals (\<open>rat\<close>); byte
    counts, counters and timestamps are naturals. Rounding of doubles and of the
    \<^verbatim>\<open>DECIMAL(10,2)\<close> columns is not modelled.
  \<^item> An \<^verbatim>\<open>async\<close> function is a state transformer on the \<open>world\<close>: it returns
    \<open>Inl e\<close> where the source throws the \<^verbatim>\<open>AppError\<close> \<open>e\<close>, and \<open>Inr v\<close> where it returns \<open>v\<close>.
  \<^item> Every call that leaves the process (a query of the record store, a request to the
    hosting provider, a timer) is appended to the \<open>trace\<close> of the world. The call with
    index \<open>n\<close> fails when the world's fault script says so (\<open>db_fault\<close>, \<open>gh_fault\<close>).
  \<^item> A string is a list of 8-bit characters, read as the code units 0 to 255 of the
    JavaScript string; a name with a code unit above 255 is outside the embedding.
  \<^item> Console output is not modelled.
\<close>

subsection \<open>Errors\<close>

datatype error_code =
    FILE_TOO_LARGE | FILE_NOT_FOUND | FILE_UPLOAD_FAILED | FILE_DELETE_FAILED
  | INVALID_FILE_TYPE | REPO_CREATE_FAILED | REPO_NOT_FOUND
  | GITHUB_API_ERROR | GITHUB_RATE_LIMIT | GITHUB_UNAUTHORIZED
  | DATABASE_ERROR | VALIDATION_ERROR

text \<open>\<^verbatim>\<open>new AppError(message, code, statusCode, details)\<close>; the details are left out.\<close>

datatype app_error = AppError (message: string) (code: error_code) (statusCode: nat)

subsection \<open>Records of the store and state of the world\<close>

text \<open>A row of the table \<^verbatim>\<open>repos\<close> (the column \<^verbatim>\<open>id\<close> is \<open>rid\<close>).\<close>

record repo =
  rid :: nat
  user_id :: string
  name :: string
  github_repo_id :: string
  size_mb :: rat
  max_size_mb :: rat
  is_active :: bool
  created_at :: nat

text \<open>A row of the table \<^verbatim>\<open>files\<close> (the columns \<^verbatim>\<open>id\<close>, \<^verbatim>\<open>user_id\<close>, \<^verbatim>\<open>size_mb\<close> are
  \<open>fid\<close>, \<open>f_user_id\<close>, \<open>f_size_mb\<close>).\<close>

record file_row =
  fid :: nat
  f_user_id :: string
  repo_id :: "nat option"
  filename :: string
  original_name :: string
  f_size_mb :: rat
  mime_type :: string
  download_url :: string
  gh_release_id :: string
  gh_asset_id :: string

text \<open>A release asset held by the hosting provider.\<close>

record asset =
  asset_id :: string
  asset_repo :: string
  asset_size :: nat

datatype call =
    DbSelectRepos | DbInsertRepo | DbUpdateRepo nat
  | DbInsertFile | DbSelectFile nat | DbDeleteFile nat
  | GhGetRepo string | GhCreateRepo string | GhCreateRelease string
  | GhUploadAsset string string | GhDeleteAsset string
  | GhListReleases string | GhListAssets string
  | Delay nat

record world =
  repos :: "repo list"
  files :: "file_row list"
  gh_repos :: "string list"
  gh_assets :: "asset list"
  trace :: "call list"
  clock :: nat
  db_fault :: "nat \<Rightarrow> string option"
  gh_fault :: "nat \<Rightarrow> (nat \<times> bool) option"
  gh_unscoped :: "nat option"
  env_MAX_REPO_SIZE_MB :: "int option"
  env_MAX_FILE_SIZE_MB :: "int option"
  unique_suffix :: "nat \<Rightarrow> string"

subsection \<open>Constants (\<^verbatim>\<open>utils/constants.js\<close>)\<close>

text \<open>\<^verbatim>\<open>(parseInt(process.env.X) || d) * 1024 * 1024\<close>: a missing, unparsable or zero
  setting gives the default.\<close>

definition env_or :: "int option \<Rightarrow> int \<Rightarrow> int" where
  "env_or v d = (case v of None \<Rightarrow> d | Some n \<Rightarrow> if n = 0 then d else n)"

definition MAX_FILE_SIZE_BYTES :: "world \<Rightarrow> int" where
  "MAX_FILE_SIZE_BYTES w = env_or (env_MAX_FILE_SIZE_MB w) 2048 * 1024 * 1024"

definition MAX_REPO_SIZE_BYTES :: "world \<Rightarrow> int" where
  "MAX_REPO_SIZE_BYTES w = env_or (env_MAX_REPO_SIZE_MB w) 800 * 1024 * 1024"

definition MAX_RETRIES :: nat where
  "MAX_RETRIES = 3"

definition ALLOWED_MIME_TYPES :: "string list" where
  "ALLOWED_MIME_TYPES =
    [''image/jpeg'', ''image/png'', ''image/gif'', ''image/webp'', ''image/svg+xml'',
     ''application/pdf'', ''application/msword'',
     ''application/vnd.openxmlformats-officedocument.wordprocessingml.document'',
     ''application/vnd.ms-excel'',
     ''application/vnd.openxmlformats-officedocument.spreadsheetml.sheet'',
     ''application/vnd.ms-powerpoint'',
     ''application/vnd.openxmlformats-officedocument.presentationml.presentation'',
     ''text/plain'', ''text/csv'', ''text/html'', ''text/css'', ''text/javascript'',
     ''application/zip'', ''application/x-rar-compressed'', ''application/x-7z-compressed'',
     ''video/mp4'', ''video/webm'', ''video/ogg'', ''video/avi'', ''video/mov'',
     ''audio/mpeg'', ''audio/wav'', ''audio/ogg'', ''audio/webm'',
     ''application/json'', ''application/xml'']"

subsection \<open>Helpers (\<^verbatim>\<open>utils/helpers.js\<close>)\<close>

definition bytesToMb :: "int \<Rightarrow> rat" where
  "bytesToMb bytes = of_int bytes / (1024 * 1024)"

text \<open>The decimal rendering of a number inside a template string.\<close>

fun digits :: "nat \<Rightarrow> string" where
  "digits n = (if n < 10 then [char_of (48 + n)]
               else digits (n div 10) @ [char_of (48 + n mod 10)])"

declare digits.simps [simp del]

definition alnum :: "char \<Rightarrow> bool" where
  "alnum c = (let k = (of_char c :: nat) in
     (48 \<le> k \<and> k \<le> 57) \<or> (65 \<le> k \<and> k \<le> 90) \<or> (97 \<le> k \<and> k \<le> 122))"

text \<open>\<^verbatim>\<open>userId.replace(/[^a-zA-Z0-9]/g, '').substring(0, 20)\<close>, then the template
  \<^verbatim>\<open>user_${cleanUserId}_bucket_${bucketNumber}\<close>.\<close>

definition generateRepoName :: "string \<Rightarrow> nat \<Rightarrow> string" where
  "generateRepoName userId bucketNumber =
     ''user_'' @ take 20 (filter alnum userId) @ ''_bucket_'' @ digits bucketNumber"

definition exponentialBackoff :: "nat \<Rightarrow> nat \<Rightarrow> nat" where
  "exponentialBackoff attempt baseDelay = baseDelay * 2 ^ attempt"

text \<open>A call that leaves the process is appended to the trace and takes one tick of the
  clock.\<close>

definition record_call :: "call \<Rightarrow> world \<Rightarrow> world" where
  "record_call c w = w\<lparr>trace := trace w @ [c], clock := Suc (clock w)\<rparr>"

text \<open>The fault scripts are silent: no call to the store or to the provider is failed from
  outside.\<close>

definition no_faults :: "world \<Rightarrow> bool" where
  "no_faults w = (db_fault w = (\<lambda>n. None) \<and> gh_fault w = (\<lambda>n. None))"

text \<open>\<^verbatim>\<open>Helpers.delay(ms)\<close>: the timer is recorded in the trace and moves the clock.\<close>

definition delay :: "nat \<Rightarrow> world \<Rightarrow> world" where
  "delay ms w = w\<lparr>trace := trace w @ [Delay ms], clock := clock w + ms\<rparr>"

text \<open>
  \<^verbatim>\<open>retryWithBackoff(fn, maxRetries, baseDelay)\<close>: the loop
  \<^verbatim>\<open>for (attempt = 0; attempt <= maxRetries; attempt++)\<close>. The first argument of
  \<open>retryFrom\<close> is \<open>maxRetries - attempt\<close>, the retries that are left: when it is \<open>0\<close>
  (\<^verbatim>\<open>attempt === maxRetries\<close>) the error of \<^verbatim>\<open>fn\<close> is thrown on, otherwise the loop sleeps
  \<open>exponentialBackoff attempt baseDelay\<close> and goes round again. The
  \<^verbatim>\<open>throw lastError\<close> after the loop is never reached.
\<close>

fun retryFrom ::
  "nat \<Rightarrow> nat \<Rightarrow> (world \<Rightarrow> (app_error + 'a) \<times> world) \<Rightarrow> nat \<Rightarrow> world
     \<Rightarrow> (app_error + 'a) \<times> world" where
  "retryFrom 0 attempt fn baseDelay w = fn w"
| "retryFrom (Suc left) attempt fn baseDelay w =
     (case fn w of
        (Inr v, w1) \<Rightarrow> (Inr v, w1)
      | (Inl e, w1) \<Rightarrow>
          retryFrom left (Suc attempt) fn baseDelay
            (delay (exponentialBackoff attempt baseDelay) w1))"

definition retryWithBackoff ::
  "(world \<Rightarrow> (app_error + 'a) \<times> world) \<Rightarrow> nat \<Rightarrow> nat \<Rightarrow> world
     \<Rightarrow> (app_error + 'a) \<times> world" where
  "retryWithBackoff fn maxRetries baseDelay w = retryFrom maxRetries 0 fn baseDelay w"

subsection \<open>Record store client (\<^verbatim>\<open>services/supabase.js\<close>)\<close>

text \<open>
  The store is a generic record store: a query answers from the tables \<open>repos\<close> and
  \<open>files\<close> of the world unless the fault script fails it with an error code. Column
  types, constraints and row-level policies of the database are not modelled.
\<close>

definition db_call :: "call \<Rightarrow> world \<Rightarrow> string option \<times> world" where
  "db_call c w = (db_fault w (length (trace w)), record_call c w)"

definition handleError :: "string \<Rightarrow> string \<Rightarrow> app_error" where
  "handleError pgcode operation =
     (if pgcode = ''PGRST116'' then AppError ''Record not found'' DATABASE_ERROR 404
      else if pgcode = ''23505'' then AppError ''Duplicate record'' DATABASE_ERROR 409
      else AppError (''Database '' @ operation @ '' failed'') DATABASE_ERROR 500)"

text \<open>An identifier that no row of the table has yet (\<^verbatim>\<open>gen_random_uuid()\<close>).\<close>

definition fresh_id :: "nat list \<Rightarrow> nat" where
  "fresh_id ids = Suc (fold max ids 0)"

text \<open>The argument \<^verbatim>\<open>repoData\<close> of \<^verbatim>\<open>createRepository\<close>.\<close>

record repo_data =
  rd_userId :: string
  rd_name :: string
  rd_githubRepoId :: string
  rd_maxSizeMb :: rat

definition sb_createRepository ::
  "repo_data \<Rightarrow> world \<Rightarrow> (app_error + repo) \<times> world" where
  "sb_createRepository repoData w =
     (case db_call DbInsertRepo w of
        (Some c, w1) \<Rightarrow> (Inl (handleError c ''repository creation''), w1)
      | (None, w1) \<Rightarrow>
          (let row = \<lparr>rid = fresh_id (map rid (repos w1)),
                      user_id = rd_userId repoData,
                      name = rd_name repoData,
                      github_repo_id = rd_githubRepoId repoData,
                      size_mb = 0,
                      max_size_mb = (if rd_maxSizeMb repoData = 0 then 800
                                     else rd_maxSizeMb repoData),
                      is_active = True,
                      created_at = clock w1\<rparr>
           in (Inr row, w1\<lparr>repos := repos w1 @ [row]\<rparr>)))"

text \<open>The rows \<^verbatim>\<open>.eq('user_id', userId)\<close>, \<^verbatim>\<open>.eq('is_active', true)\<close> when asked,
  \<^verbatim>\<open>.order('created_at', { ascending: true })\<close>.\<close>

definition select_repos :: "string \<Rightarrow> bool \<Rightarrow> repo list \<Rightarrow> repo list" where
  "select_repos userId activeOnly rs =
     sort_key created_at
       (filter (\<lambda>r. user_id r = userId \<and> (if activeOnly then is_active r else True)) rs)"

definition sb_getUserRepositories ::
  "string \<Rightarrow> bool \<Rightarrow> world \<Rightarrow> (app_error + repo list) \<times> world" where
  "sb_getUserRepositories userId activeOnly w =
     (case db_call DbSelectRepos w of
        (Some c, w1) \<Rightarrow> (Inl (handleError c ''repository retrieval''), w1)
      | (None, w1) \<Rightarrow> (Inr (select_repos userId activeOnly (repos w1)), w1))"

definition sb_getAvailableRepository ::
  "string \<Rightarrow> rat \<Rightarrow> world \<Rightarrow> (app_error + repo option) \<times> world" where
  "sb_getAvailableRepository userId requiredSpaceMb w =
     (case db_call DbSelectRepos w of
        (Some c, w1) \<Rightarrow> (Inl (handleError c ''available repository retrieval''), w1)
      | (None, w1) \<Rightarrow>
          (Inr (find (\<lambda>r. size_mb r + requiredSpaceMb \<le> max_size_mb r)
                  (select_repos userId True (repos w1))), w1))"

text \<open>\<^verbatim>\<open>.update({size_mb}).eq('id', repoId).select().single()\<close>: no row with that id is the
  error \<^verbatim>\<open>PGRST116\<close> of \<^verbatim>\<open>single()\<close>.\<close>

definition sb_updateRepositorySize ::
  "nat \<Rightarrow> rat \<Rightarrow> world \<Rightarrow> (app_error + repo) \<times> world" where
  "sb_updateRepositorySize repoId sizeMb w =
     (case db_call (DbUpdateRepo repoId) w of
        (Some c, w1) \<Rightarrow> (Inl (handleError c ''repository size update''), w1)
      | (None, w1) \<Rightarrow>
          (case find (\<lambda>r. rid r = repoId) (repos w1) of
             None \<Rightarrow> (Inl (handleError ''PGRST116'' ''repository size update''), w1)
           | Some r \<Rightarrow>
               (Inr (r\<lparr>size_mb := sizeMb\<rparr>),
                w1\<lparr>repos := map (\<lambda>x. if rid x = repoId then x\<lparr>size_mb := sizeMb\<rparr> else x)
                                (repos w1)\<rparr>)))"

text \<open>The argument \<^verbatim>\<open>fileData\<close> of \<^verbatim>\<open>createFile\<close> is the row without its identifier.\<close>

definition sb_createFile :: "file_row \<Rightarrow> world \<Rightarrow> (app_error + file_row) \<times> world" where
  "sb_createFile fileData w =
     (case db_call DbInsertFile w of
        (Some c, w1) \<Rightarrow> (Inl (handleError c ''file creation''), w1)
      | (None, w1) \<Rightarrow>
          (let row = fileData\<lparr>fid := fresh_id (map fid (files w1))\<rparr>
           in (Inr row, w1\<lparr>files := files w1 @ [row]\<rparr>)))"

text \<open>\<^verbatim>\<open>.select('*, repos!inner(name, github_repo_id)').eq('id', fileId)
  .eq('user_id', userId).single()\<close>: the row of the file together with the row of its
  repository; no such pair is the error \<^verbatim>\<open>PGRST116\<close>.\<close>

definition sb_getFileById ::
  "nat \<Rightarrow> string \<Rightarrow> world \<Rightarrow> (app_error + file_row \<times> repo) \<times> world" where
  "sb_getFileById fileId userId w =
     (case db_call (DbSelectFile fileId) w of
        (Some c, w1) \<Rightarrow> (Inl (handleError c ''file retrieval''), w1)
      | (None, w1) \<Rightarrow>
          (case find (\<lambda>f. fid f = fileId \<and> f_user_id f = userId) (files w1) of
             None \<Rightarrow> (Inl (handleError ''PGRST116'' ''file retrieval''), w1)
           | Some f \<Rightarrow>
               (case find (\<lambda>r. Some (rid r) = repo_id f) (repos w1) of
                  None \<Rightarrow> (Inl (handleError ''PGRST116'' ''file retrieval''), w1)
                | Some r \<Rightarrow> (Inr (f, r), w1))))"

definition sb_deleteFile ::
  "nat \<Rightarrow> string \<Rightarrow> world \<Rightarrow> (app_error + file_row) \<times> world" where
  "sb_deleteFile fileId userId w =
     (case db_call (DbDeleteFile fileId) w of
        (Some c, w1) \<Rightarrow> (Inl (handleError c ''file deletion''), w1)
      | (None, w1) \<Rightarrow>
          (case find (\<lambda>f. fid f = fileId \<and> f_user_id f = userId) (files w1) of
             None \<Rightarrow> (Inl (handleError ''PGRST116'' ''file deletion''), w1)
           | Some f \<Rightarrow>
               (Inr f, w1\<lparr>files := filter (\<lambda>x. \<not> (fid x = fileId \<and> f_user_id x = userId))
                                    (files w1)\<rparr>)))"

subsection \<open>Provider client (\<^verbatim>\<open>services/github.js\<close>)\<close>

text \<open>
  Modelled from the spec: the hosting provider behind the client (the Octokit calls are
  not part of the sources). It holds the names of the repositories (\<open>gh_repos\<close>) and the
  release assets (\<open>gh_assets\<close>, one release per asset). A request is recorded in the
  trace; it fails with the status (and the exhausted rate limit flag) of the fault
  script, or with the status the provider itself answers (\<open>refusal\<close>): not found for a
  missing repository or asset, a validation error for a duplicate repository name.

  Two requests of the client name no repository: \<^verbatim>\<open>listReleaseAssets({owner, release_id})\<close>
  and \<^verbatim>\<open>deleteReleaseAsset({owner, asset_id})\<close> are sent without \<^verbatim>\<open>repo\<close>, so that the
  paths are \<^verbatim>\<open>/repos/OWNER//releases/ID/assets\<close> and \<^verbatim>\<open>/repos/OWNER//releases/assets/ID\<close>.
  What the provider answers to such a request is a parameter of the world: \<open>gh_unscoped\<close>
  is the status it answers with, or \<open>None\<close> when it serves the request by the identifier
  alone.
\<close>

definition gh_request ::
  "call \<Rightarrow> (world \<Rightarrow> nat option) \<Rightarrow> world \<Rightarrow> (nat \<times> bool) option \<times> world" where
  "gh_request c refusal w =
     (case gh_fault w (length (trace w)) of
        Some f \<Rightarrow> (Some f, record_call c w)
      | None \<Rightarrow>
          (case refusal w of
             Some st \<Rightarrow> (Some (st, False), record_call c w)
           | None \<Rightarrow> (None, record_call c w)))"

text \<open>\<^verbatim>\<open>handleGitHubError(error, operation)\<close>. The status is \<open>None\<close> when the error caught
  has no \<^verbatim>\<open>status\<close> field (an \<^verbatim>\<open>AppError\<close> thrown by an inner call); the flag says that the
  header \<^verbatim>\<open>x-ratelimit-remaining\<close> is \<^verbatim>\<open>'0'\<close>.\<close>

definition handleGitHubError :: "nat option \<Rightarrow> bool \<Rightarrow> string \<Rightarrow> app_error" where
  "handleGitHubError status rateLimit0 operation =
     (if status = Some 401 then
        AppError ''GitHub authentication failed'' GITHUB_UNAUTHORIZED 401
      else if status = Some 403 then
        (if rateLimit0 then AppError ''GitHub API rate limit exceeded'' GITHUB_RATE_LIMIT 429
         else AppError ''GitHub API access forbidden'' GITHUB_UNAUTHORIZED 403)
      else if status = Some 404 then
        AppError ''GitHub resource not found'' GITHUB_API_ERROR 404
      else if status = Some 422 then
        AppError ''GitHub API validation error'' GITHUB_API_ERROR 422
      else AppError (''GitHub '' @ operation @ '' failed'') GITHUB_API_ERROR
             (case status of None \<Rightarrow> 500 | Some st \<Rightarrow> if st = 0 then 500 else st))"

record gh_repo =
  g_id :: string
  g_name :: string

definition gh_createRepository ::
  "string \<Rightarrow> string \<Rightarrow> world \<Rightarrow> (app_error + gh_repo) \<times> world" where
  "gh_createRepository repoName description w =
     (case gh_request (GhCreateRepo repoName)
             (\<lambda>w. if repoName \<in> set (gh_repos w) then Some 422 else None) w of
        (Some (st, r0), w1) \<Rightarrow> (Inl (handleGitHubError (Some st) r0 ''repository creation''), w1)
      | (None, w1) \<Rightarrow>
          (Inr \<lparr>g_id = digits (clock w1), g_name = repoName\<rparr>,
           w1\<lparr>gh_repos := gh_repos w1 @ [repoName]\<rparr>))"

definition gh_createRepositoryWithRetry ::
  "string \<Rightarrow> string \<Rightarrow> world \<Rightarrow> (app_error + gh_repo) \<times> world" where
  "gh_createRepositoryWithRetry repoName description w =
     retryWithBackoff (gh_createRepository repoName description) MAX_RETRIES 1000 w"

definition gh_repositoryExists :: "string \<Rightarrow> world \<Rightarrow> (app_error + bool) \<times> world" where
  "gh_repositoryExists repoName w =
     (case gh_request (GhGetRepo repoName)
             (\<lambda>w. if repoName \<in> set (gh_repos w) then None else Some 404) w of
        (None, w1) \<Rightarrow> (Inr True, w1)
      | (Some (st, r0), w1) \<Rightarrow>
          if st = 404 then (Inr False, w1)
          else (Inl (handleGitHubError (Some st) r0 ''repository existence check''), w1))"

definition gh_getRepository :: "string \<Rightarrow> world \<Rightarrow> (app_error + gh_repo) \<times> world" where
  "gh_getRepository repoName w =
     (case gh_request (GhGetRepo repoName)
             (\<lambda>w. if repoName \<in> set (gh_repos w) then None else Some 404) w of
        (Some (st, r0), w1) \<Rightarrow> (Inl (handleGitHubError (Some st) r0 ''repository retrieval''), w1)
      | (None, w1) \<Rightarrow> (Inr \<lparr>g_id = [], g_name = repoName\<rparr>, w1))"

text \<open>\<^verbatim>\<open>createRelease\<close> returns the identifier of the new release.\<close>

definition gh_createRelease :: "string \<Rightarrow> world \<Rightarrow> (app_error + string) \<times> world" where
  "gh_createRelease repoName w =
     (case gh_request (GhCreateRelease repoName)
             (\<lambda>w. if repoName \<in> set (gh_repos w) then None else Some 404) w of
        (Some (st, r0), w1) \<Rightarrow> (Inl (handleGitHubError (Some st) r0 ''release creation''), w1)
      | (None, w1) \<Rightarrow> (Inr (digits (clock w1)), w1))"

text \<open>\<^verbatim>\<open>uploadReleaseAsset\<close>: the asset is stored under the repository of the release; the
  buffer is known by its length.\<close>

definition gh_uploadReleaseAsset ::
  "string \<Rightarrow> string \<Rightarrow> nat \<Rightarrow> string \<Rightarrow> world \<Rightarrow> (app_error + asset) \<times> world" where
  "gh_uploadReleaseAsset repoName fname bytes contentType w =
     (case gh_request (GhUploadAsset repoName fname) (\<lambda>w. None) w of
        (Some (st, r0), w1) \<Rightarrow> (Inl (handleGitHubError (Some st) r0 ''asset upload''), w1)
      | (None, w1) \<Rightarrow>
          (let a = \<lparr>asset_id = digits (clock w1), asset_repo = repoName, asset_size = bytes\<rparr>
           in (Inr a, w1\<lparr>gh_assets := gh_assets w1 @ [a]\<rparr>)))"

record upload_result =
  ur_releaseId :: string
  ur_assetId :: string
  ur_downloadUrl :: string

text \<open>\<^verbatim>\<open>uploadFile\<close> of the provider client: one release, then one asset. Whatever an
  inner call throws is an \<^verbatim>\<open>AppError\<close> without a \<^verbatim>\<open>status\<close> field, which the outer handler
  turns into the generic error of the operation.\<close>

definition gh_uploadFile ::
  "string \<Rightarrow> string \<Rightarrow> nat \<Rightarrow> string \<Rightarrow> world \<Rightarrow> (app_error + upload_result) \<times> world" where
  "gh_uploadFile repoName fname bytes contentType w =
     (case gh_createRelease repoName w of
        (Inl e, w1) \<Rightarrow> (Inl (handleGitHubError None False ''file upload''), w1)
      | (Inr release, w1) \<Rightarrow>
          (case gh_uploadReleaseAsset repoName fname bytes contentType w1 of
             (Inl e, w2) \<Rightarrow> (Inl (handleGitHubError None False ''file upload''), w2)
           | (Inr a, w2) \<Rightarrow>
               (Inr \<lparr>ur_releaseId = release, ur_assetId = asset_id a,
                     ur_downloadUrl = ''https://github.com/'' @ repoName
                       @ ''/releases/download/'' @ release @ ''/'' @ fname\<rparr>, w2)))"

text \<open>\<^verbatim>\<open>deleteReleaseAsset\<close>: the request names no repository; a not-found answer is not
  an error.\<close>

definition gh_deleteReleaseAsset :: "string \<Rightarrow> world \<Rightarrow> (app_error + unit) \<times> world" where
  "gh_deleteReleaseAsset assetId w =
     (case gh_request (GhDeleteAsset assetId)
             (\<lambda>w. case gh_unscoped w of
                    Some st \<Rightarrow> Some st
                  | None \<Rightarrow> if assetId \<in> set (map asset_id (gh_assets w)) then None
                            else Some 404) w of
        (None, w1) \<Rightarrow>
          (Inr (), w1\<lparr>gh_assets := filter (\<lambda>a. asset_id a \<noteq> assetId) (gh_assets w1)\<rparr>)
      | (Some (st, r0), w1) \<Rightarrow>
          if st = 404 then (Inr (), w1)
          else (Inl (handleGitHubError (Some st) r0 ''asset deletion''), w1))"

record repo_stats =
  releaseCount :: nat
  assetCount :: nat
  totalAssetSize :: nat
  totalAssetSizeMb :: rat

text \<open>\<^verbatim>\<open>listReleases({owner, repo, per_page: 100})\<close> is asked once: the provider answers
  with one page of at most 100 releases, the newest first.\<close>

definition first_page :: "string \<Rightarrow> world \<Rightarrow> asset list" where
  "first_page repoName w =
     take 100 (rev (filter (\<lambda>a. asset_repo a = repoName) (gh_assets w)))"

text \<open>The loop of \<^verbatim>\<open>getRepositoryStats\<close> over the releases: one listing request per
  release, sent without the name of the repository, adding up the number and the sizes
  of the assets.\<close>

fun sum_release_assets ::
  "asset list \<Rightarrow> nat \<Rightarrow> nat \<Rightarrow> world \<Rightarrow> (app_error + nat \<times> nat) \<times> world" where
  "sum_release_assets [] totalAssets totalSize w = (Inr (totalAssets, totalSize), w)"
| "sum_release_assets (a # rest) totalAssets totalSize w =
     (case gh_request (GhListAssets (asset_id a)) gh_unscoped w of
        (Some (st, r0), w1) \<Rightarrow>
          (Inl (handleGitHubError (Some st) r0 ''repository stats retrieval''), w1)
      | (None, w1) \<Rightarrow> sum_release_assets rest (totalAssets + 1) (totalSize + asset_size a) w1)"

definition gh_getRepositoryStats ::
  "string \<Rightarrow> world \<Rightarrow> (app_error + repo_stats) \<times> world" where
  "gh_getRepositoryStats repoName w =
     (case gh_getRepository repoName w of
        (Inl e, w1) \<Rightarrow> (Inl (handleGitHubError None False ''repository stats retrieval''), w1)
      | (Inr g, w1) \<Rightarrow>
          (case gh_request (GhListReleases repoName)
                  (\<lambda>w. if repoName \<in> set (gh_repos w) then None else Some 404) w1 of
             (Some (st, r0), w2) \<Rightarrow>
               (Inl (handleGitHubError (Some st) r0 ''repository stats retrieval''), w2)
           | (None, w2) \<Rightarrow>
               (let releases = first_page repoName w2 in
                case sum_release_assets releases 0 0 w2 of
                  (Inl e, w3) \<Rightarrow> (Inl e, w3)
                | (Inr (n, bytes), w3) \<Rightarrow>
                    (Inr \<lparr>releaseCount = length releases, assetCount = n,
                          totalAssetSize = bytes,
                          totalAssetSizeMb = bytesToMb (int bytes)\<rparr>, w3))))"

subsection \<open>Repository manager (\<^verbatim>\<open>services/repoManager.js\<close>)\<close>

text \<open>
  Every error that reaches a \<^verbatim>\<open>catch\<close> block of the two managers is an \<^verbatim>\<open>AppError\<close> (the
  two clients throw nothing else), so the blocks
  \<^verbatim>\<open>if (error instanceof AppError) throw error\<close> pass the error on unchanged.

  \<^verbatim>\<open>createNewRepository(userId, bucketNumber)\<close>: when the name exists at the provider the
  function calls itself with the next bucket number.
\<close>

function rm_createNewRepository ::
  "string \<Rightarrow> nat \<Rightarrow> world \<Rightarrow> (app_error + repo) \<times> world" where
  "rm_createNewRepository userId bucketNumber w =
     (case gh_repositoryExists (generateRepoName userId bucketNumber) w of
        (Inl e, w1) \<Rightarrow> (Inl e, w1)
      | (Inr exists, w1) \<Rightarrow>
          if exists then rm_createNewRepository userId (bucketNumber + 1) w1
          else
            (case gh_createRepositoryWithRetry (generateRepoName userId bucketNumber)
                    (''FreeDrive storage bucket '' @ digits bucketNumber @ '' for user ''
                       @ userId) w1 of
               (Inl e, w2) \<Rightarrow> (Inl e, w2)
             | (Inr githubRepo, w2) \<Rightarrow>
                 sb_createRepository
                   \<lparr>rd_userId = userId,
                    rd_name = generateRepoName userId bucketNumber,
                    rd_githubRepoId = g_id githubRepo,
                    rd_maxSizeMb = bytesToMb (MAX_REPO_SIZE_BYTES w2)\<rparr> w2))"
  by pat_completeness auto

text \<open>The inverse of the decimal rendering, to tell the names of two buckets apart.\<close>

definition undigits :: "string \<Rightarrow> nat" where
  "undigits cs = foldl (\<lambda>acc c. 10 * acc + (of_char c - 48)) 0 cs"

lemma undigits_digits: "undigits (digits n) = n"
proof (induction n rule: digits.induct)
  case (1 n)
  show ?case
  proof (cases "n < 10")
    case True
    then have "digits n = [char_of (48 + n)]" by (subst digits.simps) simp
    with True show ?thesis by (simp add: undigits_def)
  next
    case False
    with 1 have ih: "undigits (digits (n div 10)) = n div 10" by simp
    have "digits n = digits (n div 10) @ [char_of (48 + n mod 10)]"
      using False by (subst digits.simps) simp
    then have "undigits (digits n) = 10 * undigits (digits (n div 10)) + n mod 10"
      by (simp add: undigits_def)
    with ih show ?thesis by simp
  qed
qed

lemma generateRepoName_inj:
  "generateRepoName u a = generateRepoName u b \<Longrightarrow> a = b"
proof -
  assume "generateRepoName u a = generateRepoName u b"
  then have "digits a = digits b" by (simp add: generateRepoName_def)
  then have "undigits (digits a) = undigits (digits b)" by simp
  then show ?thesis by (simp add: undigits_digits)
qed

lemma finite_bucket_numbers: "finite {k. generateRepoName u k \<in> set xs}"
proof -
  have "inj (generateRepoName u)"
    by (rule injI) (rule generateRepoName_inj)
  then have "finite (generateRepoName u -` set xs)"
    by (intro finite_vimageI) simp_all
  then show ?thesis by (simp add: vimage_def)
qed

lemma gh_repositoryExists_True:
  "gh_repositoryExists n w = (Inr True, w1) \<Longrightarrow> n \<in> set (gh_repos w) \<and> gh_repos w1 = gh_repos w"
  by (auto simp: gh_repositoryExists_def gh_request_def record_call_def
           split: option.splits if_splits prod.splits)

termination rm_createNewRepository
proof (relation "measure (\<lambda>(u, b, w). card {k. b \<le> k \<and> generateRepoName u k \<in> set (gh_repos w)})")
  show "wf (measure (\<lambda>(u, b, w). card {k. b \<le> k \<and> generateRepoName u k \<in> set (gh_repos w)}))"
    by simp
next
  fix userId :: string and bucketNumber :: nat and w :: world and x y x2
  assume call: "(x, y) = gh_repositoryExists (generateRepoName userId bucketNumber) w"
    and "x = Inr x2" and "x2"
  then have "gh_repositoryExists (generateRepoName userId bucketNumber) w = (Inr True, y)"
    by simp
  then have here: "generateRepoName userId bucketNumber \<in> set (gh_repos w)"
    and same: "gh_repos y = gh_repos w"
    using gh_repositoryExists_True by blast+
  let ?A = "{k. bucketNumber \<le> k \<and> generateRepoName userId k \<in> set (gh_repos w)}"
  let ?B = "{k. bucketNumber + 1 \<le> k \<and> generateRepoName userId k \<in> set (gh_repos w)}"
  have fin: "finite ?A"
    by (rule finite_subset [OF _ finite_bucket_numbers [of userId "gh_repos w"]]) auto
  have "bucketNumber \<in> ?A" and "bucketNumber \<notin> ?B" using here by simp_all
  moreover have "?B \<subseteq> ?A" by auto
  ultimately have "?B \<subset> ?A" by blast
  with fin have "card ?B < card ?A" by (rule psubset_card_mono)
  with same show "((userId, bucketNumber + 1, y), (userId, bucketNumber, w))
      \<in> measure (\<lambda>(u, b, w). card {k. b \<le> k \<and> generateRepoName u k \<in> set (gh_repos w)})"
    by simp
qed

declare rm_createNewRepository.simps [simp del]

text \<open>\<^verbatim>\<open>getAvailableRepository(userId, fileSizeBytes)\<close> of the repository manager.\<close>

definition rm_getAvailableRepository ::
  "string \<Rightarrow> nat \<Rightarrow> world \<Rightarrow> (app_error + repo) \<times> world" where
  "rm_getAvailableRepository userId fileSizeBytes w =
     (case sb_getAvailableRepository userId (bytesToMb (int fileSizeBytes)) w of
        (Inl e, w1) \<Rightarrow> (Inl e, w1)
      | (Inr (Some availableRepo), w1) \<Rightarrow> (Inr availableRepo, w1)
      | (Inr None, w1) \<Rightarrow>
          (case sb_getUserRepositories userId False w1 of
             (Inl e, w2) \<Rightarrow> (Inl e, w2)
           | (Inr allRepos, w2) \<Rightarrow>
               rm_createNewRepository userId (length allRepos + 1) w2))"

text \<open>\<^verbatim>\<open>updateRepositorySize(repoId, sizeChangeMb)\<close> of the repository manager reads the
  current row through \<^verbatim>\<open>getUserRepositories('', false)\<close>, that is, among the rows whose
  \<^verbatim>\<open>user_id\<close> is the empty string.\<close>

definition rm_updateRepositorySize ::
  "nat \<Rightarrow> rat \<Rightarrow> world \<Rightarrow> (app_error + repo) \<times> world" where
  "rm_updateRepositorySize repoId sizeChangeMb w =
     (case sb_getUserRepositories [] False w of
        (Inl e, w1) \<Rightarrow> (Inl e, w1)
      | (Inr rs, w1) \<Rightarrow>
          (case find (\<lambda>r. rid r = repoId) rs of
             None \<Rightarrow> (Inl (AppError ''Repository not found'' REPO_NOT_FOUND 404), w1)
           | Some currentRepo \<Rightarrow>
               sb_updateRepositorySize repoId
                 (max 0 (size_mb currentRepo + sizeChangeMb)) w1))"

text \<open>\<^verbatim>\<open>shouldRotateRepository(repository, additionalSizeMb)\<close>;
  \<^verbatim>\<open>repository.max_size_mb || Helpers.bytesToMb(MAX_REPO_SIZE_BYTES)\<close> takes the configured
  maximum when the field is zero.\<close>

definition shouldRotateRepository :: "world \<Rightarrow> repo \<Rightarrow> rat \<Rightarrow> bool" where
  "shouldRotateRepository w repository additionalSizeMb =
     (let totalSizeAfterUpload = size_mb repository + additionalSizeMb;
          maxSize = (if max_size_mb repository = 0 then bytesToMb (MAX_REPO_SIZE_BYTES w)
                     else max_size_mb repository);
          rotationThreshold = maxSize * (9 / 10)
      in totalSizeAfterUpload > rotationThreshold)"

record synced_item =
  sy_repository :: string
  sy_oldSize :: rat
  sy_newSize :: rat
  sy_difference :: rat

record validation_results =
  valid :: "string list"
  invalid :: "(string \<times> string) list"
  synced :: "synced_item list"

text \<open>The body of the loop of \<^verbatim>\<open>validateAndSyncRepositories\<close> for one repository, without
  its \<^verbatim>\<open>try\<close>: it answers whether the repository exists at the provider and, when the
  cached size was overwritten, the entry for the list \<^verbatim>\<open>synced\<close>.\<close>

definition validate_one ::
  "repo \<Rightarrow> world \<Rightarrow> (app_error + bool \<times> synced_item option) \<times> world" where
  "validate_one r w =
     (case gh_repositoryExists (name r) w of
        (Inl e, w1) \<Rightarrow> (Inl e, w1)
      | (Inr exists, w1) \<Rightarrow>
          if exists then
            (case gh_getRepositoryStats (name r) w1 of
               (Inl e, w2) \<Rightarrow> (Inl e, w2)
             | (Inr githubStats, w2) \<Rightarrow>
                 (let sizeDifferenceMb = \<bar>size_mb r - totalAssetSizeMb githubStats\<bar> in
                  if sizeDifferenceMb > 10 then
                    (case sb_updateRepositorySize (rid r) (totalAssetSizeMb githubStats) w2 of
                       (Inl e, w3) \<Rightarrow> (Inl e, w3)
                     | (Inr u, w3) \<Rightarrow>
                         (Inr (True, Some \<lparr>sy_repository = name r, sy_oldSize = size_mb r,
                                 sy_newSize = totalAssetSizeMb githubStats,
                                 sy_difference = sizeDifferenceMb\<rparr>), w3))
                  else (Inr (True, None), w2)))
          else (Inr (False, None), w1))"

text \<open>The loop: an error of one repository puts it on the list \<^verbatim>\<open>invalid\<close> and the loop
  goes on.\<close>

fun validate_loop ::
  "repo list \<Rightarrow> validation_results \<Rightarrow> world \<Rightarrow> validation_results \<times> world" where
  "validate_loop [] res w = (res, w)"
| "validate_loop (r # rest) res w =
     (case validate_one r w of
        (Inl e, w1) \<Rightarrow>
          validate_loop rest (res\<lparr>invalid := invalid res @ [(name r, message e)]\<rparr>) w1
      | (Inr (exists, sy), w1) \<Rightarrow>
          if exists then
            validate_loop rest
              (res\<lparr>valid := valid res @ [name r],
                   synced := synced res @ (case sy of None \<Rightarrow> [] | Some i \<Rightarrow> [i])\<rparr>) w1
          else
            validate_loop rest
              (res\<lparr>invalid := invalid res
                    @ [(name r, ''Repository not found on GitHub'')]\<rparr>) w1)"

definition validateAndSyncRepositories ::
  "string \<Rightarrow> world \<Rightarrow> (app_error + validation_results) \<times> world" where
  "validateAndSyncRepositories userId w =
     (case sb_getUserRepositories userId False w of
        (Inl e, w1) \<Rightarrow> (Inl e, w1)
      | (Inr repositories, w1) \<Rightarrow>
          (case validate_loop repositories \<lparr>valid = [], invalid = [], synced = []\<rparr> w1 of
             (res, w2) \<Rightarrow> (Inr res, w2)))"

subsection \<open>The sync route (\<^verbatim>\<open>POST /api/repos/:id/sync\<close> of \<^verbatim>\<open>routes/repos.js\<close>)\<close>

record sync_result =
  sync_id :: nat
  sync_name :: string
  sync_sizeMb :: rat
  sync_maxSizeMb :: rat
  sync_stats :: repo_stats
  sizeDifferenceMb :: rat
  wasUpdated :: bool

definition syncRepository ::
  "string \<Rightarrow> nat \<Rightarrow> world \<Rightarrow> (app_error + sync_result) \<times> world" where
  "syncRepository userId repoId w =
     (case sb_getUserRepositories userId False w of
        (Inl e, w1) \<Rightarrow> (Inl e, w1)
      | (Inr repositories, w1) \<Rightarrow>
          (case find (\<lambda>r. rid r = repoId) repositories of
             None \<Rightarrow> (Inl (AppError ''Repository not found'' REPO_NOT_FOUND 404), w1)
           | Some repository \<Rightarrow>
               (case gh_getRepositoryStats (name repository) w1 of
                  (Inl e, w2) \<Rightarrow> (Inl e, w2)
                | (Inr githubStats, w2) \<Rightarrow>
                    (let diff = \<bar>size_mb repository - totalAssetSizeMb githubStats\<bar> in
                     case (if diff > 1
                           then sb_updateRepositorySize repoId (totalAssetSizeMb githubStats) w2
                           else (Inr repository, w2)) of
                       (Inl e, w3) \<Rightarrow> (Inl e, w3)
                     | (Inr updatedRepo, w3) \<Rightarrow>
                         (Inr \<lparr>sync_id = rid updatedRepo, sync_name = name updatedRepo,
                               sync_sizeMb = size_mb updatedRepo,
                               sync_maxSizeMb = max_size_mb updatedRepo,
                               sync_stats = githubStats,
                               sizeDifferenceMb = diff,
                               wasUpdated = (diff > 1)\<rparr>, w3)))))"

subsection \<open>File manager (\<^verbatim>\<open>services/fileManager.js\<close>)\<close>

text \<open>The file object handed over by the upload middleware; the buffer is known by its
  length \<open>size_bytes\<close> (the field \<^verbatim>\<open>size\<close>).\<close>

record upload =
  originalname :: string
  mimetype :: string
  size_bytes :: nat

text \<open>White space (what \<^verbatim>\<open>\s\<close> and \<^verbatim>\<open>trim()\<close> take for it: among the code units up to 255
  the tabulators, the line terminators, the space and the no-break space) and the
  characters of \<^verbatim>\<open>[<>:"/\\|?*]\<close>, by their codes.\<close>

definition is_space :: "char \<Rightarrow> bool" where
  "is_space c = ((of_char c :: nat) \<in> set [9, 10, 11, 12, 13, 32, 160])"

definition unsafe_char :: "char \<Rightarrow> bool" where
  "unsafe_char c = ((of_char c :: nat) \<in> set [60, 62, 58, 34, 47, 92, 124, 63, 42])"

text \<open>Every maximal run of characters with \<open>p\<close> becomes one underscore.\<close>

function collapse :: "(char \<Rightarrow> bool) \<Rightarrow> string \<Rightarrow> string" where
  "collapse p [] = []"
| "collapse p (c # cs) =
     (if p c then CHR ''_'' # collapse p (dropWhile p cs) else c # collapse p cs)"
  by pat_completeness auto
termination
  by (relation "measure (\<lambda>(p, cs). length cs)")
     (auto simp: less_Suc_eq_le length_dropWhile_le)

definition sanitizeFilename :: "string \<Rightarrow> string" where
  "sanitizeFilename fname =
     take 255
       (rev (dropWhile (\<lambda>c. c = CHR ''_'')
          (rev (dropWhile (\<lambda>c. c = CHR ''_'')
             (collapse (\<lambda>c. c = CHR ''_'')
                (collapse is_space
                   (map (\<lambda>c. if unsafe_char c then CHR ''_'' else c) fname)))))))"

text \<open>\<^verbatim>\<open>generateUniqueFilename\<close>: the base name without its last extension, every character
  outside letters and digits replaced by an underscore, then the time stamp, the random
  suffix (taken from the world) and the extension.\<close>

definition file_extension :: "string \<Rightarrow> string" where
  "file_extension s = rev (takeWhile (\<lambda>c. c \<noteq> CHR ''.'') (rev s))"

definition strip_extension :: "string \<Rightarrow> string" where
  "strip_extension s =
     (let e = file_extension s in
      if CHR ''.'' \<in> set s \<and> e \<noteq> [] \<and> CHR ''/'' \<notin> set e
      then take (length s - length e - 1) s else s)"

definition generateUniqueFilename :: "world \<Rightarrow> string \<Rightarrow> string" where
  "generateUniqueFilename w originalName =
     map (\<lambda>c. if alnum c then c else CHR ''_'') (strip_extension originalName)
       @ ''_'' @ digits (clock w) @ ''_'' @ unique_suffix w (length (trace w))
       @ ''.'' @ file_extension originalName"

text \<open>\<^verbatim>\<open>validateFile(file)\<close>: \<open>None\<close> when the file passes, otherwise the error thrown.\<close>

definition validateFile :: "world \<Rightarrow> upload option \<Rightarrow> app_error option" where
  "validateFile w file =
     (case file of
        None \<Rightarrow> Some (AppError ''No file provided'' VALIDATION_ERROR 400)
      | Some f \<Rightarrow>
          if int (size_bytes f) > MAX_FILE_SIZE_BYTES w then
            Some (AppError ''File too large'' FILE_TOO_LARGE 413)
          else if mimetype f \<notin> set ALLOWED_MIME_TYPES then
            Some (AppError ''Invalid file type'' INVALID_FILE_TYPE 400)
          else if originalname f = [] \<or> list_all is_space (originalname f) then
            Some (AppError ''Invalid filename'' VALIDATION_ERROR 400)
          else if length (sanitizeFilename (originalname f)) = 0 then
            Some (AppError ''Invalid filename'' VALIDATION_ERROR 400)
          else None)"

record file_summary =
  fs_id :: nat
  fs_filename :: string
  fs_originalName :: string
  fs_size :: nat
  fs_sizeMb :: rat
  fs_mimeType :: string
  fs_downloadUrl :: string
  fs_repository :: string

record repo_summary =
  rs_id :: nat
  rs_name :: string
  sizeAfterUpload :: rat

record upload_ok =
  up_file :: file_summary
  up_repository :: repo_summary

text \<open>The steps of \<^verbatim>\<open>uploadFile\<close> after the destination is fixed: upload to the provider,
  insert the row of the file, update the size of the repository, compose the result.
  \<open>repository\<close> is the in-memory object of the source.\<close>

definition store_file ::
  "upload \<Rightarrow> string \<Rightarrow> string \<Rightarrow> repo \<Rightarrow> world \<Rightarrow> (app_error + upload_ok) \<times> world" where
  "store_file f userId uniqueFilename repository w =
     (case gh_uploadFile (name repository) uniqueFilename (size_bytes f) (mimetype f) w of
        (Inl e, w1) \<Rightarrow> (Inl e, w1)
      | (Inr uploadResult, w1) \<Rightarrow>
          (case sb_createFile
                  \<lparr>fid = 0, f_user_id = userId, repo_id = Some (rid repository),
                   filename = uniqueFilename, original_name = originalname f,
                   f_size_mb = bytesToMb (int (size_bytes f)), mime_type = mimetype f,
                   download_url = ur_downloadUrl uploadResult,
                   gh_release_id = ur_releaseId uploadResult,
                   gh_asset_id = ur_assetId uploadResult\<rparr> w1 of
             (Inl e, w2) \<Rightarrow> (Inl e, w2)
           | (Inr dbFile, w2) \<Rightarrow>
               (case rm_updateRepositorySize (rid repository)
                       (bytesToMb (int (size_bytes f))) w2 of
                  (Inl e, w3) \<Rightarrow> (Inl e, w3)
                | (Inr u, w3) \<Rightarrow>
                    (Inr \<lparr>up_file =
                            \<lparr>fs_id = fid dbFile, fs_filename = filename dbFile,
                             fs_originalName = original_name dbFile,
                             fs_size = size_bytes f,
                             fs_sizeMb = bytesToMb (int (size_bytes f)),
                             fs_mimeType = mime_type dbFile,
                             fs_downloadUrl = download_url dbFile,
                             fs_repository = name repository\<rparr>,
                          up_repository =
                            \<lparr>rs_id = rid repository, rs_name = name repository,
                             sizeAfterUpload =
                               size_mb repository + bytesToMb (int (size_bytes f))\<rparr>\<rparr>,
                     w3))))"

text \<open>\<^verbatim>\<open>uploadFile(file, userId)\<close>: validation, the unique file name, the destination
  from the repository manager, the rotation check (which overwrites the fields \<^verbatim>\<open>id\<close> and
  \<^verbatim>\<open>name\<close> of the in-memory repository), then the steps of \<open>store_file\<close>.\<close>

definition uploadFile ::
  "upload option \<Rightarrow> string \<Rightarrow> world \<Rightarrow> (app_error + upload_ok) \<times> world" where
  "uploadFile file userId w =
     (case validateFile w file of
        Some e \<Rightarrow> (Inl e, w)
      | None \<Rightarrow>
          (case file of
             None \<Rightarrow> (Inl (AppError ''No file provided'' VALIDATION_ERROR 400), w)
           | Some f \<Rightarrow>
               (let uniqueFilename = generateUniqueFilename w (originalname f) in
                case rm_getAvailableRepository userId (size_bytes f) w of
                  (Inl e, w1) \<Rightarrow> (Inl e, w1)
                | (Inr repository, w1) \<Rightarrow>
                    if shouldRotateRepository w1 repository (bytesToMb (int (size_bytes f)))
                    then
                      (case sb_getUserRepositories userId False w1 of
                         (Inl e, w2) \<Rightarrow> (Inl e, w2)
                       | (Inr allRepos, w2) \<Rightarrow>
                           (case rm_createNewRepository userId (length allRepos + 1) w2 of
                              (Inl e, w3) \<Rightarrow> (Inl e, w3)
                            | (Inr newRepo, w3) \<Rightarrow>
                                store_file f userId uniqueFilename
                                  (repository\<lparr>rid := rid newRepo, name := name newRepo\<rparr>) w3))
                    else store_file f userId uniqueFilename repository w1)))"

record failed_item =
  fi_filename :: string
  fi_error :: string
  fi_code :: error_code

record batch_results =
  successful :: "file_summary list"
  failed :: "failed_item list"
  totalSize :: nat

text \<open>The loop of \<^verbatim>\<open>uploadMultipleFiles\<close>; \<^verbatim>\<open>i < files.length - 1\<close> holds when files are
  left after the current one.\<close>

fun upload_loop ::
  "upload list \<Rightarrow> string \<Rightarrow> batch_results \<Rightarrow> world \<Rightarrow> batch_results \<times> world" where
  "upload_loop [] userId results w = (results, w)"
| "upload_loop (f # rest) userId results w =
     (case uploadFile (Some f) userId w of
        (Inr uploadResult, w1) \<Rightarrow>
          upload_loop rest userId
            (results\<lparr>successful := successful results @ [up_file uploadResult],
                     totalSize := totalSize results + size_bytes f\<rparr>)
            (if rest \<noteq> [] then delay 500 w1 else w1)
      | (Inl e, w1) \<Rightarrow>
          upload_loop rest userId
            (results\<lparr>failed := failed results
               @ [\<lparr>fi_filename = originalname f, fi_error = message e, fi_code = code e\<rparr>]\<rparr>)
            w1)"

record batch_upload =
  success :: bool
  summary_totalFiles :: nat
  summary_successful :: nat
  summary_failed :: nat
  summary_totalSize :: nat
  uploaded :: "file_summary list"
  errors :: "failed_item list"

definition uploadMultipleFiles ::
  "upload list \<Rightarrow> string \<Rightarrow> world \<Rightarrow> (app_error + batch_upload) \<times> world" where
  "uploadMultipleFiles fs userId w =
     (if length fs = 0 then (Inl (AppError ''No files provided'' VALIDATION_ERROR 400), w)
      else
        (case upload_loop fs userId \<lparr>successful = [], failed = [], totalSize = 0\<rparr> w of
           (results, w1) \<Rightarrow>
             (Inr \<lparr>success = (length (failed results) = 0),
                   summary_totalFiles = length fs,
                   summary_successful = length (successful results),
                   summary_failed = length (failed results),
                   summary_totalSize = totalSize results,
                   uploaded = successful results,
                   errors = failed results\<rparr>, w1)))"

text \<open>\<^verbatim>\<open>getFile(fileId, userId)\<close>; the branch \<^verbatim>\<open>if (!file)\<close> is never taken, the store client
  throws instead.\<close>

record file_info =
  gi_id :: nat
  gi_filename :: string
  gi_originalName :: string
  gi_sizeMb :: rat
  gi_repository :: string

definition getFile :: "nat \<Rightarrow> string \<Rightarrow> world \<Rightarrow> (app_error + file_info) \<times> world" where
  "getFile fileId userId w =
     (case sb_getFileById fileId userId w of
        (Inl e, w1) \<Rightarrow> (Inl e, w1)
      | (Inr (f, r), w1) \<Rightarrow>
          (Inr \<lparr>gi_id = fid f, gi_filename = filename f, gi_originalName = original_name f,
                gi_sizeMb = f_size_mb f, gi_repository = name r\<rparr>, w1))"

text \<open>The inner \<^verbatim>\<open>try\<close> of \<^verbatim>\<open>deleteFile\<close>: whatever is thrown while the asset is deleted at
  the provider is caught and deletion goes on; only the world changes.\<close>

definition delete_remote :: "nat \<Rightarrow> string \<Rightarrow> world \<Rightarrow> world" where
  "delete_remote fileId userId w =
     (case sb_getFileById fileId userId w of
        (Inl e, w1) \<Rightarrow> w1
      | (Inr (dbFile, r), w1) \<Rightarrow>
          if gh_asset_id dbFile \<noteq> [] then snd (gh_deleteReleaseAsset (gh_asset_id dbFile) w1)
          else w1)"

record deleted_file =
  df_id :: nat
  df_filename :: string
  df_originalName :: string
  df_size :: rat
  df_sizeMb :: rat

definition deleteFile :: "nat \<Rightarrow> string \<Rightarrow> world \<Rightarrow> (app_error + deleted_file) \<times> world" where
  "deleteFile fileId userId w =
     (case getFile fileId userId w of
        (Inl e, w1) \<Rightarrow> (Inl e, w1)
      | (Inr file, w1) \<Rightarrow>
          (case sb_deleteFile fileId userId (delete_remote fileId userId w1) of
             (Inl e, w2) \<Rightarrow> (Inl e, w2)
           | (Inr deletedFile, w2) \<Rightarrow>
               (case (case repo_id deletedFile of
                        None \<Rightarrow> (Inr (), w2)
                      | Some repoId \<Rightarrow>
                          (case rm_updateRepositorySize repoId (- f_size_mb deletedFile) w2 of
                             (Inl e, w3) \<Rightarrow> (Inl e, w3)
                           | (Inr u, w3) \<Rightarrow> (Inr (), w3))) of
                  (Inl e, w3) \<Rightarrow> (Inl e, w3)
                | (Inr u, w3) \<Rightarrow>
                    (Inr \<lparr>df_id = fid deletedFile, df_filename = filename deletedFile,
                          df_originalName = original_name deletedFile,
                          df_size = f_size_mb deletedFile * 1024 * 1024,
                          df_sizeMb = f_size_mb deletedFile\<rparr>, w3))))"

record delete_results =
  del_successful :: "deleted_file list"
  del_failed :: "(nat \<times> string \<times> error_code) list"
  del_totalSize :: rat

fun delete_loop ::
  "nat list \<Rightarrow> string \<Rightarrow> delete_results \<Rightarrow> world \<Rightarrow> delete_results \<times> world" where
  "delete_loop [] userId results w = (results, w)"
| "delete_loop (fileId # rest) userId results w =
     (case deleteFile fileId userId w of
        (Inr d, w1) \<Rightarrow>
          delete_loop rest userId
            (results\<lparr>del_successful := del_successful results @ [d],
                     del_totalSize := del_totalSize results + df_size d\<rparr>) w1
      | (Inl e, w1) \<Rightarrow>
          delete_loop rest userId
            (results\<lparr>del_failed := del_failed results @ [(fileId, message e, code e)]\<rparr>) w1)"

record batch_delete =
  del_success :: bool
  deletedFiles :: "deleted_file list"
  del_errors :: "(nat \<times> string \<times> error_code) list"

definition deleteMultipleFiles ::
  "nat list \<Rightarrow> string \<Rightarrow> world \<Rightarrow> (app_error + batch_delete) \<times> world" where
  "deleteMultipleFiles fileIds userId w =
     (if length fileIds = 0
      then (Inl (AppError ''No files specified'' VALIDATION_ERROR 400), w)
      else
        (case delete_loop fileIds userId
                \<lparr>del_successful = [], del_failed = [], del_totalSize = 0\<rparr> w of
           (results, w1) \<Rightarrow>
             (Inr \<lparr>del_success = (length (del_failed results) = 0),
                   deletedFiles = del_successful results,
                   del_errors = del_failed results\<rparr>, w1)))"

subsection \<open>The produced interface as a list of calls\<close>

text \<open>The operations the routing layer reaches, and a run of any number of them from a
  world: an upload, a batch upload, a delete, a batch delete, the sync of one repository,
  the validation of all repositories of a user, and a size update of the repository
  manager with an arbitrary change.\<close>

datatype api_call =
    Upload upload string
  | UploadMany "upload list" string
  | Delete nat string
  | DeleteMany "nat list" string
  | Sync string nat
  | ValidateAll string
  | UpdateSize nat rat

fun perform :: "api_call \<Rightarrow> world \<Rightarrow> world" where
  "perform (Upload f u) w = snd (uploadFile (Some f) u w)"
| "perform (UploadMany fs u) w = snd (uploadMultipleFiles fs u w)"
| "perform (Delete i u) w = snd (deleteFile i u w)"
| "perform (DeleteMany ids u) w = snd (deleteMultipleFiles ids u w)"
| "perform (Sync u i) w = snd (syncRepository u i w)"
| "perform (ValidateAll u) w = snd (validateAndSyncRepositories u w)"
| "perform (UpdateSize i d) w = snd (rm_updateRepositorySize i d w)"

text \<open>The invariant of the data model: no cached size in the table is negative.\<close>

definition sizes_nonneg :: "world \<Rightarrow> bool" where
  "sizes_nonneg w = list_all (\<lambda>r. 0 \<le> size_mb r) (repos w)"


definition reported_size_mb :: "string \<Rightarrow> world \<Rightarrow> rat" where
  "reported_size_mb n w = bytesToMb (int (sum_list (map asset_size (first_page n w))))"



text \<open>The statistics of a repository are obtained when the provider answers the
  listings of the assets or there is no release to list; otherwise the error of
  \<open>getRepositoryStats\<close> is the one made from the status of the provider.\<close>

definition stats_answered :: "world \<Rightarrow> string \<Rightarrow> bool" where
  "stats_answered w n = (gh_unscoped w = None \<or> first_page n w = [])"

definition stats_error :: "world \<Rightarrow> app_error" where
  "stats_error w = handleGitHubError (gh_unscoped w) False ''repository stats retrieval''"


section \<open>Example worlds\<close>

text \<open>An empty store and provider, no faults, no environment settings.\<close>

definition world0 :: world where
  "world0 = \<lparr>repos = [], files = [], gh_repos = [], gh_assets = [], trace = [],
     clock = 1000, db_fault = (\<lambda>n. None), gh_fault = (\<lambda>n. None),
     gh_unscoped = None, env_MAX_REPO_SIZE_MB = None, env_MAX_FILE_SIZE_MB = None,
     unique_suffix = (\<lambda>n. ''c0ffee'')\<rparr>"

definition mk_repo :: "nat \<Rightarrow> string \<Rightarrow> string \<Rightarrow> rat \<Rightarrow> bool \<Rightarrow> nat \<Rightarrow> repo" where
  "mk_repo i u n s a t = \<lparr>rid = i, user_id = u, name = n, github_repo_id = digits (900 + i),
     size_mb = s, max_size_mb = 800, is_active = a, created_at = t\<rparr>"

text \<open>Four repositories of one user, stored out of creation order: the fourth and the
  second have room for 50 MB, the first is nearly full, the third is inactive.\<close>

definition world_four :: world where
  "world_four = world0\<lparr>repos :=
     [mk_repo 4 ''alice'' ''user_alice_bucket_4'' 0 True 40,
      mk_repo 2 ''alice'' ''user_alice_bucket_2'' 100 True 20,
      mk_repo 1 ''alice'' ''user_alice_bucket_1'' 790 True 10,
      mk_repo 3 ''alice'' ''user_alice_bucket_3'' 50 False 5]\<rparr>"

text \<open>One repository of 5 MB and one file of 10 MB in it, both of the user whose
  identifier is the empty string; the asset of the file is gone at the provider.\<close>

definition world_small :: world where
  "world_small = world0\<lparr>
     repos := [mk_repo 1 [] ''user__bucket_1'' 5 True 10],
     files := [\<lparr>fid = 1, f_user_id = [], repo_id = Some 1, filename = ''a_1_c0ffee.txt'',
                original_name = ''a.txt'', f_size_mb = 10, mime_type = ''text/plain'',
                download_url = ''https://github.com/user__bucket_1/releases/download/5/a'',
                gh_release_id = ''5'', gh_asset_id = ''6''\<rparr>],
     gh_repos := [''user__bucket_1'']\<rparr>"

text \<open>The provider answers every request with status 500.\<close>

definition world_down :: world where
  "world_down = world0\<lparr>gh_fault := (\<lambda>n. Some (500, False))\<rparr>"


text \<open>A user with one repository at 680 of 800 MB; the provider already knows the name of
  bucket 2.\<close>

definition world_taken :: world where
  "world_taken = world0\<lparr>
     repos := [mk_repo 1 ''u1'' ''user_u1_bucket_1'' 680 True 10],
     gh_repos := [''user_u1_bucket_1'', ''user_u1_bucket_2'']\<rparr>"

text \<open>A text file of 80 MB.\<close>

definition file_80mb :: upload where
  "file_80mb = \<lparr>originalname = ''a.txt'', mimetype = ''text/plain'', size_bytes = 83886080\<rparr>"

text \<open>One repository at 680 of 800 MB (85 percent), present at the provider.\<close>

definition world_rotate :: world where
  "world_rotate = world0\<lparr>
     repos := [mk_repo 1 ''u1'' ''user_u1_bucket_1'' 680 True 10],
     gh_repos := [''user_u1_bucket_1'']\<rparr>"

text \<open>The same for the user whose identifier is the empty string.\<close>

definition world_rotate_anon :: world where
  "world_rotate_anon = world0\<lparr>
     repos := [mk_repo 1 [] ''user__bucket_1'' 680 True 10],
     gh_repos := [''user__bucket_1'']\<rparr>"

text \<open>A text file of 10 MB.\<close>

definition file_10mb :: upload where
  "file_10mb = \<lparr>originalname = ''a.txt'', mimetype = ''text/plain'', size_bytes = 10485760\<rparr>"

text \<open>A user with one repository at 100 of 800 MB.\<close>

definition world_u1 :: world where
  "world_u1 = world0\<lparr>
     repos := [mk_repo 1 ''u1'' ''user_u1_bucket_1'' 100 True 10],
     gh_repos := [''user_u1_bucket_1'']\<rparr>"

text \<open>The same user with a file of 10 MB in the repository, whose cached size is 110 MB.\<close>

definition world_u1_file :: world where
  "world_u1_file = world0\<lparr>
     repos := [mk_repo 1 ''u1'' ''user_u1_bucket_1'' 110 True 10],
     files := [\<lparr>fid = 1, f_user_id = ''u1'', repo_id = Some 1, filename = ''a_1_c0ffee.txt'',
                original_name = ''a.txt'', f_size_mb = 10, mime_type = ''text/plain'',
                download_url = ''https://github.com/user_u1_bucket_1/releases/download/5/a'',
                gh_release_id = ''5'', gh_asset_id = ''6''\<rparr>],
     gh_repos := [''user_u1_bucket_1''],
     gh_assets := [\<lparr>asset_id = ''6'', asset_repo = ''user_u1_bucket_1'',
                    asset_size = 10485760\<rparr>]\<rparr>"

text \<open>The asset of the file is already gone at the provider.\<close>

definition world_u1_gone :: world where
  "world_u1_gone = world_u1_file\<lparr>gh_assets := []\<rparr>"

text \<open>The provider answers the third call, the deletion of the asset, with status 500.\<close>

definition world_u1_refused :: world where
  "world_u1_refused = world_u1_file\<lparr>gh_fault := (\<lambda>n. if n = 2 then Some (500, False) else None)\<rparr>"

text \<open>Three files of a batch: the second has a type that is not allowed.\<close>

definition file_a :: upload where
  "file_a = \<lparr>originalname = ''a.txt'', mimetype = ''text/plain'', size_bytes = 1048576\<rparr>"

definition file_exe :: upload where
  "file_exe = \<lparr>originalname = ''b.exe'', mimetype = ''application/x-msdownload'',
     size_bytes = 1048576\<rparr>"

definition file_c :: upload where
  "file_c = \<lparr>originalname = ''c.txt'', mimetype = ''text/plain'', size_bytes = 2097152\<rparr>"



section \<open>Properties\<close>

subsection \<open>Bookkeeping of the world and calls that are not failed\<close>

lemma record_call_fields [simp]:
  "repos (record_call c w) = repos w"
  "files (record_call c w) = files w"
  "gh_repos (record_call c w) = gh_repos w"
  "gh_assets (record_call c w) = gh_assets w"
  "trace (record_call c w) = trace w @ [c]"
  "clock (record_call c w) = Suc (clock w)"
  "db_fault (record_call c w) = db_fault w"
  "gh_fault (record_call c w) = gh_fault w"
  "gh_unscoped (record_call c w) = gh_unscoped w"
  "env_MAX_REPO_SIZE_MB (record_call c w) = env_MAX_REPO_SIZE_MB w"
  "env_MAX_FILE_SIZE_MB (record_call c w) = env_MAX_FILE_SIZE_MB w"
  "unique_suffix (record_call c w) = unique_suffix w"
  by (simp_all add: record_call_def)

lemma delay_fields [simp]:
  "repos (delay ms w) = repos w"
  "files (delay ms w) = files w"
  "gh_repos (delay ms w) = gh_repos w"
  "gh_assets (delay ms w) = gh_assets w"
  "trace (delay ms w) = trace w @ [Delay ms]"
  "clock (delay ms w) = clock w + ms"
  "db_fault (delay ms w) = db_fault w"
  "gh_fault (delay ms w) = gh_fault w"
  "gh_unscoped (delay ms w) = gh_unscoped w"
  "env_MAX_REPO_SIZE_MB (delay ms w) = env_MAX_REPO_SIZE_MB w"
  "env_MAX_FILE_SIZE_MB (delay ms w) = env_MAX_FILE_SIZE_MB w"
  "unique_suffix (delay ms w) = unique_suffix w"
  by (simp_all add: delay_def)

lemma no_faults_keep [simp]:
  "no_faults (record_call c w) = no_faults w"
  "no_faults (delay ms w) = no_faults w"
  "no_faults (w\<lparr>repos := rs\<rparr>) = no_faults w"
  "no_faults (w\<lparr>files := fs\<rparr>) = no_faults w"
  "no_faults (w\<lparr>gh_repos := ns\<rparr>) = no_faults w"
  "no_faults (w\<lparr>gh_assets := as\<rparr>) = no_faults w"
  by (simp_all add: no_faults_def)

lemma ff_db_call: "no_faults w \<Longrightarrow> db_call c w = (None, record_call c w)"
  by (simp add: db_call_def no_faults_def)

lemma ff_gh_request:
  "no_faults w \<Longrightarrow>
   gh_request c refusal w = (map_option (\<lambda>st. (st, False)) (refusal w), record_call c w)"
  by (simp add: gh_request_def no_faults_def split: option.splits)

lemma ff_sb_getUserRepositories:
  "no_faults w \<Longrightarrow>
   sb_getUserRepositories u a w = (Inr (select_repos u a (repos w)), record_call DbSelectRepos w)"
  by (simp add: sb_getUserRepositories_def ff_db_call)

lemma ff_sb_getAvailableRepository:
  "no_faults w \<Longrightarrow>
   sb_getAvailableRepository u req w =
     (Inr (find (\<lambda>r. size_mb r + req \<le> max_size_mb r) (select_repos u True (repos w))),
      record_call DbSelectRepos w)"
  by (simp add: sb_getAvailableRepository_def ff_db_call)

lemma ff_sb_createRepository:
  "no_faults w \<Longrightarrow>
   sb_createRepository d w =
     (Inr \<lparr>rid = fresh_id (map rid (repos w)), user_id = rd_userId d, name = rd_name d,
           github_repo_id = rd_githubRepoId d, size_mb = 0,
           max_size_mb = (if rd_maxSizeMb d = 0 then 800 else rd_maxSizeMb d),
           is_active = True, created_at = Suc (clock w)\<rparr>,
      (record_call DbInsertRepo w)\<lparr>repos := repos w @
        [\<lparr>rid = fresh_id (map rid (repos w)), user_id = rd_userId d, name = rd_name d,
           github_repo_id = rd_githubRepoId d, size_mb = 0,
           max_size_mb = (if rd_maxSizeMb d = 0 then 800 else rd_maxSizeMb d),
           is_active = True, created_at = Suc (clock w)\<rparr>]\<rparr>)"
  by (simp add: sb_createRepository_def ff_db_call Let_def)

lemma ff_sb_updateRepositorySize:
  "no_faults w \<Longrightarrow> find (\<lambda>r. rid r = i) (repos w) = Some r \<Longrightarrow>
   sb_updateRepositorySize i s w =
     (Inr (r\<lparr>size_mb := s\<rparr>),
      (record_call (DbUpdateRepo i) w)\<lparr>repos :=
         map (\<lambda>x. if rid x = i then x\<lparr>size_mb := s\<rparr> else x) (repos w)\<rparr>)"
  by (simp add: sb_updateRepositorySize_def ff_db_call)

lemma ff_sb_createFile:
  "no_faults w \<Longrightarrow>
   sb_createFile d w =
     (Inr (d\<lparr>fid := fresh_id (map fid (files w))\<rparr>),
      (record_call DbInsertFile w)\<lparr>files := files w @ [d\<lparr>fid := fresh_id (map fid (files w))\<rparr>]\<rparr>)"
  by (simp add: sb_createFile_def ff_db_call Let_def)

lemma ff_sb_getFileById:
  "no_faults w \<Longrightarrow> find (\<lambda>f. fid f = i \<and> f_user_id f = u) (files w) = Some f \<Longrightarrow>
   find (\<lambda>r. Some (rid r) = repo_id f) (repos w) = Some r \<Longrightarrow>
   sb_getFileById i u w = (Inr (f, r), record_call (DbSelectFile i) w)"
  by (simp add: sb_getFileById_def ff_db_call)

lemma ff_sb_deleteFile:
  "no_faults w \<Longrightarrow> find (\<lambda>f. fid f = i \<and> f_user_id f = u) (files w) = Some f \<Longrightarrow>
   sb_deleteFile i u w =
     (Inr f, (record_call (DbDeleteFile i) w)\<lparr>files :=
        filter (\<lambda>x. \<not> (fid x = i \<and> f_user_id x = u)) (files w)\<rparr>)"
  by (simp add: sb_deleteFile_def ff_db_call)

lemma ff_gh_repositoryExists:
  "no_faults w \<Longrightarrow>
   gh_repositoryExists n w = (Inr (n \<in> set (gh_repos w)), record_call (GhGetRepo n) w)"
  by (simp add: gh_repositoryExists_def ff_gh_request)

lemma ff_gh_createRepository:
  "no_faults w \<Longrightarrow> n \<notin> set (gh_repos w) \<Longrightarrow>
   gh_createRepository n d w =
     (Inr \<lparr>g_id = digits (Suc (clock w)), g_name = n\<rparr>,
      (record_call (GhCreateRepo n) w)\<lparr>gh_repos := gh_repos w @ [n]\<rparr>)"
  by (simp add: gh_createRepository_def ff_gh_request)

lemma retryFrom_first_ok:
  "fn w = (Inr v, w1) \<Longrightarrow> retryFrom left attempt fn b w = (Inr v, w1)"
  by (cases left) simp_all

lemma ff_gh_createRepositoryWithRetry:
  "no_faults w \<Longrightarrow> n \<notin> set (gh_repos w) \<Longrightarrow>
   gh_createRepositoryWithRetry n d w =
     (Inr \<lparr>g_id = digits (Suc (clock w)), g_name = n\<rparr>,
      (record_call (GhCreateRepo n) w)\<lparr>gh_repos := gh_repos w @ [n]\<rparr>)"
  by (simp add: gh_createRepositoryWithRetry_def retryWithBackoff_def
      retryFrom_first_ok [OF ff_gh_createRepository])

lemma ff_gh_uploadFile:
  "no_faults w \<Longrightarrow> n \<in> set (gh_repos w) \<Longrightarrow>
   gh_uploadFile n fname bytes ct w =
     (Inr \<lparr>ur_releaseId = digits (Suc (clock w)), ur_assetId = digits (Suc (Suc (clock w))),
           ur_downloadUrl = ''https://github.com/'' @ n @ ''/releases/download/''
              @ digits (Suc (clock w)) @ ''/'' @ fname\<rparr>,
      (record_call (GhUploadAsset n fname) (record_call (GhCreateRelease n) w))\<lparr>gh_assets :=
         gh_assets w @ [\<lparr>asset_id = digits (Suc (Suc (clock w))), asset_repo = n,
                         asset_size = bytes\<rparr>]\<rparr>)"
  by (simp add: gh_uploadFile_def gh_createRelease_def gh_uploadReleaseAsset_def
      ff_gh_request Let_def)

lemma ff_gh_deleteReleaseAsset:
  "no_faults w \<Longrightarrow> gh_unscoped w = None \<Longrightarrow>
   gh_deleteReleaseAsset a w =
     (Inr (), (record_call (GhDeleteAsset a) w)\<lparr>gh_assets :=
        filter (\<lambda>x. asset_id x \<noteq> a) (gh_assets w)\<rparr>)"
proof -
  assume nf: "no_faults w" and "gh_unscoped w = None"
  have "a \<notin> set (map asset_id (gh_assets w)) \<Longrightarrow>
      filter (\<lambda>x. asset_id x \<noteq> a) (gh_assets w) = gh_assets w"
    by (induction "gh_assets w") (auto simp: filter_id_conv)
  then show ?thesis
    using nf \<open>gh_unscoped w = None\<close>
    by (auto simp: gh_deleteReleaseAsset_def ff_gh_request filter_id_conv)
qed

subsection \<open>No operation makes a cached size negative\<close>

lemmas split_all = prod.splits sum.splits option.splits if_splits

lemma nonneg_db_call: "db_call c w = (x, w') \<Longrightarrow> sizes_nonneg w \<Longrightarrow> sizes_nonneg w'"
  by (auto simp: db_call_def record_call_def sizes_nonneg_def)

lemma nonneg_gh_request: "gh_request c r w = (x, w') \<Longrightarrow> sizes_nonneg w \<Longrightarrow> sizes_nonneg w'"
  by (auto simp: gh_request_def record_call_def sizes_nonneg_def Let_def split: split_all)

lemma nonneg_delay: "sizes_nonneg w \<Longrightarrow> sizes_nonneg (delay ms w)"
  by (simp add: delay_def sizes_nonneg_def)

lemma nonneg_sb_updateRepositorySize:
  "sb_updateRepositorySize i s w = (x, w') \<Longrightarrow> 0 \<le> s \<Longrightarrow> sizes_nonneg w \<Longrightarrow> sizes_nonneg w'"
  by (auto simp: sb_updateRepositorySize_def db_call_def record_call_def sizes_nonneg_def list_all_iff split: split_all)

lemma nonneg_sb_createRepository:
  "sb_createRepository d w = (x, w') \<Longrightarrow> sizes_nonneg w \<Longrightarrow> sizes_nonneg w'"
  by (auto simp: sb_createRepository_def db_call_def record_call_def sizes_nonneg_def Let_def split: split_all)

lemma nonneg_sb_getUserRepositories:
  "sb_getUserRepositories u a w = (x, w') \<Longrightarrow> sizes_nonneg w \<Longrightarrow> sizes_nonneg w'"
  by (auto simp: sb_getUserRepositories_def db_call_def record_call_def sizes_nonneg_def split: split_all)

lemma nonneg_sb_getAvailableRepository:
  "sb_getAvailableRepository u a w = (x, w') \<Longrightarrow> sizes_nonneg w \<Longrightarrow> sizes_nonneg w'"
  by (auto simp: sb_getAvailableRepository_def db_call_def record_call_def sizes_nonneg_def split: split_all)

lemma nonneg_sb_createFile:
  "sb_createFile d w = (x, w') \<Longrightarrow> sizes_nonneg w \<Longrightarrow> sizes_nonneg w'"
  by (auto simp: sb_createFile_def db_call_def record_call_def sizes_nonneg_def Let_def split: split_all)

lemma nonneg_sb_getFileById:
  "sb_getFileById i u w = (x, w') \<Longrightarrow> sizes_nonneg w \<Longrightarrow> sizes_nonneg w'"
  by (auto simp: sb_getFileById_def db_call_def record_call_def sizes_nonneg_def Let_def split: split_all)

lemma nonneg_sb_deleteFile:
  "sb_deleteFile i u w = (x, w') \<Longrightarrow> sizes_nonneg w \<Longrightarrow> sizes_nonneg w'"
  by (auto simp: sb_deleteFile_def db_call_def record_call_def sizes_nonneg_def Let_def split: split_all)

lemma nonneg_gh_createRepository:
  "gh_createRepository n d w = (x, w') \<Longrightarrow> sizes_nonneg w \<Longrightarrow> sizes_nonneg w'"
  by (auto simp: gh_createRepository_def gh_request_def record_call_def sizes_nonneg_def Let_def split: split_all)

lemma nonneg_retryFrom:
  assumes "\<And>w x w'. fn w = (x, w') \<Longrightarrow> sizes_nonneg w \<Longrightarrow> sizes_nonneg w'"
  shows "retryFrom left attempt fn b w = (x, w') \<Longrightarrow> sizes_nonneg w \<Longrightarrow> sizes_nonneg w'"
proof (induction left arbitrary: attempt w)
  case 0
  then show ?case using assms by simp
next
  case (Suc left)
  show ?case
  proof (cases "fn w")
    case (Pair r w1)
    with assms Suc.prems have n1: "sizes_nonneg w1" by blast
    show ?thesis
    proof (cases r)
      case (Inl e)
      with Pair Suc.prems have
        "retryFrom left (Suc attempt) fn b (delay (exponentialBackoff attempt b) w1) = (x, w')"
        by simp
      with Suc.IH nonneg_delay [OF n1] show ?thesis by blast
    next
      case (Inr v)
      with Pair Suc.prems n1 show ?thesis by simp
    qed
  qed
qed

lemma nonneg_gh_createRepositoryWithRetry:
  "gh_createRepositoryWithRetry n d w = (x, w') \<Longrightarrow> sizes_nonneg w \<Longrightarrow> sizes_nonneg w'"
  unfolding gh_createRepositoryWithRetry_def retryWithBackoff_def
  by (rule nonneg_retryFrom [where fn = "gh_createRepository n d"])
     (auto intro: nonneg_gh_createRepository)

lemma nonneg_gh_repositoryExists:
  "gh_repositoryExists n w = (x, w') \<Longrightarrow> sizes_nonneg w \<Longrightarrow> sizes_nonneg w'"
  by (auto simp: gh_repositoryExists_def gh_request_def record_call_def sizes_nonneg_def Let_def split: split_all)

lemma nonneg_rm_createNewRepository:
  "rm_createNewRepository u b w = (x, w') \<Longrightarrow> sizes_nonneg w \<Longrightarrow> sizes_nonneg w'"
proof (induction u b w arbitrary: x w' rule: rm_createNewRepository.induct)
  case (1 userId bucketNumber w)
  obtain r w1 where ex: "gh_repositoryExists (generateRepoName userId bucketNumber) w = (r, w1)"
    by (cases "gh_repositoryExists (generateRepoName userId bucketNumber) w")
  then have n1: "sizes_nonneg w1" using "1.prems" nonneg_gh_repositoryExists by blast
  show ?case
  proof (cases r)
    case (Inl e)
    with ex "1.prems" n1 show ?thesis by (simp add: rm_createNewRepository.simps [of userId bucketNumber w])
  next
    case (Inr exists)
    show ?thesis
    proof (cases exists)
      case True
      with Inr ex "1.prems" have "rm_createNewRepository userId (bucketNumber + 1) w1 = (x, w')"
        by (simp add: rm_createNewRepository.simps [of userId bucketNumber w])
      with "1.IH" [OF ex [symmetric] Inr True] n1 show ?thesis by blast
    next
      case False
      with Inr ex "1.prems" n1 show ?thesis
        by (auto simp: rm_createNewRepository.simps [of userId bucketNumber w]
            split: split_all
            intro: nonneg_gh_createRepositoryWithRetry nonneg_sb_createRepository)
    qed
  qed
qed

lemma nonneg_rm_getAvailableRepository:
  "rm_getAvailableRepository u n w = (x, w') \<Longrightarrow> sizes_nonneg w \<Longrightarrow> sizes_nonneg w'"
  by (auto simp: rm_getAvailableRepository_def split: split_all; metis nonneg_sb_getAvailableRepository nonneg_sb_getUserRepositories
        nonneg_rm_createNewRepository)


lemma nonneg_rm_updateRepositorySize:
  "rm_updateRepositorySize i d w = (x, w') \<Longrightarrow> sizes_nonneg w \<Longrightarrow> sizes_nonneg w'"
  by (auto simp: rm_updateRepositorySize_def split: split_all; metis nonneg_sb_getUserRepositories
        nonneg_sb_updateRepositorySize max.cobounded1)


lemma nonneg_gh_uploadFile:
  "gh_uploadFile n f b c w = (x, w') \<Longrightarrow> sizes_nonneg w \<Longrightarrow> sizes_nonneg w'"
  by (auto simp: gh_uploadFile_def gh_createRelease_def gh_uploadReleaseAsset_def
        gh_request_def record_call_def sizes_nonneg_def Let_def split: split_all)


lemma nonneg_store_file:
  "store_file f u n r w = (x, w') \<Longrightarrow> sizes_nonneg w \<Longrightarrow> sizes_nonneg w'"
  by (auto simp: store_file_def split: split_all; metis nonneg_gh_uploadFile nonneg_sb_createFile nonneg_rm_updateRepositorySize)


lemma nonneg_uploadFile:
  "uploadFile f u w = (x, w') \<Longrightarrow> sizes_nonneg w \<Longrightarrow> sizes_nonneg w'"
  by (auto simp: uploadFile_def Let_def split: split_all; metis nonneg_rm_getAvailableRepository nonneg_sb_getUserRepositories
        nonneg_rm_createNewRepository nonneg_store_file)


lemma nonneg_upload_loop:
  "upload_loop fs u acc w = (x, w') \<Longrightarrow> sizes_nonneg w \<Longrightarrow> sizes_nonneg w'"
proof (induction fs arbitrary: acc w)
  case Nil
  then show ?case by simp
next
  case (Cons f rest)
  obtain r w1 where up: "uploadFile (Some f) u w = (r, w1)"
    by (cases "uploadFile (Some f) u w")
  with Cons.prems have n1: "sizes_nonneg w1" using nonneg_uploadFile by blast
  then have n2: "sizes_nonneg (delay 500 w1)" by (rule nonneg_delay)
  show ?case
  proof (cases r)
    case (Inl e)
    with up Cons.prems Cons.IH n1 show ?thesis by auto
  next
    case (Inr v)
    with up Cons.prems Cons.IH n1 n2 show ?thesis by (auto split: if_splits)
  qed
qed


lemma nonneg_uploadMultipleFiles:
  "uploadMultipleFiles fs u w = (x, w') \<Longrightarrow> sizes_nonneg w \<Longrightarrow> sizes_nonneg w'"
  by (auto simp: uploadMultipleFiles_def split: split_all; metis nonneg_upload_loop)


lemma nonneg_gh_deleteReleaseAsset:
  "gh_deleteReleaseAsset a w = (x, w') \<Longrightarrow> sizes_nonneg w \<Longrightarrow> sizes_nonneg w'"
  by (auto simp: gh_deleteReleaseAsset_def gh_request_def record_call_def sizes_nonneg_def Let_def
      split: split_all)


lemma nonneg_delete_remote:
  "sizes_nonneg w \<Longrightarrow> sizes_nonneg (delete_remote i u w)"
  by (auto simp: delete_remote_def split: split_all; metis nonneg_sb_getFileById nonneg_gh_deleteReleaseAsset [OF surjective_pairing])


lemma nonneg_getFile:
  "getFile i u w = (x, w') \<Longrightarrow> sizes_nonneg w \<Longrightarrow> sizes_nonneg w'"
  by (auto simp: getFile_def split: split_all; metis nonneg_sb_getFileById)


lemma nonneg_deleteFile:
  "deleteFile i u w = (x, w') \<Longrightarrow> sizes_nonneg w \<Longrightarrow> sizes_nonneg w'"
  by (auto simp: deleteFile_def split: split_all; metis nonneg_getFile nonneg_delete_remote nonneg_sb_deleteFile
        nonneg_rm_updateRepositorySize)


lemma nonneg_delete_loop:
  "delete_loop ids u acc w = (x, w') \<Longrightarrow> sizes_nonneg w \<Longrightarrow> sizes_nonneg w'"
proof (induction ids arbitrary: acc w)
  case Nil
  then show ?case by simp
next
  case (Cons i rest)
  obtain r w1 where del: "deleteFile i u w = (r, w1)"
    by (cases "deleteFile i u w")
  with Cons.prems have n1: "sizes_nonneg w1" using nonneg_deleteFile by blast
  show ?case
  proof (cases r)
    case (Inl e)
    with del Cons.prems Cons.IH n1 show ?thesis by auto
  next
    case (Inr v)
    with del Cons.prems Cons.IH n1 show ?thesis by auto
  qed
qed


lemma nonneg_deleteMultipleFiles:
  "deleteMultipleFiles ids u w = (x, w') \<Longrightarrow> sizes_nonneg w \<Longrightarrow> sizes_nonneg w'"
  by (auto simp: deleteMultipleFiles_def split: split_all; metis nonneg_delete_loop)


lemma nonneg_sum_release_assets:
  "sum_release_assets as n s w = (x, w') \<Longrightarrow> sizes_nonneg w \<Longrightarrow> sizes_nonneg w'"
proof (induction as arbitrary: n s w)
  case Nil
  then show ?case by simp
next
  case (Cons a rest)
  obtain r w1 where rq: "gh_request (GhListAssets (asset_id a)) gh_unscoped w = (r, w1)"
    by (cases "gh_request (GhListAssets (asset_id a)) gh_unscoped w")
  with Cons.prems have n1: "sizes_nonneg w1" using nonneg_gh_request by blast
  from rq Cons.prems Cons.IH n1 show ?case by (auto split: split_all)
qed


lemma nonneg_gh_getRepositoryStats:
  "gh_getRepositoryStats n w = (x, w') \<Longrightarrow> sizes_nonneg w \<Longrightarrow> sizes_nonneg w'"
  by (auto simp: gh_getRepositoryStats_def gh_getRepository_def Let_def split: split_all; metis nonneg_gh_request nonneg_sum_release_assets)


lemma bytesToMb_nonneg: "0 \<le> bytesToMb (int n)"
  by (simp add: bytesToMb_def)


lemma stats_total_nonneg:
  "gh_getRepositoryStats n w = (Inr st, w') \<Longrightarrow> 0 \<le> totalAssetSizeMb st"
  by (auto simp: gh_getRepositoryStats_def Let_def bytesToMb_nonneg split: split_all)


lemma nonneg_validate_one:
  "validate_one r w = (x, w') \<Longrightarrow> sizes_nonneg w \<Longrightarrow> sizes_nonneg w'"
  by (auto simp: validate_one_def Let_def split: split_all; metis nonneg_gh_repositoryExists nonneg_gh_getRepositoryStats
        nonneg_sb_updateRepositorySize stats_total_nonneg)


lemma nonneg_validate_loop:
  "validate_loop rs acc w = (x, w') \<Longrightarrow> sizes_nonneg w \<Longrightarrow> sizes_nonneg w'"
proof (induction rs arbitrary: acc w)
  case Nil
  then show ?case by simp
next
  case (Cons r rest)
  obtain y w1 where v: "validate_one r w = (y, w1)"
    by (cases "validate_one r w")
  with Cons.prems have n1: "sizes_nonneg w1" using nonneg_validate_one by blast
  from v Cons.prems Cons.IH n1 show ?case by (auto split: split_all)
qed


lemma nonneg_validateAndSyncRepositories:
  "validateAndSyncRepositories u w = (x, w') \<Longrightarrow> sizes_nonneg w \<Longrightarrow> sizes_nonneg w'"
  by (auto simp: validateAndSyncRepositories_def split: split_all; metis nonneg_sb_getUserRepositories nonneg_validate_loop)


lemma nonneg_syncRepository:
  "syncRepository u i w = (x, w') \<Longrightarrow> sizes_nonneg w \<Longrightarrow> sizes_nonneg w'"
  by (auto simp: syncRepository_def Let_def split: split_all; metis nonneg_sb_getUserRepositories nonneg_gh_getRepositoryStats
        nonneg_sb_updateRepositorySize stats_total_nonneg)



subsection \<open>The capacity tracker picks the oldest repository with room\<close>

lemma find_sorted_least:
  "sorted (map f xs) \<Longrightarrow> find P xs = Some x \<Longrightarrow> y \<in> set xs \<Longrightarrow> P y \<Longrightarrow> f x \<le> f y"
proof (induction xs)
  case Nil
  then show ?case by simp
next
  case (Cons a xs)
  show ?case
  proof (cases "P a")
    case True
    with Cons.prems have "x = a" by simp
    with Cons.prems show ?thesis by auto
  next
    case False
    with Cons.prems have "find P xs = Some x" and "y \<in> set xs" by auto
    with Cons.IH Cons.prems show ?thesis by simp
  qed
qed

lemma set_select_repos:
  "set (select_repos u a rs) =
     {r \<in> set rs. user_id r = u \<and> (if a then is_active r else True)}"
  by (auto simp: select_repos_def)

lemma sorted_select_repos: "sorted (map created_at (select_repos u a rs))"
  by (simp add: select_repos_def)

lemma sb_getAvailableRepository_ok:
  "db_fault w (length (trace w)) = None \<Longrightarrow>
   fst (sb_getAvailableRepository u req w) =
     Inr (find (\<lambda>r. size_mb r + req \<le> max_size_mb r) (select_repos u True (repos w)))"
  by (simp add: sb_getAvailableRepository_def db_call_def record_call_def)

text \<open>
  C1. When the query of the store succeeds, \<open>getAvailableRepository\<close> of the record store
  client returns the first repository, in ascending order of creation among the active
  repositories of the user, whose cached size plus the required size is at most its
  maximum size. The repository returned is an active repository of the user with room,
  no active repository of the user with room was created before it, and the result is
  none exactly when no active repository of the user has room.
\<close>

theorem getAvailableRepository_oldest_with_room:
  assumes "db_fault w (length (trace w)) = None"
  shows "\<exists>res. fst (sb_getAvailableRepository userId req w) = Inr res
     \<and> res = find (\<lambda>r. size_mb r + req \<le> max_size_mb r)
               (sort_key created_at
                  (filter (\<lambda>r. user_id r = userId \<and> is_active r) (repos w)))
     \<and> (\<forall>r. res = Some r \<longrightarrow>
            r \<in> set (repos w) \<and> user_id r = userId \<and> is_active r
            \<and> size_mb r + req \<le> max_size_mb r
            \<and> (\<forall>r' \<in> set (repos w).
                  user_id r' = userId \<and> is_active r' \<and> size_mb r' + req \<le> max_size_mb r'
                  \<longrightarrow> created_at r \<le> created_at r'))
     \<and> (res = None \<longleftrightarrow>
          \<not> (\<exists>r \<in> set (repos w). user_id r = userId \<and> is_active r
                \<and> size_mb r + req \<le> max_size_mb r))"
proof -
  let ?P = "\<lambda>r. size_mb r + req \<le> max_size_mb r"
  let ?cands = "select_repos userId True (repos w)"
  let ?res = "find ?P ?cands"
  have run: "fst (sb_getAvailableRepository userId req w) = Inr ?res"
    using assms by (rule sb_getAvailableRepository_ok)
  have cands: "?cands = sort_key created_at
      (filter (\<lambda>r. user_id r = userId \<and> is_active r) (repos w))"
    by (simp add: select_repos_def)
  have some: "r \<in> set (repos w) \<and> user_id r = userId \<and> is_active r \<and> ?P r
      \<and> (\<forall>r' \<in> set (repos w). user_id r' = userId \<and> is_active r' \<and> ?P r'
            \<longrightarrow> created_at r \<le> created_at r')" if "?res = Some r" for r
  proof -
    from that have "r \<in> set ?cands" and "?P r"
      by (auto simp: find_Some_iff)
    moreover have "created_at r \<le> created_at r'"
      if "r' \<in> set (repos w)" "user_id r' = userId" "is_active r'" "?P r'" for r'
    proof -
      from that have "r' \<in> set ?cands" by (simp add: set_select_repos)
      with \<open>?res = Some r\<close> \<open>?P r'\<close> show ?thesis
        using find_sorted_least [OF sorted_select_repos] by blast
    qed
    ultimately show ?thesis by (auto simp: set_select_repos)
  qed
  have none: "?res = None \<longleftrightarrow>
      \<not> (\<exists>r \<in> set (repos w). user_id r = userId \<and> is_active r \<and> ?P r)"
    by (auto simp: find_None_iff set_select_repos)
  show ?thesis
  proof (intro exI conjI)
    show "fst (sb_getAvailableRepository userId req w) = Inr ?res" by (rule run)
    show "?res = find ?P (sort_key created_at
        (filter (\<lambda>r. user_id r = userId \<and> is_active r) (repos w)))"
      by (simp only: cands)
    show "\<forall>r. ?res = Some r \<longrightarrow>
        r \<in> set (repos w) \<and> user_id r = userId \<and> is_active r \<and> ?P r
        \<and> (\<forall>r' \<in> set (repos w). user_id r' = userId \<and> is_active r' \<and> ?P r'
              \<longrightarrow> created_at r \<le> created_at r')"
      using some by blast
    show "?res = None \<longleftrightarrow>
        \<not> (\<exists>r \<in> set (repos w). user_id r = userId \<and> is_active r \<and> ?P r)"
      by (rule none)
  qed
qed

theorem getAvailableRepository_oldest_with_room_witness:
  "db_fault world_four (length (trace world_four)) = None
   \<and> fst (sb_getAvailableRepository ''alice'' 50 world_four)
       = Inr (Some (mk_repo 2 ''alice'' ''user_alice_bucket_2'' 100 True 20))
   \<and> fst (sb_getAvailableRepository ''alice'' 750 world_four)
       = Inr (Some (mk_repo 4 ''alice'' ''user_alice_bucket_4'' 0 True 40))
   \<and> fst (sb_getAvailableRepository ''alice'' 801 world_four) = Inr None"
proof -
  have ok: "db_fault world_four (length (trace world_four)) = None"
    by (simp add: world_four_def world0_def)
  have sel: "sort_key created_at
      (filter (\<lambda>r. user_id r = ''alice'' \<and> is_active r) (repos world_four))
    = [mk_repo 1 ''alice'' ''user_alice_bucket_1'' 790 True 10,
       mk_repo 2 ''alice'' ''user_alice_bucket_2'' 100 True 20,
       mk_repo 4 ''alice'' ''user_alice_bucket_4'' 0 True 40]"
    by (simp add: world_four_def world0_def mk_repo_def)
  show ?thesis
    using ok
      getAvailableRepository_oldest_with_room [OF ok, of "''alice''" 50]
      getAvailableRepository_oldest_with_room [OF ok, of "''alice''" 750]
      getAvailableRepository_oldest_with_room [OF ok, of "''alice''" 801]
    unfolding sel by (simp add: mk_repo_def)
qed

subsection \<open>What the size update of the repository manager writes\<close>

lemma sb_getUserRepositories_Inr:
  "sb_getUserRepositories u a w = (Inr rs, w1) \<Longrightarrow>
   rs = select_repos u a (repos w) \<and> repos w1 = repos w"
  by (auto simp: sb_getUserRepositories_def db_call_def split: split_all)

lemma sb_updateRepositorySize_Inr:
  "sb_updateRepositorySize i s w = (Inr r, w') \<Longrightarrow>
   size_mb r = s
   \<and> repos w' = map (\<lambda>x. if rid x = i then x\<lparr>size_mb := s\<rparr> else x) (repos w)"
  by (auto simp: sb_updateRepositorySize_def db_call_def split: split_all)

lemma rm_updateRepositorySize_value:
  assumes "rm_updateRepositorySize i d w = (Inr r, w')"
  shows "\<exists>cur. cur \<in> set (repos w) \<and> rid cur = i \<and> user_id cur = []
     \<and> size_mb r = max 0 (size_mb cur + d)
     \<and> repos w' = map (\<lambda>x. if rid x = i then x\<lparr>size_mb := max 0 (size_mb cur + d)\<rparr> else x)
                    (repos w)"
proof -
  obtain res w1 where g: "sb_getUserRepositories [] False w = (res, w1)"
    by (cases "sb_getUserRepositories [] False w")
  with assms obtain rs where res: "res = Inr rs"
    by (cases res) (auto simp: rm_updateRepositorySize_def)
  from g res have rs: "rs = select_repos [] False (repos w)" and same: "repos w1 = repos w"
    using sb_getUserRepositories_Inr by blast+
  from assms g res obtain cur where f: "find (\<lambda>r. rid r = i) rs = Some cur"
    by (cases "find (\<lambda>r. rid r = i) rs") (auto simp: rm_updateRepositorySize_def)
  then have "cur \<in> set rs" and id: "rid cur = i"
    by (auto simp: find_Some_iff)
  with rs have mem: "cur \<in> set (repos w)" and own: "user_id cur = []"
    by (auto simp: set_select_repos)
  from assms g res f have
    "sb_updateRepositorySize i (max 0 (size_mb cur + d)) w1 = (Inr r, w')"
    by (simp add: rm_updateRepositorySize_def)
  then have "size_mb r = max 0 (size_mb cur + d)"
    and "repos w' = map (\<lambda>x. if rid x = i then x\<lparr>size_mb := max 0 (size_mb cur + d)\<rparr> else x)
                    (repos w1)"
    using sb_updateRepositorySize_Inr by blast+
  with mem own id same show ?thesis by auto
qed

lemma fold_perform_nonneg:
  "sizes_nonneg w \<Longrightarrow> sizes_nonneg (fold perform calls w)"
proof (induction calls arbitrary: w)
  case Nil
  then show ?case by simp
next
  case (Cons c calls)
  have "sizes_nonneg (perform c w)"
  proof (cases c)
    case (Upload f u)
    then show ?thesis
      using nonneg_uploadFile [OF surjective_pairing Cons.prems] by simp
  next
    case (UploadMany fs u)
    then show ?thesis
      using nonneg_uploadMultipleFiles [OF surjective_pairing Cons.prems] by simp
  next
    case (Delete i u)
    then show ?thesis
      using nonneg_deleteFile [OF surjective_pairing Cons.prems] by simp
  next
    case (DeleteMany ids u)
    then show ?thesis
      using nonneg_deleteMultipleFiles [OF surjective_pairing Cons.prems] by simp
  next
    case (Sync u i)
    then show ?thesis
      using nonneg_syncRepository [OF surjective_pairing Cons.prems] by simp
  next
    case (ValidateAll u)
    then show ?thesis
      using nonneg_validateAndSyncRepositories [OF surjective_pairing Cons.prems] by simp
  next
    case (UpdateSize i d)
    then show ?thesis
      using nonneg_rm_updateRepositorySize [OF surjective_pairing Cons.prems] by simp
  qed
  with Cons.IH show ?case by simp
qed

lemma world_small_fields:
  "repos world_small = [mk_repo 1 [] ''user__bucket_1'' 5 True 10]"
  "files world_small = [\<lparr>fid = 1, f_user_id = [], repo_id = Some 1, filename = ''a_1_c0ffee.txt'',
                original_name = ''a.txt'', f_size_mb = 10, mime_type = ''text/plain'',
                download_url = ''https://github.com/user__bucket_1/releases/download/5/a'',
                gh_release_id = ''5'', gh_asset_id = ''6''\<rparr>]"
  "gh_repos world_small = [''user__bucket_1'']"
  "gh_assets world_small = []"
  "no_faults world_small"
  "gh_unscoped world_small = None"
  by (simp_all add: no_faults_def world_small_def world0_def)

text \<open>
  C3. If no cached size is negative, none is after any run of operations of the
  interface (uploads, deletes, batches, syncs, validations, and size updates with an
  arbitrary change, also one below the negated current value), nor after the loop of a
  batch delete. A size update of the repository manager that succeeds has written
  \<open>max 0 (old + change)\<close>, where \<open>old\<close> is the cached size of the row it read.
\<close>

theorem cached_size_never_negative:
  assumes "sizes_nonneg w"
  shows "sizes_nonneg (fold perform calls w)
    \<and> sizes_nonneg (snd (delete_loop ids u acc w))
    \<and> (\<forall>i d r w'. rm_updateRepositorySize i d w = (Inr r, w') \<longrightarrow>
          0 \<le> size_mb r
          \<and> (\<exists>cur \<in> set (repos w). rid cur = i \<and> size_mb r = max 0 (size_mb cur + d)))"
proof (intro conjI allI impI)
  show "sizes_nonneg (fold perform calls w)"
    using assms by (rule fold_perform_nonneg)
  show "sizes_nonneg (snd (delete_loop ids u acc w))"
    using nonneg_delete_loop [OF surjective_pairing assms] .
next
  fix i d r w'
  assume "rm_updateRepositorySize i d w = (Inr r, w')"
  then obtain cur where c: "cur \<in> set (repos w)" "rid cur = i"
      "size_mb r = max 0 (size_mb cur + d)"
    using rm_updateRepositorySize_value by blast
  then show "0 \<le> size_mb r" by simp
  from c show "\<exists>cur \<in> set (repos w). rid cur = i \<and> size_mb r = max 0 (size_mb cur + d)"
    by blast
qed

theorem cached_size_never_negative_witness:
  "sizes_nonneg world_small
   \<and> map size_mb (repos world_small) = [5]
   \<and> map f_size_mb (files world_small) = [10]
   \<and> map size_mb (repos (fold perform [Delete 1 []] world_small)) = [0]
   \<and> sizes_nonneg (fold perform [Delete 1 []] world_small)"
proof -
  have nn: "sizes_nonneg world_small"
    by (simp add: sizes_nonneg_def world_small_fields mk_repo_def)
  have run: "map size_mb (repos (snd (deleteFile 1 [] world_small))) = [0]"
    by (simp add: deleteFile_def getFile_def delete_remote_def rm_updateRepositorySize_def
        sb_getFileById_def gh_deleteReleaseAsset_def sb_deleteFile_def
        sb_getUserRepositories_def sb_updateRepositorySize_def ff_db_call ff_gh_request
        select_repos_def world_small_fields mk_repo_def)
  show ?thesis
    using nn run cached_size_never_negative [OF nn, of "[Delete 1 []]"]
    by (simp add: world_small_fields mk_repo_def)
qed

subsection \<open>Retries of the provider client\<close>

lemma gh_createRepository_trace:
  "trace (snd (gh_createRepository n d w)) = trace w @ [GhCreateRepo n]"
  by (simp add: gh_createRepository_def gh_request_def split: split_all)

lemma retryFrom_create_trace:
  "\<exists>k \<le> left.
     trace (snd (retryFrom left attempt (gh_createRepository n d) base w)) =
       trace w @ concat (map (\<lambda>i. [GhCreateRepo n, Delay (base * 2 ^ i)])
                           [attempt ..< attempt + k]) @ [GhCreateRepo n]
     \<and> (k = left \<or> \<not> isl (fst (retryFrom left attempt (gh_createRepository n d) base w)))"
proof (induction left arbitrary: attempt w)
  case 0
  show ?case by (simp add: gh_createRepository_trace)
next
  case (Suc left)
  obtain res w1 where run: "gh_createRepository n d w = (res, w1)"
    by (cases "gh_createRepository n d w")
  then have tr1: "trace w1 = trace w @ [GhCreateRepo n]"
    using gh_createRepository_trace [of n d w] by simp
  show ?case
  proof (cases res)
    case (Inr v)
    with run tr1 have
      "trace (snd (retryFrom (Suc left) attempt (gh_createRepository n d) base w)) =
         trace w @ concat (map (\<lambda>i. [GhCreateRepo n, Delay (base * 2 ^ i)])
                             [attempt ..< attempt + 0]) @ [GhCreateRepo n]"
      and "\<not> isl (fst (retryFrom (Suc left) attempt (gh_createRepository n d) base w))"
      by simp_all
    then show ?thesis by blast
  next
    case (Inl e)
    let ?w2 = "delay (exponentialBackoff attempt base) w1"
    from run Inl have step:
      "retryFrom (Suc left) attempt (gh_createRepository n d) base w =
         retryFrom left (Suc attempt) (gh_createRepository n d) base ?w2"
      by simp
    have tr2: "trace ?w2 = trace w @ [GhCreateRepo n, Delay (base * 2 ^ attempt)]"
      by (simp add: tr1 exponentialBackoff_def)
    from Suc.IH [of "Suc attempt" ?w2] obtain k where k: "k \<le> left"
      and trk: "trace (snd (retryFrom left (Suc attempt) (gh_createRepository n d) base ?w2)) =
         trace ?w2 @ concat (map (\<lambda>i. [GhCreateRepo n, Delay (base * 2 ^ i)])
                           [Suc attempt ..< Suc attempt + k]) @ [GhCreateRepo n]"
      and last: "k = left \<or> \<not> isl (fst (retryFrom left (Suc attempt)
                   (gh_createRepository n d) base ?w2))"
      by blast
    have upt: "[attempt ..< attempt + Suc k] = attempt # [Suc attempt ..< Suc attempt + k]"
      by (simp add: upt_conv_Cons)
    have "trace (snd (retryFrom (Suc left) attempt (gh_createRepository n d) base w)) =
         trace w @ concat (map (\<lambda>i. [GhCreateRepo n, Delay (base * 2 ^ i)])
                             [attempt ..< attempt + Suc k]) @ [GhCreateRepo n]"
      unfolding step trk tr2 upt by simp
    moreover have "Suc k = Suc left
        \<or> \<not> isl (fst (retryFrom (Suc left) attempt (gh_createRepository n d) base w))"
      using last step by auto
    moreover have "Suc k \<le> Suc left" using k by simp
    ultimately show ?thesis by blast
  qed
qed

lemma gh_uploadFile_trace:
  "trace (snd (gh_uploadFile n f b c w)) = trace w @ [GhCreateRelease n]
   \<or> trace (snd (gh_uploadFile n f b c w)) = trace w @ [GhCreateRelease n, GhUploadAsset n f]"
  by (auto simp: gh_uploadFile_def gh_createRelease_def gh_uploadReleaseAsset_def
        gh_request_def Let_def split: split_all)

lemma gh_deleteReleaseAsset_trace:
  "trace (snd (gh_deleteReleaseAsset a w)) = trace w @ [GhDeleteAsset a]"
  by (auto simp: gh_deleteReleaseAsset_def gh_request_def split: split_all)

text \<open>
  C9 (as amended). Repository creation through \<open>createRepositoryWithRetry\<close> makes an
  attempt, and after each failed attempt but the last sleeps \<open>1000 * 2 ^ i\<close> ms (\<open>i\<close> the
  number of the failed attempt, from 0) and tries again: the calls it adds to the trace
  are \<open>k\<close> failed attempts, each followed by its delay, and one more attempt, with
  \<open>k \<le> 3\<close>, and \<open>k = 3\<close> when it fails. So there are at most 3 retries, 4 attempts in
  all. The upload of a file makes one release request and at most one asset request, and
  the deletion of an asset makes one request, whatever the answers.
\<close>

theorem creation_retried_with_backoff:
  "(\<exists>k \<le> 3.
      trace (snd (gh_createRepositoryWithRetry n d w)) =
        trace w @ concat (map (\<lambda>i. [GhCreateRepo n, Delay (1000 * 2 ^ i)]) [0 ..< k])
          @ [GhCreateRepo n]
      \<and> (k = 3 \<or> \<not> isl (fst (gh_createRepositoryWithRetry n d w))))
   \<and> (trace (snd (gh_uploadFile n f b c w)) = trace w @ [GhCreateRelease n]
      \<or> trace (snd (gh_uploadFile n f b c w))
          = trace w @ [GhCreateRelease n, GhUploadAsset n f])
   \<and> trace (snd (gh_deleteReleaseAsset a w)) = trace w @ [GhDeleteAsset a]"
proof (intro conjI)
  show "\<exists>k \<le> 3.
      trace (snd (gh_createRepositoryWithRetry n d w)) =
        trace w @ concat (map (\<lambda>i. [GhCreateRepo n, Delay (1000 * 2 ^ i)]) [0 ..< k])
          @ [GhCreateRepo n]
      \<and> (k = 3 \<or> \<not> isl (fst (gh_createRepositoryWithRetry n d w)))"
    using retryFrom_create_trace [of 3 0 n d 1000 w]
    by (simp add: gh_createRepositoryWithRetry_def retryWithBackoff_def MAX_RETRIES_def)
  show "trace (snd (gh_uploadFile n f b c w)) = trace w @ [GhCreateRelease n]
      \<or> trace (snd (gh_uploadFile n f b c w))
          = trace w @ [GhCreateRelease n, GhUploadAsset n f]"
    by (rule gh_uploadFile_trace)
  show "trace (snd (gh_deleteReleaseAsset a w)) = trace w @ [GhDeleteAsset a]"
    by (rule gh_deleteReleaseAsset_trace)
qed

lemma world_down_fields:
  "trace world_down = []"
  "gh_fault world_down = (\<lambda>n. Some (500, False))"
  "gh_repos world_down = []"
  by (simp_all add: world_down_def world0_def)

lemma down_trace:
  "trace (snd (gh_createRepositoryWithRetry ''bucket'' ''storage'' world_down)) =
     [GhCreateRepo ''bucket'', Delay 1000, GhCreateRepo ''bucket'', Delay 2000,
      GhCreateRepo ''bucket'', Delay 4000, GhCreateRepo ''bucket'']"
  by (simp add: gh_createRepositoryWithRetry_def retryWithBackoff_def MAX_RETRIES_def
      numeral_3_eq_3 gh_createRepository_def gh_request_def exponentialBackoff_def
      world_down_fields)

text \<open>With a provider that fails every request the creation is attempted four times,
  not three.\<close>

theorem retry_attempts_counterexample:
  "length (filter (\<lambda>c. c = GhCreateRepo ''bucket'')
     (trace (snd (gh_createRepositoryWithRetry ''bucket'' ''storage'' world_down)))) = 4
   \<and> \<not> length (filter (\<lambda>c. c = GhCreateRepo ''bucket'')
     (trace (snd (gh_createRepositoryWithRetry ''bucket'' ''storage'' world_down)))) \<le> 3"
  by (simp add: down_trace)

theorem creation_retried_with_backoff_witness:
  "trace (snd (gh_createRepositoryWithRetry ''bucket'' ''storage'' world_down)) =
     [GhCreateRepo ''bucket'', Delay 1000, GhCreateRepo ''bucket'', Delay 2000,
      GhCreateRepo ''bucket'', Delay 4000, GhCreateRepo ''bucket'']
   \<and> isl (fst (gh_createRepositoryWithRetry ''bucket'' ''storage'' world_down))
   \<and> trace (snd (gh_deleteReleaseAsset ''6'' world_down)) = [GhDeleteAsset ''6'']
   \<and> isl (fst (gh_deleteReleaseAsset ''6'' world_down))"
proof -
  have "isl (fst (gh_createRepositoryWithRetry ''bucket'' ''storage'' world_down))"
    by (simp add: gh_createRepositoryWithRetry_def retryWithBackoff_def MAX_RETRIES_def
        numeral_3_eq_3 gh_createRepository_def gh_request_def exponentialBackoff_def
        world_down_fields)
  moreover have "isl (fst (gh_deleteReleaseAsset ''6'' world_down))"
    by (simp add: gh_deleteReleaseAsset_def gh_request_def world_down_fields)
  ultimately show ?thesis
    using down_trace
      creation_retried_with_backoff [where n = "''bucket''" and d = "''storage''"
        and w = world_down and a = "''6''"]
    by (simp add: world_down_fields)
qed

subsection \<open>The allocator always returns a repository\<close>

lemma configured_max_nonzero: "bytesToMb (MAX_REPO_SIZE_BYTES w) \<noteq> 0"
  by (simp add: bytesToMb_def MAX_REPO_SIZE_BYTES_def env_or_def split: option.splits)

lemma MAX_REPO_SIZE_BYTES_keep [simp]:
  "MAX_REPO_SIZE_BYTES (record_call c w) = MAX_REPO_SIZE_BYTES w"
  "MAX_REPO_SIZE_BYTES (delay ms w) = MAX_REPO_SIZE_BYTES w"
  "MAX_REPO_SIZE_BYTES (w\<lparr>repos := rs\<rparr>) = MAX_REPO_SIZE_BYTES w"
  "MAX_REPO_SIZE_BYTES (w\<lparr>files := fs\<rparr>) = MAX_REPO_SIZE_BYTES w"
  "MAX_REPO_SIZE_BYTES (w\<lparr>gh_repos := ns\<rparr>) = MAX_REPO_SIZE_BYTES w"
  "MAX_REPO_SIZE_BYTES (w\<lparr>gh_assets := as\<rparr>) = MAX_REPO_SIZE_BYTES w"
  by (simp_all add: MAX_REPO_SIZE_BYTES_def)

lemma fresh_id_new: "fresh_id ids \<notin> set ids"
proof -
  have "x \<le> fold max ids m" if "x \<in> set ids \<or> x \<le> m" for x m
    using that by (induction ids arbitrary: m) (auto simp: max_def)
  then have "\<forall>x \<in> set ids. x < fresh_id ids"
    by (auto simp: fresh_id_def less_Suc_eq_le)
  then show ?thesis by blast
qed

lemma ff_rm_createNewRepository_free:
  assumes "no_faults w" and "generateRepoName u b \<notin> set (gh_repos w)"
  shows "rm_createNewRepository u b w =
     (Inr \<lparr>rid = fresh_id (map rid (repos w)), user_id = u, name = generateRepoName u b,
           github_repo_id = digits (Suc (Suc (clock w))), size_mb = 0,
           max_size_mb = bytesToMb (MAX_REPO_SIZE_BYTES w),
           is_active = True, created_at = Suc (Suc (Suc (clock w)))\<rparr>,
      (record_call DbInsertRepo
         ((record_call (GhCreateRepo (generateRepoName u b))
            (record_call (GhGetRepo (generateRepoName u b)) w))
          \<lparr>gh_repos := gh_repos w @ [generateRepoName u b]\<rparr>))
      \<lparr>repos := repos w @
         [\<lparr>rid = fresh_id (map rid (repos w)), user_id = u, name = generateRepoName u b,
           github_repo_id = digits (Suc (Suc (clock w))), size_mb = 0,
           max_size_mb = bytesToMb (MAX_REPO_SIZE_BYTES w),
           is_active = True, created_at = Suc (Suc (Suc (clock w)))\<rparr>]\<rparr>)"
  using assms
  by (subst rm_createNewRepository.simps)
     (simp add: ff_gh_repositoryExists ff_gh_createRepositoryWithRetry ff_sb_createRepository
        configured_max_nonzero)

lemma ff_rm_createNewRepository_taken:
  assumes "no_faults w" and "generateRepoName u b \<in> set (gh_repos w)"
  shows "rm_createNewRepository u b w =
     rm_createNewRepository u (b + 1) (record_call (GhGetRepo (generateRepoName u b)) w)"
  using assms
  by (subst rm_createNewRepository.simps) (simp add: ff_gh_repositoryExists)

lemma ff_rm_createNewRepository:
  "no_faults w \<Longrightarrow>
   \<exists>k r w'. rm_createNewRepository u b w = (Inr r, w')
     \<and> b \<le> k \<and> name r = generateRepoName u k \<and> name r \<notin> set (gh_repos w)
     \<and> (\<forall>j. b \<le> j \<and> j < k \<longrightarrow> generateRepoName u j \<in> set (gh_repos w))
     \<and> rid r = fresh_id (map rid (repos w)) \<and> user_id r = u \<and> size_mb r = 0
     \<and> max_size_mb r = bytesToMb (MAX_REPO_SIZE_BYTES w) \<and> is_active r
     \<and> repos w' = repos w @ [r] \<and> gh_repos w' = gh_repos w @ [name r]
     \<and> files w' = files w \<and> gh_assets w' = gh_assets w \<and> no_faults w'"
proof (induction u b w rule: rm_createNewRepository.induct)
  case (1 userId bucketNumber w)
  let ?n = "generateRepoName userId bucketNumber"
  let ?w1 = "record_call (GhGetRepo ?n) w"
  show ?case
  proof (cases "?n \<in> set (gh_repos w)")
    case False
    show ?thesis
      unfolding ff_rm_createNewRepository_free [OF "1.prems" False]
      using False "1.prems"
      by (intro exI [of _ bucketNumber]) auto
  next
    case True
    have ex: "(Inr True, ?w1) = gh_repositoryExists ?n w"
      using True "1.prems" by (simp add: ff_gh_repositoryExists)
    have nf1: "no_faults ?w1" using "1.prems" by simp
    have "\<exists>k r w'. rm_createNewRepository userId (bucketNumber + 1) ?w1 = (Inr r, w')
        \<and> bucketNumber + 1 \<le> k \<and> name r = generateRepoName userId k
        \<and> name r \<notin> set (gh_repos ?w1)
        \<and> (\<forall>j. bucketNumber + 1 \<le> j \<and> j < k
              \<longrightarrow> generateRepoName userId j \<in> set (gh_repos ?w1))
        \<and> rid r = fresh_id (map rid (repos ?w1)) \<and> user_id r = userId \<and> size_mb r = 0
        \<and> max_size_mb r = bytesToMb (MAX_REPO_SIZE_BYTES ?w1) \<and> is_active r
        \<and> repos w' = repos ?w1 @ [r] \<and> gh_repos w' = gh_repos ?w1 @ [name r]
        \<and> files w' = files ?w1 \<and> gh_assets w' = gh_assets ?w1 \<and> no_faults w'"
      by (rule "1.IH" [OF ex refl _ nf1]) simp
    then obtain k r w' where
      all: "rm_createNewRepository userId (bucketNumber + 1) ?w1 = (Inr r, w')
        \<and> bucketNumber + 1 \<le> k \<and> name r = generateRepoName userId k
        \<and> name r \<notin> set (gh_repos ?w1)
        \<and> (\<forall>j. bucketNumber + 1 \<le> j \<and> j < k
              \<longrightarrow> generateRepoName userId j \<in> set (gh_repos ?w1))
        \<and> rid r = fresh_id (map rid (repos ?w1)) \<and> user_id r = userId \<and> size_mb r = 0
        \<and> max_size_mb r = bytesToMb (MAX_REPO_SIZE_BYTES ?w1) \<and> is_active r
        \<and> repos w' = repos ?w1 @ [r] \<and> gh_repos w' = gh_repos ?w1 @ [name r]
        \<and> files w' = files ?w1 \<and> gh_assets w' = gh_assets ?w1 \<and> no_faults w'"
      by (elim exE) (rule that)
    from all have run: "rm_createNewRepository userId (bucketNumber + 1) ?w1 = (Inr r, w')"
      by blast
    from all have taken: "\<forall>j. bucketNumber + 1 \<le> j \<and> j < k
        \<longrightarrow> generateRepoName userId j \<in> set (gh_repos ?w1)"
      by blast
    have taken': "\<forall>j. bucketNumber \<le> j \<and> j < k \<longrightarrow> generateRepoName userId j \<in> set (gh_repos w)"
    proof (intro allI impI)
      fix j assume j: "bucketNumber \<le> j \<and> j < k"
      show "generateRepoName userId j \<in> set (gh_repos w)"
      proof (cases "j = bucketNumber")
        case True
        with \<open>?n \<in> set (gh_repos w)\<close> show ?thesis by simp
      next
        case False
        with j taken show ?thesis by simp
      qed
    qed
    have "rm_createNewRepository userId bucketNumber w = (Inr r, w')"
      using ff_rm_createNewRepository_taken [OF "1.prems" True] run by simp
    with all taken' show ?thesis
      by (intro exI [of _ k] exI [of _ r] exI [of _ w']) (elim conjE, simp)
  qed
qed

text \<open>
  C5. When no call fails, \<open>getAvailableRepository\<close> of the repository manager returns a
  repository, never a result without one. It is an active repository of the user and a
  row of the store. When a repository passes the hard capacity check it is the one the
  capacity tracker picks and nothing is created; otherwise it is a new, empty repository
  whose bucket number is the first, counting from the number of the user's repositories
  plus one, whose name the provider does not know yet.
\<close>

theorem allocator_always_returns_repository:
  assumes nf: "no_faults w"
  shows "\<exists>r w'. rm_getAvailableRepository userId fileSizeBytes w = (Inr r, w')
     \<and> user_id r = userId \<and> is_active r \<and> r \<in> set (repos w')
     \<and> (case find (\<lambda>r. size_mb r + bytesToMb (int fileSizeBytes) \<le> max_size_mb r)
                (select_repos userId True (repos w)) of
          Some q \<Rightarrow> r = q \<and> repos w' = repos w
        | None \<Rightarrow>
            size_mb r = 0 \<and> max_size_mb r = bytesToMb (MAX_REPO_SIZE_BYTES w)
            \<and> rid r \<notin> set (map rid (repos w)) \<and> repos w' = repos w @ [r]
            \<and> name r \<notin> set (gh_repos w) \<and> gh_repos w' = gh_repos w @ [name r]
            \<and> (\<exists>k. length (select_repos userId False (repos w)) + 1 \<le> k
                  \<and> name r = generateRepoName userId k
                  \<and> (\<forall>j. length (select_repos userId False (repos w)) + 1 \<le> j \<and> j < k
                        \<longrightarrow> generateRepoName userId j \<in> set (gh_repos w))))"
proof (cases "find (\<lambda>r. size_mb r + bytesToMb (int fileSizeBytes) \<le> max_size_mb r)
                (select_repos userId True (repos w))")
  case (Some q)
  then have "q \<in> set (select_repos userId True (repos w))"
    by (auto simp: find_Some_iff)
  then have "q \<in> set (repos w)" "user_id q = userId" "is_active q"
    by (simp_all add: set_select_repos)
  with Some nf show ?thesis
    by (simp add: rm_getAvailableRepository_def ff_sb_getAvailableRepository)
next
  case None
  let ?b = "length (select_repos userId False (repos w)) + 1"
  let ?w2 = "record_call DbSelectRepos (record_call DbSelectRepos w)"
  have run: "rm_getAvailableRepository userId fileSizeBytes w =
      rm_createNewRepository userId ?b ?w2"
    using None nf
    by (simp add: rm_getAvailableRepository_def ff_sb_getAvailableRepository
        ff_sb_getUserRepositories)
  have nf2: "no_faults ?w2" using nf by simp
  from ff_rm_createNewRepository [OF nf2, of userId ?b] obtain k r w' where
    all: "rm_createNewRepository userId ?b ?w2 = (Inr r, w')
     \<and> ?b \<le> k \<and> name r = generateRepoName userId k \<and> name r \<notin> set (gh_repos ?w2)
     \<and> (\<forall>j. ?b \<le> j \<and> j < k \<longrightarrow> generateRepoName userId j \<in> set (gh_repos ?w2))
     \<and> rid r = fresh_id (map rid (repos ?w2)) \<and> user_id r = userId \<and> size_mb r = 0
     \<and> max_size_mb r = bytesToMb (MAX_REPO_SIZE_BYTES ?w2) \<and> is_active r
     \<and> repos w' = repos ?w2 @ [r] \<and> gh_repos w' = gh_repos ?w2 @ [name r]
     \<and> files w' = files ?w2 \<and> gh_assets w' = gh_assets ?w2 \<and> no_faults w'"
    by (elim exE) (rule that)
  have fresh: "fresh_id (map rid (repos w)) \<notin> set (map rid (repos w))"
    by (rule fresh_id_new)
  show ?thesis
    unfolding None run
    using all fresh
    by (intro exI [of _ r] exI [of _ w']) (elim conjE, auto)
qed

lemma digit_chars:
  "char_of (48::nat) = CHR ''0''" "char_of (49::nat) = CHR ''1''" "char_of (50::nat) = CHR ''2''"
  "char_of (51::nat) = CHR ''3''" "char_of (52::nat) = CHR ''4''" "char_of (53::nat) = CHR ''5''"
  "char_of (54::nat) = CHR ''6''" "char_of (55::nat) = CHR ''7''" "char_of (56::nat) = CHR ''8''"
  "char_of (57::nat) = CHR ''9''"
  by code_simp+

lemma bucket_names_u1:
  "generateRepoName ''u1'' (Suc 0) = ''user_u1_bucket_1''"
  "generateRepoName ''u1'' 2 = ''user_u1_bucket_2''"
  "generateRepoName ''u1'' 3 = ''user_u1_bucket_3''"
  by (simp_all add: generateRepoName_def alnum_def digits.simps digit_chars)

lemma world_taken_fields:
  "repos world_taken = [mk_repo 1 ''u1'' ''user_u1_bucket_1'' 680 True 10]"
  "gh_repos world_taken = [''user_u1_bucket_1'', ''user_u1_bucket_2'']"
  "no_faults world_taken"
  "MAX_REPO_SIZE_BYTES world_taken = 838860800"
  by (simp_all add: no_faults_def world_taken_def world0_def MAX_REPO_SIZE_BYTES_def env_or_def)

theorem allocator_always_returns_repository_witness:
  "no_faults world_taken
   \<and> (\<exists>r w'. rm_getAvailableRepository ''u1'' 104857600 world_taken = (Inr r, w')
         \<and> name r = ''user_u1_bucket_1'' \<and> size_mb r = 680
         \<and> map name (repos w') = [''user_u1_bucket_1''])
   \<and> (\<exists>r w'. rm_getAvailableRepository ''u1'' 209715200 world_taken = (Inr r, w')
         \<and> name r = ''user_u1_bucket_3'' \<and> size_mb r = 0 \<and> max_size_mb r = 800
         \<and> map name (repos w') = [''user_u1_bucket_1'', ''user_u1_bucket_3''])"
proof (intro conjI)
  show nf: "no_faults world_taken" by (rule world_taken_fields)
  let ?r1 = "mk_repo 1 ''u1'' ''user_u1_bucket_1'' 680 True 10"
  have act: "select_repos ''u1'' True (repos world_taken) = [?r1]"
    and alls: "select_repos ''u1'' False (repos world_taken) = [?r1]"
    by (simp_all add: select_repos_def world_taken_fields mk_repo_def)
  have fits: "find (\<lambda>r. size_mb r + bytesToMb (int 104857600) \<le> max_size_mb r)
      (select_repos ''u1'' True (repos world_taken)) = Some ?r1"
    unfolding act by (simp add: mk_repo_def bytesToMb_def)
  have full: "find (\<lambda>r. size_mb r + bytesToMb (int 209715200) \<le> max_size_mb r)
      (select_repos ''u1'' True (repos world_taken)) = None"
    unfolding act by (simp add: mk_repo_def bytesToMb_def)
  show "\<exists>r w'. rm_getAvailableRepository ''u1'' 104857600 world_taken = (Inr r, w')
         \<and> name r = ''user_u1_bucket_1'' \<and> size_mb r = 680
         \<and> map name (repos w') = [''user_u1_bucket_1'']"
    using allocator_always_returns_repository [OF nf, of "''u1''" 104857600]
    unfolding fits by (auto simp: world_taken_fields mk_repo_def)
  from allocator_always_returns_repository [OF nf, of "''u1''" 209715200]
  obtain r w' k where run: "rm_getAvailableRepository ''u1'' 209715200 world_taken = (Inr r, w')"
    and new: "size_mb r = 0" "max_size_mb r = bytesToMb (MAX_REPO_SIZE_BYTES world_taken)"
      "repos w' = repos world_taken @ [r]"
    and free: "name r \<notin> set (gh_repos world_taken)"
    and k: "2 \<le> k" "name r = generateRepoName ''u1'' k"
    and taken: "\<forall>j. 2 \<le> j \<and> j < k \<longrightarrow> generateRepoName ''u1'' j \<in> set (gh_repos world_taken)"
    unfolding full alls by auto
  have "k \<noteq> 2" using free k(2) by (auto simp: world_taken_fields bucket_names_u1)
  moreover have "\<not> 3 < k"
  proof
    assume "3 < k"
    with taken have "generateRepoName ''u1'' 3 \<in> set (gh_repos world_taken)" by simp
    then show False by (simp add: world_taken_fields bucket_names_u1)
  qed
  ultimately have "k = 3" using k(1) by arith
  with k(2) have "name r = ''user_u1_bucket_3''" by (simp add: bucket_names_u1)
  with run new show "\<exists>r w'. rm_getAvailableRepository ''u1'' 209715200 world_taken = (Inr r, w')
         \<and> name r = ''user_u1_bucket_3'' \<and> size_mb r = 0 \<and> max_size_mb r = 800
         \<and> map name (repos w') = [''user_u1_bucket_1'', ''user_u1_bucket_3'']"
    by (auto simp: world_taken_fields mk_repo_def bytesToMb_def)
qed

subsection \<open>What a successful allocation leaves behind\<close>

lemma gh_createRepository_cases:
  "gh_createRepository n d w = (res, w') \<Longrightarrow>
   repos w' = repos w \<and> files w' = files w \<and> gh_assets w' = gh_assets w
   \<and> (case res of
         Inl e \<Rightarrow> gh_repos w' = gh_repos w
       | Inr g \<Rightarrow> n \<notin> set (gh_repos w) \<and> gh_repos w' = gh_repos w @ [n])"
  by (auto simp: gh_createRepository_def gh_request_def split: split_all)

lemma retryFrom_create_Inr:
  "retryFrom left attempt (gh_createRepository n d) base w = (Inr g, w') \<Longrightarrow>
   repos w' = repos w \<and> files w' = files w \<and> gh_assets w' = gh_assets w
   \<and> n \<notin> set (gh_repos w) \<and> gh_repos w' = gh_repos w @ [n]"
proof (induction left arbitrary: attempt w)
  case 0
  then show ?case using gh_createRepository_cases [of n d w "Inr g" w'] by simp
next
  case (Suc left)
  obtain res w1 where run: "gh_createRepository n d w = (res, w1)"
    by (cases "gh_createRepository n d w")
  show ?case
  proof (cases res)
    case (Inr v)
    with run Suc.prems have "w1 = w'" "v = g" by simp_all
    with run Inr show ?thesis using gh_createRepository_cases [of n d w "Inr g" w'] by simp
  next
    case (Inl e)
    let ?w2 = "delay (exponentialBackoff attempt base) w1"
    from run Inl Suc.prems have
      "retryFrom left (Suc attempt) (gh_createRepository n d) base ?w2 = (Inr g, w')"
      by simp
    from Suc.IH [OF this] have
      "repos w' = repos ?w2 \<and> files w' = files ?w2 \<and> gh_assets w' = gh_assets ?w2
       \<and> n \<notin> set (gh_repos ?w2) \<and> gh_repos w' = gh_repos ?w2 @ [n]" .
    moreover from run Inl have
      "repos w1 = repos w \<and> files w1 = files w \<and> gh_assets w1 = gh_assets w
       \<and> gh_repos w1 = gh_repos w"
      using gh_createRepository_cases [of n d w "Inl e" w1] by simp
    ultimately show ?thesis by simp
  qed
qed

lemma gh_repositoryExists_frame:
  "gh_repositoryExists n w = (res, w') \<Longrightarrow>
   repos w' = repos w \<and> files w' = files w \<and> gh_assets w' = gh_assets w
   \<and> gh_repos w' = gh_repos w"
  by (auto simp: gh_repositoryExists_def gh_request_def split: split_all)

lemma sb_createRepository_Inr:
  "sb_createRepository d w = (Inr r, w') \<Longrightarrow>
   repos w' = repos w @ [r] \<and> files w' = files w \<and> gh_assets w' = gh_assets w
   \<and> gh_repos w' = gh_repos w \<and> rid r = fresh_id (map rid (repos w))
   \<and> user_id r = rd_userId d \<and> name r = rd_name d \<and> size_mb r = 0 \<and> is_active r"
  by (auto simp: sb_createRepository_def db_call_def Let_def split: split_all)

lemma rm_createNewRepository_Inr:
  "rm_createNewRepository u b w = (Inr r, w') \<Longrightarrow>
   repos w' = repos w @ [r] \<and> files w' = files w \<and> gh_assets w' = gh_assets w
   \<and> gh_repos w' = gh_repos w @ [name r] \<and> name r \<notin> set (gh_repos w)
   \<and> rid r = fresh_id (map rid (repos w)) \<and> user_id r = u \<and> size_mb r = 0 \<and> is_active r
   \<and> (\<exists>k. b \<le> k \<and> name r = generateRepoName u k)"
proof (induction u b w rule: rm_createNewRepository.induct)
  case (1 userId bucketNumber w)
  let ?n = "generateRepoName userId bucketNumber"
  obtain res w1 where ex: "gh_repositoryExists ?n w = (res, w1)"
    by (cases "gh_repositoryExists ?n w")
  then have fr: "repos w1 = repos w" "files w1 = files w" "gh_assets w1 = gh_assets w"
      "gh_repos w1 = gh_repos w"
    using gh_repositoryExists_frame by blast+
  from ex "1.prems" obtain exists where res: "res = Inr exists"
    by (cases res) (auto simp: rm_createNewRepository.simps [of userId bucketNumber w])
  show ?case
  proof (cases exists)
    case True
    with ex res "1.prems" have
      run: "rm_createNewRepository userId (bucketNumber + 1) w1 = (Inr r, w')"
      by (simp add: rm_createNewRepository.simps [of userId bucketNumber w])
    have "repos w' = repos w1 @ [r] \<and> files w' = files w1 \<and> gh_assets w' = gh_assets w1
      \<and> gh_repos w' = gh_repos w1 @ [name r] \<and> name r \<notin> set (gh_repos w1)
      \<and> rid r = fresh_id (map rid (repos w1)) \<and> user_id r = userId \<and> size_mb r = 0
      \<and> is_active r \<and> (\<exists>k. bucketNumber + 1 \<le> k \<and> name r = generateRepoName userId k)"
      using "1.IH" [OF ex [symmetric] res True run] .
    then show ?thesis
      unfolding fr
      apply (elim conjE exE)
      subgoal for k by (auto intro!: exI [of _ k])
      done
  next
    case False
    obtain cres w2 where cr: "gh_createRepositoryWithRetry ?n
        (''FreeDrive storage bucket '' @ digits bucketNumber @ '' for user '' @ userId) w1
        = (cres, w2)"
      by (cases "gh_createRepositoryWithRetry ?n
        (''FreeDrive storage bucket '' @ digits bucketNumber @ '' for user '' @ userId) w1")
    from ex res False cr "1.prems" obtain g where cres: "cres = Inr g"
      by (cases cres) (auto simp: rm_createNewRepository.simps [of userId bucketNumber w])
    from cr cres have c: "repos w2 = repos w1" "files w2 = files w1"
        "gh_assets w2 = gh_assets w1" "?n \<notin> set (gh_repos w1)"
        "gh_repos w2 = gh_repos w1 @ [?n]"
      using retryFrom_create_Inr [of MAX_RETRIES 0 ?n _ 1000 w1 g w2]
      by (simp_all add: gh_createRepositoryWithRetry_def retryWithBackoff_def)
    from ex res False cr cres "1.prems" have
      "sb_createRepository \<lparr>rd_userId = userId, rd_name = ?n, rd_githubRepoId = g_id g,
          rd_maxSizeMb = bytesToMb (MAX_REPO_SIZE_BYTES w2)\<rparr> w2 = (Inr r, w')"
      by (simp add: rm_createNewRepository.simps [of userId bucketNumber w])
    from sb_createRepository_Inr [OF this] c fr show ?thesis
      by (elim conjE) (auto intro!: exI [of _ bucketNumber])
  qed
qed

lemma sb_getAvailableRepository_Inr:
  "sb_getAvailableRepository u req w = (Inr res, w') \<Longrightarrow>
   repos w' = repos w \<and> files w' = files w \<and> gh_assets w' = gh_assets w
   \<and> gh_repos w' = gh_repos w
   \<and> res = find (\<lambda>r. size_mb r + req \<le> max_size_mb r) (select_repos u True (repos w))"
  by (auto simp: sb_getAvailableRepository_def db_call_def split: split_all)

lemma sb_getUserRepositories_frame:
  "sb_getUserRepositories u a w = (res, w') \<Longrightarrow>
   repos w' = repos w \<and> files w' = files w \<and> gh_assets w' = gh_assets w
   \<and> gh_repos w' = gh_repos w"
  by (auto simp: sb_getUserRepositories_def db_call_def split: split_all)

lemma rm_getAvailableRepository_Inr:
  assumes "rm_getAvailableRepository u n w = (Inr r, w')"
  shows "r \<in> set (repos w') \<and> files w' = files w \<and> gh_assets w' = gh_assets w
     \<and> (r \<in> set (repos w) \<longrightarrow> size_mb r + bytesToMb (int n) \<le> max_size_mb r)"
proof -
  obtain res w1 where a: "sb_getAvailableRepository u (bytesToMb (int n)) w = (res, w1)"
    by (cases "sb_getAvailableRepository u (bytesToMb (int n)) w")
  with assms obtain opt where res: "res = Inr opt"
    by (cases res) (auto simp: rm_getAvailableRepository_def)
  from a res have fr1: "repos w1 = repos w" "files w1 = files w" "gh_assets w1 = gh_assets w"
    and opt: "opt = find (\<lambda>r. size_mb r + bytesToMb (int n) \<le> max_size_mb r)
                 (select_repos u True (repos w))"
    using sb_getAvailableRepository_Inr by blast+
  show ?thesis
  proof (cases opt)
    case (Some q)
    with a res assms have "r = q" "w' = w1" by (simp_all add: rm_getAvailableRepository_def)
    moreover from Some opt have "q \<in> set (select_repos u True (repos w))"
      and "size_mb q + bytesToMb (int n) \<le> max_size_mb q"
      by (auto simp: find_Some_iff)
    ultimately show ?thesis using fr1 by (simp add: set_select_repos)
  next
    case None
    obtain lres w2 where l: "sb_getUserRepositories u False w1 = (lres, w2)"
      by (cases "sb_getUserRepositories u False w1")
    with a res None assms obtain allRepos where lres: "lres = Inr allRepos"
      by (cases lres) (auto simp: rm_getAvailableRepository_def)
    from l have fr2: "repos w2 = repos w1" "files w2 = files w1" "gh_assets w2 = gh_assets w1"
      using sb_getUserRepositories_frame by blast+
    from a res None l lres assms have
      "rm_createNewRepository u (length allRepos + 1) w2 = (Inr r, w')"
      by (simp add: rm_getAvailableRepository_def)
    from rm_createNewRepository_Inr [OF this] have
      c: "repos w' = repos w2 @ [r]" "files w' = files w2" "gh_assets w' = gh_assets w2"
        "rid r = fresh_id (map rid (repos w2))"
      by blast+
    have "r \<notin> set (repos w)"
    proof
      assume "r \<in> set (repos w)"
      then have "rid r \<in> set (map rid (repos w))" by simp
      with c(4) fr1 fr2 show False using fresh_id_new [of "map rid (repos w)"] by simp
    qed
    with c fr1 fr2 show ?thesis by simp
  qed
qed

lemma gh_uploadFile_cases:
  "gh_uploadFile n fname b c w = (res, w') \<Longrightarrow>
   repos w' = repos w \<and> files w' = files w \<and> gh_repos w' = gh_repos w
   \<and> (case res of
         Inl e \<Rightarrow> gh_assets w' = gh_assets w
       | Inr up \<Rightarrow> gh_assets w' = gh_assets w
             @ [\<lparr>asset_id = ur_assetId up, asset_repo = n, asset_size = b\<rparr>])"
  by (auto simp: gh_uploadFile_def gh_createRelease_def gh_uploadReleaseAsset_def
        gh_request_def Let_def split: split_all)

lemma sb_createFile_cases:
  "sb_createFile d w = (res, w') \<Longrightarrow>
   repos w' = repos w \<and> gh_repos w' = gh_repos w \<and> gh_assets w' = gh_assets w
   \<and> (case res of
         Inl e \<Rightarrow> files w' = files w
       | Inr row \<Rightarrow> row = d\<lparr>fid := fresh_id (map fid (files w))\<rparr> \<and> files w' = files w @ [row])"
  by (auto simp: sb_createFile_def db_call_def Let_def split: split_all)

lemma sb_updateRepositorySize_frame:
  "sb_updateRepositorySize i s w = (res, w') \<Longrightarrow>
   files w' = files w \<and> gh_repos w' = gh_repos w \<and> gh_assets w' = gh_assets w
   \<and> (case res of Inl e \<Rightarrow> repos w' = repos w | Inr r \<Rightarrow> True)"
  by (auto simp: sb_updateRepositorySize_def db_call_def split: split_all)

lemma rm_updateRepositorySize_cases:
  assumes "rm_updateRepositorySize i d w = (res, w')"
  shows "files w' = files w \<and> gh_repos w' = gh_repos w \<and> gh_assets w' = gh_assets w
   \<and> (case res of
         Inl e \<Rightarrow> repos w' = repos w
       | Inr r \<Rightarrow> (\<exists>cur. cur \<in> set (repos w) \<and> rid cur = i \<and> user_id cur = []
             \<and> size_mb r = max 0 (size_mb cur + d)
             \<and> repos w' = map (\<lambda>x. if rid x = i
                                      then x\<lparr>size_mb := max 0 (size_mb cur + d)\<rparr> else x)
                              (repos w)))"
proof -
  obtain gres w1 where g: "sb_getUserRepositories [] False w = (gres, w1)"
    by (cases "sb_getUserRepositories [] False w")
  then have fr1: "repos w1 = repos w" "files w1 = files w" "gh_assets w1 = gh_assets w"
    "gh_repos w1 = gh_repos w"
    using sb_getUserRepositories_frame by blast+
  show ?thesis
  proof (cases res)
    case (Inr r)
    with assms rm_updateRepositorySize_value [of i d w r w'] have
      v: "\<exists>cur. cur \<in> set (repos w) \<and> rid cur = i \<and> user_id cur = []
             \<and> size_mb r = max 0 (size_mb cur + d)
             \<and> repos w' = map (\<lambda>x. if rid x = i
                                      then x\<lparr>size_mb := max 0 (size_mb cur + d)\<rparr> else x)
                              (repos w)"
      by simp
    from assms Inr g obtain rs where rs: "gres = Inr rs"
      by (cases gres) (auto simp: rm_updateRepositorySize_def)
    with assms Inr g obtain c where c: "find (\<lambda>r. rid r = i) rs = Some c"
      by (cases "find (\<lambda>r. rid r = i) rs") (auto simp: rm_updateRepositorySize_def)
    with assms Inr g rs have
      "sb_updateRepositorySize i (max 0 (size_mb c + d)) w1 = (Inr r, w')"
      by (simp add: rm_updateRepositorySize_def)
    then have "files w' = files w1 \<and> gh_repos w' = gh_repos w1 \<and> gh_assets w' = gh_assets w1"
      using sb_updateRepositorySize_frame by blast
    with v fr1 Inr show ?thesis by simp
  next
    case (Inl e)
    show ?thesis
    proof (cases gres)
      case (Inl e1)
      with assms g \<open>res = Inl e\<close> fr1 show ?thesis
        by (auto simp: rm_updateRepositorySize_def)
    next
      case (Inr rs)
      show ?thesis
      proof (cases "find (\<lambda>r. rid r = i) rs")
        case None
        with assms g Inr \<open>res = Inl e\<close> fr1 show ?thesis
          by (auto simp: rm_updateRepositorySize_def)
      next
        case (Some cur)
        with assms g Inr \<open>res = Inl e\<close> have
          "sb_updateRepositorySize i (max 0 (size_mb cur + d)) w1 = (Inl e, w')"
          by (simp add: rm_updateRepositorySize_def)
        from sb_updateRepositorySize_frame [OF this] fr1 \<open>res = Inl e\<close> show ?thesis
          by simp
      qed
    qed
  qed
qed

subsection \<open>What storing a file changes\<close>

lemma store_file_frame:
  assumes "store_file f u n rp w = (res, w')"
  shows "gh_repos w' = gh_repos w
   \<and> (gh_assets w' = gh_assets w
       \<or> (\<exists>a. gh_assets w' = gh_assets w @ [a] \<and> asset_repo a = name rp
              \<and> asset_size a = size_bytes f))
   \<and> (files w' = files w
       \<or> (\<exists>x. files w' = files w @ [x] \<and> repo_id x = Some (rid rp) \<and> f_user_id x = u
              \<and> f_size_mb x = bytesToMb (int (size_bytes f))))
   \<and> (repos w' = repos w
       \<or> (\<exists>cur. cur \<in> set (repos w) \<and> rid cur = rid rp \<and> user_id cur = []
              \<and> repos w' = map (\<lambda>x. if rid x = rid rp
                   then x\<lparr>size_mb := max 0 (size_mb cur + bytesToMb (int (size_bytes f)))\<rparr>
                   else x) (repos w)))"
proof -
  obtain r1 w1 where g: "gh_uploadFile (name rp) n (size_bytes f) (mimetype f) w = (r1, w1)"
    by (cases "gh_uploadFile (name rp) n (size_bytes f) (mimetype f) w")
  note c1 = gh_uploadFile_cases [OF g]
  show ?thesis
  proof (cases r1)
    case (Inl e)
    with assms g c1 show ?thesis by (auto simp: store_file_def)
  next
    case (Inr up)
    let ?d = "\<lparr>fid = 0, f_user_id = u, repo_id = Some (rid rp),
                   filename = n, original_name = originalname f,
                   f_size_mb = bytesToMb (int (size_bytes f)), mime_type = mimetype f,
                   download_url = ur_downloadUrl up,
                   gh_release_id = ur_releaseId up,
                   gh_asset_id = ur_assetId up\<rparr>"
    obtain r2 w2 where s: "sb_createFile ?d w1 = (r2, w2)"
      by (cases "sb_createFile ?d w1")
    note c2 = sb_createFile_cases [OF s]
    show ?thesis
    proof (cases r2)
      case (Inl e)
      with assms g s c1 c2 \<open>r1 = Inr up\<close> show ?thesis by (auto simp: store_file_def)
    next
      case (Inr row)
      obtain r3 w3 where
        m: "rm_updateRepositorySize (rid rp) (bytesToMb (int (size_bytes f))) w2 = (r3, w3)"
        by (cases "rm_updateRepositorySize (rid rp) (bytesToMb (int (size_bytes f))) w2")
      note c3 = rm_updateRepositorySize_cases [OF m]
      from assms g s m \<open>r1 = Inr up\<close> Inr have w': "w' = w3"
        by (auto simp: store_file_def split: sum.splits)
      from c1 c2 \<open>r1 = Inr up\<close> Inr have
        f12: "repos w2 = repos w" "gh_repos w2 = gh_repos w"
          "gh_assets w2 = gh_assets w @ [\<lparr>asset_id = ur_assetId up, asset_repo = name rp,
              asset_size = size_bytes f\<rparr>]"
          "files w2 = files w @ [?d\<lparr>fid := fresh_id (map fid (files w))\<rparr>]"
        by simp_all
      show ?thesis
      proof (cases r3)
        case (Inl e)
        with c3 f12 w' show ?thesis by simp
      next
        case (Inr r)
        with c3 f12 w' show ?thesis by (simp, blast)
      qed
    qed
  qed
qed

lemma store_file_Inr:
  assumes "store_file f u n rp w = (Inr res, w')"
  shows "rs_id (up_repository res) = rid rp \<and> rs_name (up_repository res) = name rp
   \<and> sizeAfterUpload (up_repository res) = size_mb rp + bytesToMb (int (size_bytes f))
   \<and> fs_repository (up_file res) = name rp
   \<and> gh_repos w' = gh_repos w
   \<and> (\<exists>a. gh_assets w' = gh_assets w @ [a] \<and> asset_repo a = name rp
              \<and> asset_size a = size_bytes f)
   \<and> (\<exists>x. files w' = files w @ [x] \<and> repo_id x = Some (rid rp) \<and> f_user_id x = u
              \<and> fid x = fs_id (up_file res)
              \<and> f_size_mb x = bytesToMb (int (size_bytes f)))
   \<and> (\<exists>cur. cur \<in> set (repos w) \<and> rid cur = rid rp \<and> user_id cur = []
              \<and> repos w' = map (\<lambda>x. if rid x = rid rp
                   then x\<lparr>size_mb := max 0 (size_mb cur + bytesToMb (int (size_bytes f)))\<rparr>
                   else x) (repos w))"
proof -
  obtain r1 w1 where g: "gh_uploadFile (name rp) n (size_bytes f) (mimetype f) w = (r1, w1)"
    by (cases "gh_uploadFile (name rp) n (size_bytes f) (mimetype f) w")
  with assms obtain up where r1: "r1 = Inr up"
    by (cases r1) (auto simp: store_file_def)
  note c1 = gh_uploadFile_cases [OF g]
  let ?d = "\<lparr>fid = 0, f_user_id = u, repo_id = Some (rid rp),
                 filename = n, original_name = originalname f,
                 f_size_mb = bytesToMb (int (size_bytes f)), mime_type = mimetype f,
                 download_url = ur_downloadUrl up,
                 gh_release_id = ur_releaseId up,
                 gh_asset_id = ur_assetId up\<rparr>"
  obtain r2 w2 where s: "sb_createFile ?d w1 = (r2, w2)"
    by (cases "sb_createFile ?d w1")
  with assms g r1 obtain row where r2: "r2 = Inr row"
    by (cases r2) (auto simp: store_file_def)
  note c2 = sb_createFile_cases [OF s]
  obtain r3 w3 where
    m: "rm_updateRepositorySize (rid rp) (bytesToMb (int (size_bytes f))) w2 = (r3, w3)"
    by (cases "rm_updateRepositorySize (rid rp) (bytesToMb (int (size_bytes f))) w2")
  with assms g r1 s r2 obtain r where r3: "r3 = Inr r"
    by (cases r3) (auto simp: store_file_def)
  note c3 = rm_updateRepositorySize_cases [OF m]
  from assms g s m r1 r2 r3 have w': "w' = w3"
    and res: "res = \<lparr>up_file =
                            \<lparr>fs_id = fid row, fs_filename = filename row,
                             fs_originalName = original_name row,
                             fs_size = size_bytes f,
                             fs_sizeMb = bytesToMb (int (size_bytes f)),
                             fs_mimeType = mime_type row,
                             fs_downloadUrl = download_url row,
                             fs_repository = name rp\<rparr>,
                          up_repository =
                            \<lparr>rs_id = rid rp, rs_name = name rp,
                             sizeAfterUpload =
                               size_mb rp + bytesToMb (int (size_bytes f))\<rparr>\<rparr>"
    by (auto simp: store_file_def)
  from c1 c2 r1 r2 have
    f12: "repos w2 = repos w" "gh_repos w2 = gh_repos w"
      "gh_assets w2 = gh_assets w @ [\<lparr>asset_id = ur_assetId up, asset_repo = name rp,
          asset_size = size_bytes f\<rparr>]"
      "files w2 = files w @ [row]" "row = ?d\<lparr>fid := fresh_id (map fid (files w))\<rparr>"
    by simp_all
  from c3 r3 f12 w' res show ?thesis by (simp, blast)
qed

lemma find_select_repos_Some:
  "find P (select_repos u a rs) = Some c \<Longrightarrow> \<exists>r. find P rs = Some r"
proof -
  assume "find P (select_repos u a rs) = Some c"
  then have "c \<in> set (select_repos u a rs)" and "P c" by (auto simp: find_Some_iff)
  then have "\<not> (\<forall>x\<in>set rs. \<not> P x)" by (auto simp: set_select_repos)
  then show ?thesis by (cases "find P rs") (auto simp: find_None_iff)
qed

lemma ff_rm_updateRepositorySize:
  assumes nf: "no_faults w"
  shows "\<exists>w'. rm_updateRepositorySize i d w =
      ((case find (\<lambda>r. rid r = i) (select_repos [] False (repos w)) of
          None \<Rightarrow> Inl (AppError ''Repository not found'' REPO_NOT_FOUND 404)
        | Some cur \<Rightarrow> Inr ((the (find (\<lambda>r. rid r = i) (repos w)))
                            \<lparr>size_mb := max 0 (size_mb cur + d)\<rparr>)), w')
     \<and> no_faults w' \<and> gh_repos w' = gh_repos w \<and> gh_assets w' = gh_assets w
     \<and> files w' = files w
     \<and> env_MAX_FILE_SIZE_MB w' = env_MAX_FILE_SIZE_MB w
     \<and> env_MAX_REPO_SIZE_MB w' = env_MAX_REPO_SIZE_MB w
     \<and> repos w' =
        (case find (\<lambda>r. rid r = i) (select_repos [] False (repos w)) of
           None \<Rightarrow> repos w
         | Some cur \<Rightarrow> map (\<lambda>x. if rid x = i then x\<lparr>size_mb := max 0 (size_mb cur + d)\<rparr>
                                 else x) (repos w))"
proof (cases "find (\<lambda>r. rid r = i) (select_repos [] False (repos w))")
  case None
  with nf show ?thesis
    by (simp add: rm_updateRepositorySize_def ff_sb_getUserRepositories)
next
  case (Some cur)
  from find_select_repos_Some [OF Some] obtain r where
    r: "find (\<lambda>r. rid r = i) (repos w) = Some r" by blast
  have nf1: "no_faults (record_call DbSelectRepos w)" using nf by simp
  have r1: "find (\<lambda>r. rid r = i) (repos (record_call DbSelectRepos w)) = Some r"
    using r by simp
  show ?thesis
    using nf Some r
    by (simp add: rm_updateRepositorySize_def ff_sb_getUserRepositories
        ff_sb_updateRepositorySize [OF nf1 r1])
qed

lemma ff_gh_uploadFile_fields:
  assumes "no_faults w" and "n \<in> set (gh_repos w)"
  shows "\<exists>up w1. gh_uploadFile n fname b ct w = (Inr up, w1) \<and> no_faults w1
     \<and> repos w1 = repos w \<and> files w1 = files w \<and> gh_repos w1 = gh_repos w
     \<and> gh_assets w1 = gh_assets w
          @ [\<lparr>asset_id = ur_assetId up, asset_repo = n, asset_size = b\<rparr>]
     \<and> env_MAX_FILE_SIZE_MB w1 = env_MAX_FILE_SIZE_MB w
     \<and> env_MAX_REPO_SIZE_MB w1 = env_MAX_REPO_SIZE_MB w"
  using assms by (simp add: ff_gh_uploadFile)

lemma ff_sb_createFile_fields:
  assumes "no_faults w"
  shows "\<exists>w1. sb_createFile d w = (Inr (d\<lparr>fid := fresh_id (map fid (files w))\<rparr>), w1)
     \<and> no_faults w1
     \<and> repos w1 = repos w \<and> files w1 = files w @ [d\<lparr>fid := fresh_id (map fid (files w))\<rparr>]
     \<and> gh_repos w1 = gh_repos w \<and> gh_assets w1 = gh_assets w
     \<and> env_MAX_FILE_SIZE_MB w1 = env_MAX_FILE_SIZE_MB w
     \<and> env_MAX_REPO_SIZE_MB w1 = env_MAX_REPO_SIZE_MB w"
  using assms by (simp add: ff_sb_createFile)

lemma ff_store_file:
  assumes nf: "no_faults w" and remote: "name rp \<in> set (gh_repos w)"
  shows "\<exists>w' url. store_file f u n rp w =
      ((case find (\<lambda>r. rid r = rid rp) (select_repos [] False (repos w)) of
          None \<Rightarrow> Inl (AppError ''Repository not found'' REPO_NOT_FOUND 404)
        | Some cur \<Rightarrow>
            Inr \<lparr>up_file =
                   \<lparr>fs_id = fresh_id (map fid (files w)), fs_filename = n,
                    fs_originalName = originalname f, fs_size = size_bytes f,
                    fs_sizeMb = bytesToMb (int (size_bytes f)), fs_mimeType = mimetype f,
                    fs_downloadUrl = url, fs_repository = name rp\<rparr>,
                 up_repository =
                   \<lparr>rs_id = rid rp, rs_name = name rp,
                    sizeAfterUpload = size_mb rp + bytesToMb (int (size_bytes f))\<rparr>\<rparr>), w')
     \<and> no_faults w' \<and> gh_repos w' = gh_repos w
     \<and> map (\<lambda>a. (asset_repo a, asset_size a)) (gh_assets w')
         = map (\<lambda>a. (asset_repo a, asset_size a)) (gh_assets w) @ [(name rp, size_bytes f)]
     \<and> map (\<lambda>x. (fid x, f_user_id x, repo_id x, f_size_mb x)) (files w')
         = map (\<lambda>x. (fid x, f_user_id x, repo_id x, f_size_mb x)) (files w)
           @ [(fresh_id (map fid (files w)), u, Some (rid rp), bytesToMb (int (size_bytes f)))]
     \<and> env_MAX_FILE_SIZE_MB w' = env_MAX_FILE_SIZE_MB w
     \<and> env_MAX_REPO_SIZE_MB w' = env_MAX_REPO_SIZE_MB w
     \<and> repos w' =
        (case find (\<lambda>r. rid r = rid rp) (select_repos [] False (repos w)) of
           None \<Rightarrow> repos w
         | Some cur \<Rightarrow>
             map (\<lambda>x. if rid x = rid rp
                      then x\<lparr>size_mb := max 0 (size_mb cur + bytesToMb (int (size_bytes f)))\<rparr>
                      else x) (repos w))"
proof -
  from ff_gh_uploadFile_fields [OF nf remote, of n "size_bytes f" "mimetype f"]
  obtain up w1 where
    g: "gh_uploadFile (name rp) n (size_bytes f) (mimetype f) w = (Inr up, w1)"
    and f1: "no_faults w1" "repos w1 = repos w" "files w1 = files w" "gh_repos w1 = gh_repos w"
      "gh_assets w1 = gh_assets w
          @ [\<lparr>asset_id = ur_assetId up, asset_repo = name rp, asset_size = size_bytes f\<rparr>]"
      "env_MAX_FILE_SIZE_MB w1 = env_MAX_FILE_SIZE_MB w"
      "env_MAX_REPO_SIZE_MB w1 = env_MAX_REPO_SIZE_MB w"
    by (elim exE conjE)
  define d where "d = \<lparr>fid = 0, f_user_id = u, repo_id = Some (rid rp),
                   filename = n, original_name = originalname f,
                   f_size_mb = bytesToMb (int (size_bytes f)), mime_type = mimetype f,
                   download_url = ur_downloadUrl up,
                   gh_release_id = ur_releaseId up,
                   gh_asset_id = ur_assetId up\<rparr>"
  from ff_sb_createFile_fields [OF f1(1), of d]
  obtain w2 where
    s: "sb_createFile d w1 = (Inr (d\<lparr>fid := fresh_id (map fid (files w1))\<rparr>), w2)"
    and f2: "no_faults w2" "repos w2 = repos w1"
      "files w2 = files w1 @ [d\<lparr>fid := fresh_id (map fid (files w1))\<rparr>]"
      "gh_repos w2 = gh_repos w1" "gh_assets w2 = gh_assets w1"
      "env_MAX_FILE_SIZE_MB w2 = env_MAX_FILE_SIZE_MB w1"
      "env_MAX_REPO_SIZE_MB w2 = env_MAX_REPO_SIZE_MB w1"
    by (elim exE conjE)
  from ff_rm_updateRepositorySize [OF f2(1), of "rid rp" "bytesToMb (int (size_bytes f))"]
  obtain w' where upd: "rm_updateRepositorySize (rid rp) (bytesToMb (int (size_bytes f))) w2 =
      ((case find (\<lambda>r. rid r = rid rp) (select_repos [] False (repos w2)) of
          None \<Rightarrow> Inl (AppError ''Repository not found'' REPO_NOT_FOUND 404)
        | Some cur \<Rightarrow> Inr ((the (find (\<lambda>r. rid r = rid rp) (repos w2)))
              \<lparr>size_mb := max 0 (size_mb cur + bytesToMb (int (size_bytes f)))\<rparr>)), w')"
    and fr: "no_faults w'" "gh_repos w' = gh_repos w2"
      "gh_assets w' = gh_assets w2" "files w' = files w2"
      "env_MAX_FILE_SIZE_MB w' = env_MAX_FILE_SIZE_MB w2"
      "env_MAX_REPO_SIZE_MB w' = env_MAX_REPO_SIZE_MB w2"
      "repos w' =
        (case find (\<lambda>r. rid r = rid rp) (select_repos [] False (repos w2)) of
           None \<Rightarrow> repos w2
         | Some cur \<Rightarrow>
             map (\<lambda>x. if rid x = rid rp
                      then x\<lparr>size_mb := max 0 (size_mb cur + bytesToMb (int (size_bytes f)))\<rparr>
                      else x) (repos w2))"
    by (elim exE conjE)
  have r2: "repos w2 = repos w" using f1 f2 by simp
  show ?thesis
    apply (rule exI [of _ w'])
    apply (rule exI [of _ "ur_downloadUrl up"])
    apply (intro conjI)
    subgoal
      unfolding store_file_def g
      by (simp add: s [unfolded d_def] upd r2 f1 d_def split: option.splits)
    subgoal by (rule fr)
    subgoal by (simp add: fr f2 f1)
    subgoal by (simp add: fr f2 f1)
    subgoal by (simp add: fr f2 f1 d_def)
    subgoal by (simp add: fr f2 f1)
    subgoal by (simp add: fr f2 f1)
    subgoal using fr(7) unfolding r2 .
    done
qed

subsection \<open>Rotation before the hard limit\<close>

lemma ff_rm_createNewRepository_fields:
  assumes "no_faults w" and "generateRepoName u b \<notin> set (gh_repos w)"
  shows "\<exists>r w'. rm_createNewRepository u b w = (Inr r, w') \<and> no_faults w'
     \<and> name r = generateRepoName u b \<and> rid r = fresh_id (map rid (repos w))
     \<and> user_id r = u \<and> size_mb r = 0 \<and> max_size_mb r = bytesToMb (MAX_REPO_SIZE_BYTES w)
     \<and> is_active r \<and> created_at r = Suc (Suc (Suc (clock w)))
     \<and> repos w' = repos w @ [r] \<and> gh_repos w' = gh_repos w @ [generateRepoName u b]
     \<and> files w' = files w \<and> gh_assets w' = gh_assets w
     \<and> env_MAX_FILE_SIZE_MB w' = env_MAX_FILE_SIZE_MB w
     \<and> env_MAX_REPO_SIZE_MB w' = env_MAX_REPO_SIZE_MB w"
  using assms by (simp add: ff_rm_createNewRepository_free)

lemma validateFile_file_80mb:
  "env_MAX_FILE_SIZE_MB w = None \<Longrightarrow> validateFile w (Some file_80mb) = None"
  by (simp add: validateFile_def file_80mb_def MAX_FILE_SIZE_BYTES_def env_or_def
      ALLOWED_MIME_TYPES_def is_space_def unsafe_char_def sanitizeFilename_def)

lemma bucket_names_anon:
  "generateRepoName [] (Suc 0) = ''user__bucket_1''"
  "generateRepoName [] 2 = ''user__bucket_2''"
  by (simp_all add: generateRepoName_def digits.simps digit_chars)

lemma world_rotate_fields:
  "repos world_rotate = [mk_repo 1 ''u1'' ''user_u1_bucket_1'' 680 True 10]"
  "gh_repos world_rotate = [''user_u1_bucket_1'']"
  "files world_rotate = []" "gh_assets world_rotate = []"
  "no_faults world_rotate"
  "env_MAX_FILE_SIZE_MB world_rotate = None"
  "env_MAX_REPO_SIZE_MB world_rotate = None"
  by (simp_all add: no_faults_def world_rotate_def world0_def)

lemma world_rotate_anon_fields:
  "repos world_rotate_anon = [mk_repo 1 [] ''user__bucket_1'' 680 True 10]"
  "gh_repos world_rotate_anon = [''user__bucket_1'']"
  "files world_rotate_anon = []" "gh_assets world_rotate_anon = []"
  "no_faults world_rotate_anon"
  "env_MAX_FILE_SIZE_MB world_rotate_anon = None"
  "env_MAX_REPO_SIZE_MB world_rotate_anon = None"
  by (simp_all add: no_faults_def world_rotate_anon_def world0_def)

text \<open>
  C2. \<open>shouldRotateRepository\<close> answers true exactly when the cached size plus the
  additional size strictly exceeds nine tenths of the maximum size of the repository,
  where a maximum size of zero stands for the configured maximum. When it answers true
  during an upload for the repository \<open>r\<close> that the allocator picked, and the listing and
  the creation that follow succeed, the upload is carried out with the name and the
  identifier of the repository \<open>newRepo\<close> created just then: \<open>newRepo\<close> is a new row and a
  new name at the provider, every asset and every file row that the upload adds belongs
  to \<open>newRepo\<close>, and a result that is returned names \<open>newRepo\<close>. All this although \<open>r\<close>, when
  it was an existing row, had passed the hard check of the capacity tracker.
\<close>

theorem rotation_threshold_and_redirect:
  assumes valid: "validateFile w0 (Some f) = None"
    and picked: "rm_getAvailableRepository u (size_bytes f) w0 = (Inr r, w1)"
    and rot: "shouldRotateRepository w1 r (bytesToMb (int (size_bytes f)))"
    and listed: "sb_getUserRepositories u False w1 = (Inr allRepos, w2)"
    and created: "rm_createNewRepository u (length allRepos + 1) w2 = (Inr newRepo, w3)"
    and up: "uploadFile (Some f) u w0 = (res, w')"
  shows "(\<forall>w rp a. shouldRotateRepository w rp a =
            (9 / 10 * (if max_size_mb rp = 0 then bytesToMb (MAX_REPO_SIZE_BYTES w)
                       else max_size_mb rp) < size_mb rp + a))
     \<and> (r \<in> set (repos w0) \<longrightarrow> size_mb r + bytesToMb (int (size_bytes f)) \<le> max_size_mb r)
     \<and> uploadFile (Some f) u w0 =
         store_file f u (generateUniqueFilename w0 (originalname f))
           (r\<lparr>rid := rid newRepo, name := name newRepo\<rparr>) w3
     \<and> r \<in> set (repos w1) \<and> repos w3 = repos w1 @ [newRepo] \<and> rid newRepo \<noteq> rid r
     \<and> name newRepo \<notin> set (gh_repos w1) \<and> gh_repos w' = gh_repos w1 @ [name newRepo]
     \<and> (gh_assets w' = gh_assets w0
         \<or> (\<exists>a. gh_assets w' = gh_assets w0 @ [a] \<and> asset_repo a = name newRepo
                \<and> asset_size a = size_bytes f))
     \<and> (files w' = files w0
         \<or> (\<exists>x. files w' = files w0 @ [x] \<and> repo_id x = Some (rid newRepo)
                \<and> f_user_id x = u))
     \<and> (case res of
           Inl e \<Rightarrow> True
         | Inr ok \<Rightarrow>
             rs_id (up_repository ok) = rid newRepo \<and> rs_name (up_repository ok) = name newRepo
             \<and> fs_repository (up_file ok) = name newRepo
             \<and> (\<exists>a. gh_assets w' = gh_assets w0 @ [a] \<and> asset_repo a = name newRepo
                    \<and> asset_size a = size_bytes f)
             \<and> (\<exists>x. files w' = files w0 @ [x] \<and> repo_id x = Some (rid newRepo)
                    \<and> fid x = fs_id (up_file ok)))"
proof -
  let ?rp = "r\<lparr>rid := rid newRepo, name := name newRepo\<rparr>"
  let ?fn = "generateUniqueFilename w0 (originalname f)"
  have thr: "\<forall>w rp a. shouldRotateRepository w rp a =
            (9 / 10 * (if max_size_mb rp = 0 then bytesToMb (MAX_REPO_SIZE_BYTES w)
                       else max_size_mb rp) < size_mb rp + a)"
    by (simp add: shouldRotateRepository_def Let_def mult.commute)
  from rm_getAvailableRepository_Inr [OF picked] have r_in: "r \<in> set (repos w1)"
    and f01: "files w1 = files w0" "gh_assets w1 = gh_assets w0"
    and hard: "r \<in> set (repos w0) \<longrightarrow>
        size_mb r + bytesToMb (int (size_bytes f)) \<le> max_size_mb r"
    by simp_all
  from sb_getUserRepositories_frame [OF listed] have f12: "repos w2 = repos w1"
    "files w2 = files w1" "gh_assets w2 = gh_assets w1" "gh_repos w2 = gh_repos w1"
    by simp_all
  from rm_createNewRepository_Inr [OF created] have f23: "repos w3 = repos w2 @ [newRepo]"
    "files w3 = files w2" "gh_assets w3 = gh_assets w2"
    "gh_repos w3 = gh_repos w2 @ [name newRepo]" "name newRepo \<notin> set (gh_repos w2)"
    "rid newRepo = fresh_id (map rid (repos w2))"
    by simp_all
  have "rid r \<in> set (map rid (repos w2))" using r_in f12 by simp
  with f23(6) fresh_id_new [of "map rid (repos w2)"] have other: "rid newRepo \<noteq> rid r"
    by auto
  have eq: "uploadFile (Some f) u w0 = store_file f u ?fn ?rp w3"
    using valid picked rot listed created by (simp add: uploadFile_def Let_def)
  with up have st: "store_file f u ?fn ?rp w3 = (res, w')" by simp
  from store_file_frame [OF st] have fr: "gh_repos w' = gh_repos w3"
    "gh_assets w' = gh_assets w3
       \<or> (\<exists>a. gh_assets w' = gh_assets w3 @ [a] \<and> asset_repo a = name newRepo
              \<and> asset_size a = size_bytes f)"
    "files w' = files w3
       \<or> (\<exists>x. files w' = files w3 @ [x] \<and> repo_id x = Some (rid newRepo) \<and> f_user_id x = u)"
    by auto
  have a30: "gh_assets w3 = gh_assets w0" and f30: "files w3 = files w0"
    using f01 f12 f23 by simp_all
  have ok: "rs_id (up_repository ok) = rid newRepo \<and> rs_name (up_repository ok) = name newRepo
             \<and> fs_repository (up_file ok) = name newRepo
             \<and> (\<exists>a. gh_assets w' = gh_assets w0 @ [a] \<and> asset_repo a = name newRepo
                    \<and> asset_size a = size_bytes f)
             \<and> (\<exists>x. files w' = files w0 @ [x] \<and> repo_id x = Some (rid newRepo)
                    \<and> fid x = fs_id (up_file ok))"
    if "res = Inr ok" for ok
  proof -
    from st that have "store_file f u ?fn ?rp w3 = (Inr ok, w')" by simp
    from store_file_Inr [OF this] show ?thesis
      unfolding a30 f30 by auto
  qed
  show ?thesis
  proof (intro conjI)
    show "\<forall>w rp a. shouldRotateRepository w rp a =
            (9 / 10 * (if max_size_mb rp = 0 then bytesToMb (MAX_REPO_SIZE_BYTES w)
                       else max_size_mb rp) < size_mb rp + a)" by (rule thr)
    show "r \<in> set (repos w0) \<longrightarrow>
        size_mb r + bytesToMb (int (size_bytes f)) \<le> max_size_mb r" by (rule hard)
    show "uploadFile (Some f) u w0 = store_file f u ?fn ?rp w3" by (rule eq)
    show "r \<in> set (repos w1)" by (rule r_in)
    show "repos w3 = repos w1 @ [newRepo]" using f23 f12 by simp
    show "rid newRepo \<noteq> rid r" by (rule other)
    show "name newRepo \<notin> set (gh_repos w1)" using f23 f12 by simp
    show "gh_repos w' = gh_repos w1 @ [name newRepo]" using fr f23 f12 by simp
    show "gh_assets w' = gh_assets w0
         \<or> (\<exists>a. gh_assets w' = gh_assets w0 @ [a] \<and> asset_repo a = name newRepo
                \<and> asset_size a = size_bytes f)" using fr(2) unfolding a30 .
    show "files w' = files w0
         \<or> (\<exists>x. files w' = files w0 @ [x] \<and> repo_id x = Some (rid newRepo)
                \<and> f_user_id x = u)" using fr(3) unfolding f30 .
    show "case res of
           Inl e \<Rightarrow> True
         | Inr ok \<Rightarrow>
             rs_id (up_repository ok) = rid newRepo \<and> rs_name (up_repository ok) = name newRepo
             \<and> fs_repository (up_file ok) = name newRepo
             \<and> (\<exists>a. gh_assets w' = gh_assets w0 @ [a] \<and> asset_repo a = name newRepo
                    \<and> asset_size a = size_bytes f)
             \<and> (\<exists>x. files w' = files w0 @ [x] \<and> repo_id x = Some (rid newRepo)
                    \<and> fid x = fs_id (up_file ok))"
      using ok by (cases res) simp_all
  qed
qed

text \<open>A row whose maximum size is zero: one more megabyte exceeds nine tenths of that
  maximum, and the code, which takes the configured 800 MB instead, answers false.\<close>

theorem rotation_threshold_counterexample:
  "max_size_mb (mk_repo 1 ''u1'' ''user_u1_bucket_1'' 0 True 10\<lparr>max_size_mb := 0\<rparr>) = 0
   \<and> 9 / 10 * max_size_mb (mk_repo 1 ''u1'' ''user_u1_bucket_1'' 0 True 10\<lparr>max_size_mb := 0\<rparr>)
       < size_mb (mk_repo 1 ''u1'' ''user_u1_bucket_1'' 0 True 10\<lparr>max_size_mb := 0\<rparr>) + 1
   \<and> shouldRotateRepository world0
        (mk_repo 1 ''u1'' ''user_u1_bucket_1'' 0 True 10\<lparr>max_size_mb := 0\<rparr>) 1 = False"
  by (simp add: shouldRotateRepository_def mk_repo_def MAX_REPO_SIZE_BYTES_def env_or_def
      world0_def bytesToMb_def)

theorem rotation_threshold_and_redirect_witness:
  "map (\<lambda>x. (name x, size_mb x, max_size_mb x)) (repos world_rotate)
     = [(''user_u1_bucket_1'', 680, 800)]
   \<and> bytesToMb (int (size_bytes file_80mb)) = 80
   \<and> validateFile world_rotate (Some file_80mb) = None
   \<and> (\<exists>r w1. rm_getAvailableRepository ''u1'' (size_bytes file_80mb) world_rotate = (Inr r, w1)
         \<and> name r = ''user_u1_bucket_1'' \<and> size_mb r + 80 \<le> max_size_mb r
         \<and> shouldRotateRepository w1 r 80)
   \<and> (\<exists>res w'. uploadFile (Some file_80mb) ''u1'' world_rotate = (res, w')
         \<and> gh_repos w' = [''user_u1_bucket_1'', ''user_u1_bucket_2'']
         \<and> map (\<lambda>x. (rid x, name x)) (repos w')
             = [(1, ''user_u1_bucket_1''), (2, ''user_u1_bucket_2'')]
         \<and> map (\<lambda>a. (asset_repo a, asset_size a)) (gh_assets w')
             = [(''user_u1_bucket_2'', 83886080)]
         \<and> map (\<lambda>x. (f_user_id x, repo_id x)) (files w') = [(''u1'', Some 2)])"
proof -
  let ?r1 = "mk_repo 1 ''u1'' ''user_u1_bucket_1'' 680 True 10"
  let ?w1 = "record_call DbSelectRepos world_rotate"
  let ?w2 = "record_call DbSelectRepos ?w1"
  let ?fn = "generateUniqueFilename world_rotate (originalname file_80mb)"
  have mb: "bytesToMb (int (size_bytes file_80mb)) = 80"
    by (simp add: bytesToMb_def file_80mb_def)
  have valid: "validateFile world_rotate (Some file_80mb) = None"
    by (rule validateFile_file_80mb) (rule world_rotate_fields)
  have picked: "rm_getAvailableRepository ''u1'' (size_bytes file_80mb) world_rotate
      = (Inr ?r1, ?w1)"
    by (simp add: rm_getAvailableRepository_def ff_sb_getAvailableRepository
        world_rotate_fields select_repos_def mk_repo_def mb)
  have rot: "shouldRotateRepository ?w1 ?r1 (bytesToMb (int (size_bytes file_80mb)))"
    unfolding mb by (simp add: shouldRotateRepository_def mk_repo_def)
  have listed: "sb_getUserRepositories ''u1'' False ?w1 = (Inr [?r1], ?w2)"
    by (simp add: ff_sb_getUserRepositories world_rotate_fields select_repos_def mk_repo_def)
  have nf2: "no_faults ?w2" by (simp add: world_rotate_fields)
  have free: "generateRepoName ''u1'' 2 \<notin> set (gh_repos ?w2)"
    by (simp add: bucket_names_u1 world_rotate_fields)
  from ff_rm_createNewRepository_fields [OF nf2 free]
  obtain newRepo w3 where c2: "rm_createNewRepository ''u1'' 2 ?w2 = (Inr newRepo, w3)"
    and n3: "no_faults w3" "name newRepo = generateRepoName ''u1'' 2"
      "rid newRepo = fresh_id (map rid (repos ?w2))" "user_id newRepo = ''u1''"
      "repos w3 = repos ?w2 @ [newRepo]"
      "gh_repos w3 = gh_repos ?w2 @ [generateRepoName ''u1'' 2]"
      "files w3 = files ?w2" "gh_assets w3 = gh_assets ?w2"
    by (elim exE conjE)
  have created: "rm_createNewRepository ''u1'' (length [?r1] + 1) ?w2 = (Inr newRepo, w3)"
    using c2 by (simp add: numeral_2_eq_2)
  have id2: "rid newRepo = 2"
    using n3(3) by (simp add: world_rotate_fields mk_repo_def fresh_id_def)
  have nm2: "name newRepo = ''user_u1_bucket_2''"
    using n3(2) by (simp add: bucket_names_u1)
  let ?rp = "?r1\<lparr>rid := rid newRepo, name := name newRepo\<rparr>"
  have remote: "name ?rp \<in> set (gh_repos w3)" by (simp add: n3)
  have none: "find (\<lambda>r. rid r = rid ?rp) (select_repos [] False (repos w3)) = None"
    by (simp add: n3 select_repos_def world_rotate_fields mk_repo_def)
  from ff_store_file [OF n3(1) remote, of file_80mb "''u1''" ?fn]
  obtain w' where st: "store_file file_80mb ''u1'' ?fn ?rp w3
      = (Inl (AppError ''Repository not found'' REPO_NOT_FOUND 404), w')"
    and n4: "map (\<lambda>a. (asset_repo a, asset_size a)) (gh_assets w')
         = map (\<lambda>a. (asset_repo a, asset_size a)) (gh_assets w3)
           @ [(name ?rp, size_bytes file_80mb)]"
      "map (\<lambda>x. (fid x, f_user_id x, repo_id x, f_size_mb x)) (files w')
         = map (\<lambda>x. (fid x, f_user_id x, repo_id x, f_size_mb x)) (files w3)
           @ [(fresh_id (map fid (files w3)), ''u1'', Some (rid ?rp),
               bytesToMb (int (size_bytes file_80mb)))]"
      "repos w' = repos w3"
    unfolding none by (elim exE conjE) simp
  have up: "uploadFile (Some file_80mb) ''u1'' world_rotate
      = (Inl (AppError ''Repository not found'' REPO_NOT_FOUND 404), w')"
    using valid picked rot listed created st by (simp add: uploadFile_def Let_def)
  note t = rotation_threshold_and_redirect [OF valid picked rot listed created up]
  from t have "gh_repos w' = gh_repos ?w1 @ [name newRepo]" by blast
  then have g: "gh_repos w' = [''user_u1_bucket_1'', ''user_u1_bucket_2'']"
    by (simp add: world_rotate_fields nm2)
  have rows: "map (\<lambda>x. (rid x, name x)) (repos w')
             = [(1, ''user_u1_bucket_1''), (2, ''user_u1_bucket_2'')]"
    unfolding n4(3) n3(5) by (simp add: world_rotate_fields mk_repo_def id2 nm2)
  have assets: "map (\<lambda>a. (asset_repo a, asset_size a)) (gh_assets w')
             = [(''user_u1_bucket_2'', 83886080)]"
    unfolding n4(1) n3(8) by (simp add: world_rotate_fields nm2 file_80mb_def)
  have files': "map (\<lambda>x. (f_user_id x, repo_id x)) (files w') = [(''u1'', Some 2)]"
  proof -
    have "map (\<lambda>x. (f_user_id x, repo_id x)) (files w')
        = map (\<lambda>q. (fst (snd q), fst (snd (snd q))))
            (map (\<lambda>x. (fid x, f_user_id x, repo_id x, f_size_mb x)) (files w'))"
      by simp
    also have "\<dots> = [(''u1'', Some 2)]"
      unfolding n4(2) by (simp add: n3(7) world_rotate_fields id2)
    finally show ?thesis .
  qed
  show ?thesis
  proof (intro conjI)
    show "map (\<lambda>x. (name x, size_mb x, max_size_mb x)) (repos world_rotate)
        = [(''user_u1_bucket_1'', 680, 800)]"
      by (simp add: world_rotate_fields mk_repo_def)
    show "bytesToMb (int (size_bytes file_80mb)) = 80" by (rule mb)
    show "validateFile world_rotate (Some file_80mb) = None" by (rule valid)
    show "\<exists>r w1. rm_getAvailableRepository ''u1'' (size_bytes file_80mb) world_rotate
           = (Inr r, w1)
         \<and> name r = ''user_u1_bucket_1'' \<and> size_mb r + 80 \<le> max_size_mb r
         \<and> shouldRotateRepository w1 r 80"
      using picked rot [unfolded mb]
      by (intro exI [of _ ?r1] exI [of _ ?w1]) (simp add: mk_repo_def)
    show "\<exists>res w'. uploadFile (Some file_80mb) ''u1'' world_rotate = (res, w')
         \<and> gh_repos w' = [''user_u1_bucket_1'', ''user_u1_bucket_2'']
         \<and> map (\<lambda>x. (rid x, name x)) (repos w')
             = [(1, ''user_u1_bucket_1''), (2, ''user_u1_bucket_2'')]
         \<and> map (\<lambda>a. (asset_repo a, asset_size a)) (gh_assets w')
             = [(''user_u1_bucket_2'', 83886080)]
         \<and> map (\<lambda>x. (f_user_id x, repo_id x)) (files w') = [(''u1'', Some 2)]"
      by (intro exI [of _ "Inl (AppError ''Repository not found'' REPO_NOT_FOUND 404)"]
            exI [of _ w'] conjI) (rule up g rows assets files')+
  qed
qed

lemma store_file_Inl:
  assumes "store_file f u n rp w = (Inl e, w')"
  shows "repos w' = repos w"
proof -
  obtain r1 w1 where g: "gh_uploadFile (name rp) n (size_bytes f) (mimetype f) w = (r1, w1)"
    by (cases "gh_uploadFile (name rp) n (size_bytes f) (mimetype f) w")
  note c1 = gh_uploadFile_cases [OF g]
  show ?thesis
  proof (cases r1)
    case (Inl e1)
    with assms g c1 show ?thesis by (auto simp: store_file_def)
  next
    case (Inr up)
    let ?d = "\<lparr>fid = 0, f_user_id = u, repo_id = Some (rid rp),
                   filename = n, original_name = originalname f,
                   f_size_mb = bytesToMb (int (size_bytes f)), mime_type = mimetype f,
                   download_url = ur_downloadUrl up,
                   gh_release_id = ur_releaseId up,
                   gh_asset_id = ur_assetId up\<rparr>"
    obtain r2 w2 where s: "sb_createFile ?d w1 = (r2, w2)"
      by (cases "sb_createFile ?d w1")
    note c2 = sb_createFile_cases [OF s]
    show ?thesis
    proof (cases r2)
      case (Inl e2)
      with assms g s c1 c2 \<open>r1 = Inr up\<close> show ?thesis by (auto simp: store_file_def)
    next
      case (Inr row)
      obtain r3 w3 where
        m: "rm_updateRepositorySize (rid rp) (bytesToMb (int (size_bytes f))) w2 = (r3, w3)"
        by (cases "rm_updateRepositorySize (rid rp) (bytesToMb (int (size_bytes f))) w2")
      note c3 = rm_updateRepositorySize_cases [OF m]
      from assms g s m \<open>r1 = Inr up\<close> Inr obtain e3 where "r3 = Inl e3" and "w' = w3"
        by (cases r3) (auto simp: store_file_def)
      with c1 c2 c3 show ?thesis by simp
    qed
  qed
qed

text \<open>
  C10. When the rotation fires during an upload (the allocator picked \<open>r\<close>, the check
  answered true, the listing and the creation of \<open>newRepo\<close> succeeded), the upload goes
  on with the object \<open>r\<close> in which only the identifier and the name are those of
  \<open>newRepo\<close>: the asset is sent to the repository named as \<open>newRepo\<close>, the row of the file
  and the size update carry the identifier of \<open>newRepo\<close>, and the summary that is built
  once the size update has returned carries the identifier and the name of \<open>newRepo\<close> and,
  as the size after the upload, the cached size of \<open>r\<close> plus the size of the file.
  Whatever the outcome, the rows that were there before, the one of \<open>r\<close> among them, are
  unchanged; the row of \<open>newRepo\<close> holds the size of the file when the upload returns, and
  zero when it raises.
\<close>

theorem rotation_replaces_id_and_name_only:
  assumes valid: "validateFile w0 (Some f) = None"
    and picked: "rm_getAvailableRepository u (size_bytes f) w0 = (Inr r, w1)"
    and rot: "shouldRotateRepository w1 r (bytesToMb (int (size_bytes f)))"
    and listed: "sb_getUserRepositories u False w1 = (Inr allRepos, w2)"
    and created: "rm_createNewRepository u (length allRepos + 1) w2 = (Inr newRepo, w3)"
    and up: "uploadFile (Some f) u w0 = (res, w')"
  shows "(\<exists>rp. uploadFile (Some f) u w0 =
              store_file f u (generateUniqueFilename w0 (originalname f)) rp w3
          \<and> rp = r\<lparr>rid := rid newRepo, name := name newRepo\<rparr>
          \<and> size_mb rp = size_mb r \<and> max_size_mb rp = max_size_mb r
          \<and> user_id rp = user_id r \<and> github_repo_id rp = github_repo_id r
          \<and> is_active rp = is_active r \<and> created_at rp = created_at r)
     \<and> uploadFile (Some f) u w0 =
         (case gh_uploadFile (name newRepo) (generateUniqueFilename w0 (originalname f))
                 (size_bytes f) (mimetype f) w3 of
            (Inl e, w4) \<Rightarrow> (Inl e, w4)
          | (Inr uploadResult, w4) \<Rightarrow>
              (case sb_createFile
                      \<lparr>fid = 0, f_user_id = u, repo_id = Some (rid newRepo),
                       filename = generateUniqueFilename w0 (originalname f),
                       original_name = originalname f,
                       f_size_mb = bytesToMb (int (size_bytes f)), mime_type = mimetype f,
                       download_url = ur_downloadUrl uploadResult,
                       gh_release_id = ur_releaseId uploadResult,
                       gh_asset_id = ur_assetId uploadResult\<rparr> w4 of
                 (Inl e, w5) \<Rightarrow> (Inl e, w5)
               | (Inr dbFile, w5) \<Rightarrow>
                   (case rm_updateRepositorySize (rid newRepo)
                           (bytesToMb (int (size_bytes f))) w5 of
                      (Inl e, w6) \<Rightarrow> (Inl e, w6)
                    | (Inr updated, w6) \<Rightarrow>
                        (Inr \<lparr>up_file =
                                \<lparr>fs_id = fid dbFile, fs_filename = filename dbFile,
                                 fs_originalName = original_name dbFile,
                                 fs_size = size_bytes f,
                                 fs_sizeMb = bytesToMb (int (size_bytes f)),
                                 fs_mimeType = mime_type dbFile,
                                 fs_downloadUrl = download_url dbFile,
                                 fs_repository = name newRepo\<rparr>,
                              up_repository =
                                \<lparr>rs_id = rid newRepo, rs_name = name newRepo,
                                 sizeAfterUpload =
                                   size_mb r + bytesToMb (int (size_bytes f))\<rparr>\<rparr>,
                         w6))))
     \<and> r \<in> set (repos w1) \<and> rid newRepo \<noteq> rid r \<and> size_mb newRepo = 0
     \<and> (case res of
           Inl e \<Rightarrow> repos w' = repos w1 @ [newRepo]
         | Inr ok \<Rightarrow>
             rs_id (up_repository ok) = rid newRepo
             \<and> rs_name (up_repository ok) = name newRepo
             \<and> sizeAfterUpload (up_repository ok)
                 = size_mb r + bytesToMb (int (size_bytes f))
             \<and> repos w' = repos w1 @ [newRepo\<lparr>size_mb := bytesToMb (int (size_bytes f))\<rparr>])"
proof -
  let ?rp = "r\<lparr>rid := rid newRepo, name := name newRepo\<rparr>"
  let ?fn = "generateUniqueFilename w0 (originalname f)"
  let ?mb = "bytesToMb (int (size_bytes f))"
  from rm_getAvailableRepository_Inr [OF picked] have r_in: "r \<in> set (repos w1)"
    by simp
  from sb_getUserRepositories_frame [OF listed] have f12: "repos w2 = repos w1"
    by simp
  from rm_createNewRepository_Inr [OF created] have f23: "repos w3 = repos w1 @ [newRepo]"
    "rid newRepo = fresh_id (map rid (repos w1))" "size_mb newRepo = 0"
    unfolding f12 by simp_all
  have fresh: "rid x \<noteq> rid newRepo" if "x \<in> set (repos w1)" for x
  proof -
    from that have "rid x \<in> set (map rid (repos w1))" by simp
    with fresh_id_new [of "map rid (repos w1)"] f23(2) show ?thesis by auto
  qed
  have eq: "uploadFile (Some f) u w0 = store_file f u ?fn ?rp w3"
    using valid picked rot listed created by (simp add: uploadFile_def Let_def)
  with up have st: "store_file f u ?fn ?rp w3 = (res, w')" by simp
  have outcome: "case res of
           Inl e \<Rightarrow> repos w' = repos w1 @ [newRepo]
         | Inr ok \<Rightarrow>
             rs_id (up_repository ok) = rid newRepo
             \<and> rs_name (up_repository ok) = name newRepo
             \<and> sizeAfterUpload (up_repository ok) = size_mb r + ?mb
             \<and> repos w' = repos w1 @ [newRepo\<lparr>size_mb := ?mb\<rparr>]"
  proof (cases res)
    case (Inl e)
    with st have "repos w' = repos w3" using store_file_Inl by blast
    with Inl f23(1) show ?thesis by simp
  next
    case (Inr ok)
    with st have st': "store_file f u ?fn ?rp w3 = (Inr ok, w')" by simp
    from store_file_Inr [OF st'] obtain cur where
      s: "rs_id (up_repository ok) = rid newRepo" "rs_name (up_repository ok) = name newRepo"
        "sizeAfterUpload (up_repository ok) = size_mb r + ?mb"
      and cur: "cur \<in> set (repos w3)" "rid cur = rid newRepo"
      and rows: "repos w' = map (\<lambda>x. if rid x = rid newRepo
                     then x\<lparr>size_mb := max 0 (size_mb cur + ?mb)\<rparr> else x) (repos w3)"
      by auto
    from cur fresh f23(1) have "cur = newRepo" by auto
    moreover have "0 \<le> ?mb" by (simp add: bytesToMb_def)
    ultimately have v: "max 0 (size_mb cur + ?mb) = ?mb" using f23(3) by simp
    have keep: "map (\<lambda>x. if rid x = rid newRepo then x\<lparr>size_mb := ?mb\<rparr> else x) (repos w1)
        = repos w1"
      using fresh by (simp add: map_idI)
    have rows': "repos w' = repos w1 @ [newRepo\<lparr>size_mb := ?mb\<rparr>]"
      unfolding rows v f23(1) by (simp add: keep)
    with Inr s show ?thesis by simp
  qed
  show ?thesis
  proof (intro conjI)
    show "\<exists>rp. uploadFile (Some f) u w0 = store_file f u ?fn rp w3
          \<and> rp = r\<lparr>rid := rid newRepo, name := name newRepo\<rparr>
          \<and> size_mb rp = size_mb r \<and> max_size_mb rp = max_size_mb r
          \<and> user_id rp = user_id r \<and> github_repo_id rp = github_repo_id r
          \<and> is_active rp = is_active r \<and> created_at rp = created_at r"
      using eq by simp
    show "uploadFile (Some f) u w0 =
         (case gh_uploadFile (name newRepo) ?fn (size_bytes f) (mimetype f) w3 of
            (Inl e, w4) \<Rightarrow> (Inl e, w4)
          | (Inr uploadResult, w4) \<Rightarrow>
              (case sb_createFile
                      \<lparr>fid = 0, f_user_id = u, repo_id = Some (rid newRepo),
                       filename = ?fn,
                       original_name = originalname f,
                       f_size_mb = ?mb, mime_type = mimetype f,
                       download_url = ur_downloadUrl uploadResult,
                       gh_release_id = ur_releaseId uploadResult,
                       gh_asset_id = ur_assetId uploadResult\<rparr> w4 of
                 (Inl e, w5) \<Rightarrow> (Inl e, w5)
               | (Inr dbFile, w5) \<Rightarrow>
                   (case rm_updateRepositorySize (rid newRepo) ?mb w5 of
                      (Inl e, w6) \<Rightarrow> (Inl e, w6)
                    | (Inr updated, w6) \<Rightarrow>
                        (Inr \<lparr>up_file =
                                \<lparr>fs_id = fid dbFile, fs_filename = filename dbFile,
                                 fs_originalName = original_name dbFile,
                                 fs_size = size_bytes f,
                                 fs_sizeMb = ?mb,
                                 fs_mimeType = mime_type dbFile,
                                 fs_downloadUrl = download_url dbFile,
                                 fs_repository = name newRepo\<rparr>,
                              up_repository =
                                \<lparr>rs_id = rid newRepo, rs_name = name newRepo,
                                 sizeAfterUpload = size_mb r + ?mb\<rparr>\<rparr>,
                         w6))))"
      unfolding eq store_file_def by (simp split: prod.splits sum.splits)
    show "r \<in> set (repos w1)" by (rule r_in)
    show "rid newRepo \<noteq> rid r" using fresh [OF r_in] by simp
    show "size_mb newRepo = 0" by (rule f23)
    show "case res of
           Inl e \<Rightarrow> repos w' = repos w1 @ [newRepo]
         | Inr ok \<Rightarrow>
             rs_id (up_repository ok) = rid newRepo
             \<and> rs_name (up_repository ok) = name newRepo
             \<and> sizeAfterUpload (up_repository ok) = size_mb r + ?mb
             \<and> repos w' = repos w1 @ [newRepo\<lparr>size_mb := ?mb\<rparr>]"
      by (rule outcome)
  qed
qed


theorem rotation_replaces_id_and_name_only_witness:
  "map (\<lambda>x. (rid x, name x, size_mb x)) (repos world_rotate)
     = [(1, ''user_u1_bucket_1'', 680)]
   \<and> (\<exists>w'. uploadFile (Some file_80mb) ''u1'' world_rotate
           = (Inl (AppError ''Repository not found'' REPO_NOT_FOUND 404), w')
         \<and> map (\<lambda>x. (rid x, name x, size_mb x)) (repos w')
             = [(1, ''user_u1_bucket_1'', 680), (2, ''user_u1_bucket_2'', 0)]
         \<and> map (\<lambda>x. (f_user_id x, repo_id x, f_size_mb x)) (files w')
             = [(''u1'', Some 2, 80)]
         \<and> map (\<lambda>a. (asset_repo a, asset_size a)) (gh_assets w')
             = [(''user_u1_bucket_2'', 83886080)])
   \<and> map (\<lambda>x. (rid x, name x, size_mb x)) (repos world_rotate_anon)
     = [(1, ''user__bucket_1'', 680)]
   \<and> (\<exists>res w'. uploadFile (Some file_80mb) [] world_rotate_anon = (Inr res, w')
         \<and> rs_id (up_repository res) = 2 \<and> rs_name (up_repository res) = ''user__bucket_2''
         \<and> sizeAfterUpload (up_repository res) = 760
         \<and> map (\<lambda>x. (rid x, name x, size_mb x)) (repos w')
             = [(1, ''user__bucket_1'', 680), (2, ''user__bucket_2'', 80)])"
proof (intro conjI)
  show "map (\<lambda>x. (rid x, name x, size_mb x)) (repos world_rotate)
     = [(1, ''user_u1_bucket_1'', 680)]"
    by (simp add: world_rotate_fields mk_repo_def)
  show "map (\<lambda>x. (rid x, name x, size_mb x)) (repos world_rotate_anon)
        = [(1, ''user__bucket_1'', 680)]"
    by (simp add: world_rotate_anon_fields mk_repo_def)
  have mb: "bytesToMb (int (size_bytes file_80mb)) = 80"
    by (simp add: bytesToMb_def file_80mb_def)
  show "\<exists>w'. uploadFile (Some file_80mb) ''u1'' world_rotate
           = (Inl (AppError ''Repository not found'' REPO_NOT_FOUND 404), w')
         \<and> map (\<lambda>x. (rid x, name x, size_mb x)) (repos w')
             = [(1, ''user_u1_bucket_1'', 680), (2, ''user_u1_bucket_2'', 0)]
         \<and> map (\<lambda>x. (f_user_id x, repo_id x, f_size_mb x)) (files w')
             = [(''u1'', Some 2, 80)]
         \<and> map (\<lambda>a. (asset_repo a, asset_size a)) (gh_assets w')
             = [(''user_u1_bucket_2'', 83886080)]"
  proof -
    let ?r1 = "mk_repo 1 ''u1'' ''user_u1_bucket_1'' 680 True 10"
    let ?w1 = "record_call DbSelectRepos world_rotate"
    let ?w2 = "record_call DbSelectRepos ?w1"
    let ?fn = "generateUniqueFilename world_rotate (originalname file_80mb)"
    have valid: "validateFile world_rotate (Some file_80mb) = None"
      by (rule validateFile_file_80mb) (rule world_rotate_fields)
    have picked: "rm_getAvailableRepository ''u1'' (size_bytes file_80mb) world_rotate
        = (Inr ?r1, ?w1)"
      by (simp add: rm_getAvailableRepository_def ff_sb_getAvailableRepository
          world_rotate_fields select_repos_def mk_repo_def mb)
    have rot: "shouldRotateRepository ?w1 ?r1 (bytesToMb (int (size_bytes file_80mb)))"
      unfolding mb by (simp add: shouldRotateRepository_def mk_repo_def)
    have listed: "sb_getUserRepositories ''u1'' False ?w1 = (Inr [?r1], ?w2)"
      by (simp add: ff_sb_getUserRepositories world_rotate_fields select_repos_def mk_repo_def)
    have nf2: "no_faults ?w2" by (simp add: world_rotate_fields)
    have free: "generateRepoName ''u1'' 2 \<notin> set (gh_repos ?w2)"
      by (simp add: bucket_names_u1 world_rotate_fields)
    from ff_rm_createNewRepository_fields [OF nf2 free]
    obtain newRepo w3 where c2: "rm_createNewRepository ''u1'' 2 ?w2 = (Inr newRepo, w3)"
      and n3: "no_faults w3" "name newRepo = generateRepoName ''u1'' 2"
        "rid newRepo = fresh_id (map rid (repos ?w2))" "user_id newRepo = ''u1''"
        "repos w3 = repos ?w2 @ [newRepo]"
        "gh_repos w3 = gh_repos ?w2 @ [generateRepoName ''u1'' 2]"
        "files w3 = files ?w2" "gh_assets w3 = gh_assets ?w2"
      by (elim exE conjE)
    have created: "rm_createNewRepository ''u1'' (length [?r1] + 1) ?w2 = (Inr newRepo, w3)"
      using c2 by (simp add: numeral_2_eq_2)
    have id2: "rid newRepo = 2"
      using n3(3) by (simp add: world_rotate_fields mk_repo_def fresh_id_def)
    have nm2: "name newRepo = ''user_u1_bucket_2''"
      using n3(2) by (simp add: bucket_names_u1)
    let ?rp = "?r1\<lparr>rid := rid newRepo, name := name newRepo\<rparr>"
    have remote: "name ?rp \<in> set (gh_repos w3)" by (simp add: n3)
    have none: "find (\<lambda>r. rid r = rid ?rp) (select_repos [] False (repos w3)) = None"
      by (simp add: n3 select_repos_def world_rotate_fields mk_repo_def)
    from ff_store_file [OF n3(1) remote, of file_80mb "''u1''" ?fn]
    obtain w' where st: "store_file file_80mb ''u1'' ?fn ?rp w3
        = (Inl (AppError ''Repository not found'' REPO_NOT_FOUND 404), w')"
      and n4: "map (\<lambda>a. (asset_repo a, asset_size a)) (gh_assets w')
           = map (\<lambda>a. (asset_repo a, asset_size a)) (gh_assets w3)
             @ [(name ?rp, size_bytes file_80mb)]"
        "map (\<lambda>x. (fid x, f_user_id x, repo_id x, f_size_mb x)) (files w')
           = map (\<lambda>x. (fid x, f_user_id x, repo_id x, f_size_mb x)) (files w3)
             @ [(fresh_id (map fid (files w3)), ''u1'', Some (rid ?rp),
                 bytesToMb (int (size_bytes file_80mb)))]"
      unfolding none by (elim exE conjE) simp
    have up: "uploadFile (Some file_80mb) ''u1'' world_rotate
        = (Inl (AppError ''Repository not found'' REPO_NOT_FOUND 404), w')"
      using valid picked rot listed created st by (simp add: uploadFile_def Let_def)
    note t = rotation_replaces_id_and_name_only [OF valid picked rot listed created up]
    from t have rw: "repos w' = repos ?w1 @ [newRepo]" and z: "size_mb newRepo = 0"
      by simp_all
    have rows: "map (\<lambda>x. (rid x, name x, size_mb x)) (repos w')
             = [(1, ''user_u1_bucket_1'', 680), (2, ''user_u1_bucket_2'', 0)]"
      unfolding rw by (simp add: world_rotate_fields mk_repo_def id2 nm2 z)
    have assets: "map (\<lambda>a. (asset_repo a, asset_size a)) (gh_assets w')
               = [(''user_u1_bucket_2'', 83886080)]"
      unfolding n4(1) n3(8) by (simp add: world_rotate_fields nm2 file_80mb_def)
    have frows: "map (\<lambda>x. (f_user_id x, repo_id x, f_size_mb x)) (files w')
        = [(''u1'', Some 2, 80)]"
    proof -
      have "map (\<lambda>x. (f_user_id x, repo_id x, f_size_mb x)) (files w')
          = map snd (map (\<lambda>x. (fid x, f_user_id x, repo_id x, f_size_mb x)) (files w'))"
        by simp
      also have "\<dots> = [(''u1'', Some 2, 80)]"
        unfolding n4(2) mb by (simp add: n3(7) world_rotate_fields id2)
      finally show ?thesis .
    qed
    show ?thesis
      by (intro exI [of _ w'] conjI) (rule up rows frows assets)+
  qed
  show "\<exists>res w'. uploadFile (Some file_80mb) [] world_rotate_anon = (Inr res, w')
         \<and> rs_id (up_repository res) = 2 \<and> rs_name (up_repository res) = ''user__bucket_2''
         \<and> sizeAfterUpload (up_repository res) = 760
         \<and> map (\<lambda>x. (rid x, name x, size_mb x)) (repos w')
             = [(1, ''user__bucket_1'', 680), (2, ''user__bucket_2'', 80)]"
  proof -
    let ?r1 = "mk_repo 1 [] ''user__bucket_1'' 680 True 10"
    let ?w1 = "record_call DbSelectRepos world_rotate_anon"
    let ?w2 = "record_call DbSelectRepos ?w1"
    let ?fn = "generateUniqueFilename world_rotate_anon (originalname file_80mb)"
    have valid: "validateFile world_rotate_anon (Some file_80mb) = None"
      by (rule validateFile_file_80mb) (rule world_rotate_anon_fields)
    have picked: "rm_getAvailableRepository [] (size_bytes file_80mb) world_rotate_anon
        = (Inr ?r1, ?w1)"
      by (simp add: rm_getAvailableRepository_def ff_sb_getAvailableRepository
          world_rotate_anon_fields select_repos_def mk_repo_def mb)
    have rot: "shouldRotateRepository ?w1 ?r1 (bytesToMb (int (size_bytes file_80mb)))"
      unfolding mb by (simp add: shouldRotateRepository_def mk_repo_def)
    have listed: "sb_getUserRepositories [] False ?w1 = (Inr [?r1], ?w2)"
      by (simp add: ff_sb_getUserRepositories world_rotate_anon_fields select_repos_def
          mk_repo_def)
    have nf2: "no_faults ?w2" by (simp add: world_rotate_anon_fields)
    have free: "generateRepoName [] 2 \<notin> set (gh_repos ?w2)"
      by (simp add: bucket_names_anon world_rotate_anon_fields)
    from ff_rm_createNewRepository_fields [OF nf2 free]
    obtain newRepo w3 where c2: "rm_createNewRepository [] 2 ?w2 = (Inr newRepo, w3)"
      and n3: "no_faults w3" "name newRepo = generateRepoName [] 2"
        "rid newRepo = fresh_id (map rid (repos ?w2))" "user_id newRepo = []"
        "created_at newRepo = Suc (Suc (Suc (clock ?w2)))"
        "repos w3 = repos ?w2 @ [newRepo]"
        "gh_repos w3 = gh_repos ?w2 @ [generateRepoName [] 2]"
      by (elim exE conjE)
    have created: "rm_createNewRepository [] (length [?r1] + 1) ?w2 = (Inr newRepo, w3)"
      using c2 by (simp add: numeral_2_eq_2)
    have id2: "rid newRepo = 2"
      using n3(3) by (simp add: world_rotate_anon_fields mk_repo_def fresh_id_def)
    have nm2: "name newRepo = ''user__bucket_2''"
      using n3(2) by (simp add: bucket_names_anon)
    let ?rp = "?r1\<lparr>rid := rid newRepo, name := name newRepo\<rparr>"
    have remote: "name ?rp \<in> set (gh_repos w3)" by (simp add: n3)
    have some: "find (\<lambda>r. rid r = rid ?rp) (select_repos [] False (repos w3)) = Some newRepo"
      unfolding n3(6)
      by (simp add: n3(4,5) id2 select_repos_def world_rotate_anon_fields mk_repo_def)
    from ff_store_file [OF n3(1) remote, of file_80mb "[]" ?fn]
    obtain res w' where st: "store_file file_80mb [] ?fn ?rp w3 = (Inr res, w')"
      unfolding some by (elim exE conjE) simp
    have up: "uploadFile (Some file_80mb) [] world_rotate_anon = (Inr res, w')"
      using valid picked rot listed created st by (simp add: uploadFile_def Let_def)
    note t = rotation_replaces_id_and_name_only [OF valid picked rot listed created up]
    from t have a: "rs_id (up_repository res) = 2"
      and b: "rs_name (up_repository res) = ''user__bucket_2''"
      and c: "sizeAfterUpload (up_repository res) = 760"
      and d: "repos w' = repos ?w1 @ [newRepo\<lparr>size_mb := 80\<rparr>]"
      unfolding mb by (simp_all add: id2 nm2 mk_repo_def)
    have rows: "map (\<lambda>x. (rid x, name x, size_mb x)) (repos w')
               = [(1, ''user__bucket_1'', 680), (2, ''user__bucket_2'', 80)]"
      unfolding d by (simp add: world_rotate_anon_fields mk_repo_def id2 nm2)
    show ?thesis
      by (intro exI [of _ res] exI [of _ w'] conjI) (rule up a b c rows)+
  qed
qed

subsection \<open>The size update for a repository that has an owner\<close>

lemma shouldRotateRepository_keep [simp]:
  "shouldRotateRepository (record_call c w) r a = shouldRotateRepository w r a"
  by (simp add: shouldRotateRepository_def)

lemma ff_uploadFile_plain:
  assumes nf: "no_faults w" and valid: "validateFile w (Some f) = None"
    and fit: "find (\<lambda>r. size_mb r + bytesToMb (int (size_bytes f)) \<le> max_size_mb r)
                (select_repos u True (repos w)) = Some r"
    and calm: "\<not> shouldRotateRepository w r (bytesToMb (int (size_bytes f)))"
    and remote: "name r \<in> set (gh_repos w)"
  shows "\<exists>w' url. uploadFile (Some f) u w =
      ((case find (\<lambda>x. rid x = rid r) (select_repos [] False (repos w)) of
          None \<Rightarrow> Inl (AppError ''Repository not found'' REPO_NOT_FOUND 404)
        | Some cur \<Rightarrow>
            Inr \<lparr>up_file =
                   \<lparr>fs_id = fresh_id (map fid (files w)),
                    fs_filename = generateUniqueFilename w (originalname f),
                    fs_originalName = originalname f, fs_size = size_bytes f,
                    fs_sizeMb = bytesToMb (int (size_bytes f)), fs_mimeType = mimetype f,
                    fs_downloadUrl = url, fs_repository = name r\<rparr>,
                 up_repository =
                   \<lparr>rs_id = rid r, rs_name = name r,
                    sizeAfterUpload = size_mb r + bytesToMb (int (size_bytes f))\<rparr>\<rparr>), w')
     \<and> no_faults w' \<and> gh_repos w' = gh_repos w
     \<and> map (\<lambda>a. (asset_repo a, asset_size a)) (gh_assets w')
         = map (\<lambda>a. (asset_repo a, asset_size a)) (gh_assets w) @ [(name r, size_bytes f)]
     \<and> map (\<lambda>x. (fid x, f_user_id x, repo_id x, f_size_mb x)) (files w')
         = map (\<lambda>x. (fid x, f_user_id x, repo_id x, f_size_mb x)) (files w)
           @ [(fresh_id (map fid (files w)), u, Some (rid r), bytesToMb (int (size_bytes f)))]
     \<and> env_MAX_FILE_SIZE_MB w' = env_MAX_FILE_SIZE_MB w
     \<and> env_MAX_REPO_SIZE_MB w' = env_MAX_REPO_SIZE_MB w
     \<and> repos w' =
        (case find (\<lambda>x. rid x = rid r) (select_repos [] False (repos w)) of
           None \<Rightarrow> repos w
         | Some cur \<Rightarrow>
             map (\<lambda>x. if rid x = rid r
                      then x\<lparr>size_mb := max 0 (size_mb cur + bytesToMb (int (size_bytes f)))\<rparr>
                      else x) (repos w))"
proof -
  let ?w1 = "record_call DbSelectRepos w"
  have picked: "rm_getAvailableRepository u (size_bytes f) w = (Inr r, ?w1)"
    using nf fit by (simp add: rm_getAvailableRepository_def ff_sb_getAvailableRepository)
  have eq: "uploadFile (Some f) u w =
      store_file f u (generateUniqueFilename w (originalname f)) r ?w1"
    using valid picked calm by (simp add: uploadFile_def Let_def)
  have nf1: "no_faults ?w1" using nf by simp
  have remote1: "name r \<in> set (gh_repos ?w1)" using remote by simp
  from ff_store_file [OF nf1 remote1, of f u "generateUniqueFilename w (originalname f)"]
  show ?thesis unfolding eq record_call_fields .
qed

lemma validateFile_file_10mb:
  "env_MAX_FILE_SIZE_MB w = None \<Longrightarrow> validateFile w (Some file_10mb) = None"
  by (simp add: validateFile_def file_10mb_def MAX_FILE_SIZE_BYTES_def env_or_def
      ALLOWED_MIME_TYPES_def is_space_def unsafe_char_def sanitizeFilename_def)

lemma world_u1_fields:
  "repos world_u1 = [mk_repo 1 ''u1'' ''user_u1_bucket_1'' 100 True 10]"
  "gh_repos world_u1 = [''user_u1_bucket_1'']"
  "files world_u1 = []" "gh_assets world_u1 = []"
  "no_faults world_u1"
  "env_MAX_FILE_SIZE_MB world_u1 = None"
  by (simp_all add: no_faults_def world_u1_def world0_def)

lemma world_u1_file_fields:
  "repos world_u1_file = [mk_repo 1 ''u1'' ''user_u1_bucket_1'' 110 True 10]"
  "files world_u1_file =
     [\<lparr>fid = 1, f_user_id = ''u1'', repo_id = Some 1, filename = ''a_1_c0ffee.txt'',
       original_name = ''a.txt'', f_size_mb = 10, mime_type = ''text/plain'',
       download_url = ''https://github.com/user_u1_bucket_1/releases/download/5/a'',
       gh_release_id = ''5'', gh_asset_id = ''6''\<rparr>]"
  "gh_repos world_u1_file = [''user_u1_bucket_1'']"
  "gh_assets world_u1_file = [\<lparr>asset_id = ''6'', asset_repo = ''user_u1_bucket_1'',
                    asset_size = 10485760\<rparr>]"
  "trace world_u1_file = []"
  "db_fault world_u1_file = (\<lambda>n. None)"
  "gh_fault world_u1_file = (\<lambda>n. None)"
  "gh_unscoped world_u1_file = None"
  by (simp_all add: world_u1_file_def world0_def)

lemma world_u1_gone_fields:
  "repos world_u1_gone = [mk_repo 1 ''u1'' ''user_u1_bucket_1'' 110 True 10]"
  "files world_u1_gone =
     [\<lparr>fid = 1, f_user_id = ''u1'', repo_id = Some 1, filename = ''a_1_c0ffee.txt'',
       original_name = ''a.txt'', f_size_mb = 10, mime_type = ''text/plain'',
       download_url = ''https://github.com/user_u1_bucket_1/releases/download/5/a'',
       gh_release_id = ''5'', gh_asset_id = ''6''\<rparr>]"
  "gh_repos world_u1_gone = [''user_u1_bucket_1'']"
  "gh_assets world_u1_gone = []"
  "trace world_u1_gone = []"
  "db_fault world_u1_gone = (\<lambda>n. None)"
  "gh_fault world_u1_gone = (\<lambda>n. None)"
  "gh_unscoped world_u1_gone = None"
  by (simp_all add: world_u1_gone_def world_u1_file_def world0_def)

lemma world_u1_refused_fields:
  "repos world_u1_refused = [mk_repo 1 ''u1'' ''user_u1_bucket_1'' 110 True 10]"
  "files world_u1_refused =
     [\<lparr>fid = 1, f_user_id = ''u1'', repo_id = Some 1, filename = ''a_1_c0ffee.txt'',
       original_name = ''a.txt'', f_size_mb = 10, mime_type = ''text/plain'',
       download_url = ''https://github.com/user_u1_bucket_1/releases/download/5/a'',
       gh_release_id = ''5'', gh_asset_id = ''6''\<rparr>]"
  "gh_repos world_u1_refused = [''user_u1_bucket_1'']"
  "gh_assets world_u1_refused = [\<lparr>asset_id = ''6'', asset_repo = ''user_u1_bucket_1'',
                    asset_size = 10485760\<rparr>]"
  "trace world_u1_refused = []"
  "db_fault world_u1_refused = (\<lambda>n. None)"
  "gh_fault world_u1_refused = (\<lambda>n. if n = 2 then Some (500, False) else None)"
  "gh_unscoped world_u1_refused = None"
  by (simp_all add: world_u1_refused_def world_u1_file_def world0_def)

lemmas delete_defs = deleteFile_def getFile_def delete_remote_def rm_updateRepositorySize_def
  sb_getFileById_def gh_deleteReleaseAsset_def sb_deleteFile_def sb_getUserRepositories_def
  sb_updateRepositorySize_def db_call_def gh_request_def select_repos_def

text \<open>
  For every world without faults in which no repository belongs to the user with the empty
  identifier, the size update of the repository manager raises and leaves the rows as
  they are.
\<close>

lemma rm_updateRepositorySize_owned:
  assumes "no_faults w" and "list_all (\<lambda>x. user_id x \<noteq> []) (repos w)"
  shows "\<exists>w'. rm_updateRepositorySize i d w =
           (Inl (AppError ''Repository not found'' REPO_NOT_FOUND 404), w')
         \<and> repos w' = repos w"
proof -
  from assms(2) have "filter (\<lambda>r. user_id r = []) (repos w) = []"
    by (induction "repos w") (auto simp: list_all_iff filter_empty_conv)
  then have "select_repos [] False (repos w) = []" by (simp add: select_repos_def)
  with assms(1) show ?thesis
    by (simp add: rm_updateRepositorySize_def ff_sb_getUserRepositories)
qed

text \<open>
  C4. For a user, one repository at 100 MB and a file of 10 MB: the upload stores the
  asset and the row of the file and then raises, the cached size is still 100 MB. For the
  same user with the file stored and a cached size of 110 MB: the delete removes the asset
  and the row and then raises, the cached size is still 110 MB.
\<close>

theorem counter_not_updated_for_owned_repository:
  "(\<exists>w'. uploadFile (Some file_10mb) ''u1'' world_u1
            = (Inl (AppError ''Repository not found'' REPO_NOT_FOUND 404), w')
       \<and> map (\<lambda>x. (rid x, size_mb x)) (repos world_u1) = [(1, 100)]
       \<and> map (\<lambda>x. (rid x, size_mb x)) (repos w') = [(1, 100)]
       \<and> map (\<lambda>x. (fid x, f_user_id x, repo_id x, f_size_mb x)) (files w')
           = [(1, ''u1'', Some 1, 10)]
       \<and> map (\<lambda>a. (asset_repo a, asset_size a)) (gh_assets w')
           = [(''user_u1_bucket_1'', 10485760)])
   \<and> (\<exists>w'. deleteFile 1 ''u1'' world_u1_file
            = (Inl (AppError ''Repository not found'' REPO_NOT_FOUND 404), w')
       \<and> map (\<lambda>x. (rid x, size_mb x)) (repos world_u1_file) = [(1, 110)]
       \<and> map (\<lambda>x. (rid x, size_mb x)) (repos w') = [(1, 110)]
       \<and> files w' = [] \<and> gh_assets w' = [])"
proof (intro conjI)
  let ?r1 = "mk_repo 1 ''u1'' ''user_u1_bucket_1'' 100 True 10"
  have mb: "bytesToMb (int (size_bytes file_10mb)) = 10"
    by (simp add: bytesToMb_def file_10mb_def)
  have fit: "find (\<lambda>r. size_mb r + bytesToMb (int (size_bytes file_10mb)) \<le> max_size_mb r)
                (select_repos ''u1'' True (repos world_u1)) = Some ?r1"
    unfolding mb by (simp add: select_repos_def world_u1_fields mk_repo_def)
  have calm: "\<not> shouldRotateRepository world_u1 ?r1 (bytesToMb (int (size_bytes file_10mb)))"
    unfolding mb by (simp add: shouldRotateRepository_def mk_repo_def)
  have remote: "name ?r1 \<in> set (gh_repos world_u1)"
    by (simp add: world_u1_fields mk_repo_def)
  have none: "find (\<lambda>x. rid x = rid ?r1) (select_repos [] False (repos world_u1)) = None"
    by (simp add: select_repos_def world_u1_fields mk_repo_def)
  from ff_uploadFile_plain [OF world_u1_fields(5) validateFile_file_10mb fit calm remote,
      OF world_u1_fields(6)]
  obtain w' where up: "uploadFile (Some file_10mb) ''u1'' world_u1
            = (Inl (AppError ''Repository not found'' REPO_NOT_FOUND 404), w')"
    and a: "map (\<lambda>a. (asset_repo a, asset_size a)) (gh_assets w')
         = map (\<lambda>a. (asset_repo a, asset_size a)) (gh_assets world_u1)
           @ [(name ?r1, size_bytes file_10mb)]"
    and f: "map (\<lambda>x. (fid x, f_user_id x, repo_id x, f_size_mb x)) (files w')
         = map (\<lambda>x. (fid x, f_user_id x, repo_id x, f_size_mb x)) (files world_u1)
           @ [(fresh_id (map fid (files world_u1)), ''u1'', Some (rid ?r1),
               bytesToMb (int (size_bytes file_10mb)))]"
    and r: "repos w' = repos world_u1"
    unfolding none by (elim exE conjE) simp
  have rows: "map (\<lambda>x. (rid x, size_mb x)) (repos world_u1) = [(1, 100)]"
    by (simp add: world_u1_fields mk_repo_def)
  have a': "map (\<lambda>a. (asset_repo a, asset_size a)) (gh_assets w')
           = [(''user_u1_bucket_1'', 10485760)]"
    unfolding a by (simp add: world_u1_fields mk_repo_def file_10mb_def)
  have f': "map (\<lambda>x. (fid x, f_user_id x, repo_id x, f_size_mb x)) (files w')
           = [(1, ''u1'', Some 1, 10)]"
    unfolding f mb by (simp add: world_u1_fields mk_repo_def fresh_id_def)
  show "\<exists>w'. uploadFile (Some file_10mb) ''u1'' world_u1
            = (Inl (AppError ''Repository not found'' REPO_NOT_FOUND 404), w')
       \<and> map (\<lambda>x. (rid x, size_mb x)) (repos world_u1) = [(1, 100)]
       \<and> map (\<lambda>x. (rid x, size_mb x)) (repos w') = [(1, 100)]
       \<and> map (\<lambda>x. (fid x, f_user_id x, repo_id x, f_size_mb x)) (files w')
           = [(1, ''u1'', Some 1, 10)]
       \<and> map (\<lambda>a. (asset_repo a, asset_size a)) (gh_assets w')
           = [(''user_u1_bucket_1'', 10485760)]"
    by (intro exI [of _ w'] conjI) (rule up rows rows [folded r] f' a')+
next
  show "\<exists>w'. deleteFile 1 ''u1'' world_u1_file
            = (Inl (AppError ''Repository not found'' REPO_NOT_FOUND 404), w')
       \<and> map (\<lambda>x. (rid x, size_mb x)) (repos world_u1_file) = [(1, 110)]
       \<and> map (\<lambda>x. (rid x, size_mb x)) (repos w') = [(1, 110)]
       \<and> files w' = [] \<and> gh_assets w' = []"
    by (simp add: delete_defs world_u1_file_fields mk_repo_def)
qed

text \<open>
  C6. The same user and file. When the asset is already gone, the provider client
  returns from the not-found answer, and when the provider answers the deletion with
  status 500 the file manager goes on; in both runs the row of the file is deleted, the
  size update is reached (the last call of the trace is its query) and raises, and the
  cached size is still 110 MB.
\<close>

theorem delete_after_remote_failure:
  "fst (gh_deleteReleaseAsset ''6'' world_u1_gone) = Inr ()
   \<and> (\<exists>w'. deleteFile 1 ''u1'' world_u1_gone
            = (Inl (AppError ''Repository not found'' REPO_NOT_FOUND 404), w')
       \<and> trace w' = [DbSelectFile 1, DbSelectFile 1, GhDeleteAsset ''6'', DbDeleteFile 1,
                      DbSelectRepos]
       \<and> files w' = []
       \<and> map (\<lambda>x. (rid x, size_mb x)) (repos w') = [(1, 110)])
   \<and> (\<exists>w'. deleteFile 1 ''u1'' world_u1_refused
            = (Inl (AppError ''Repository not found'' REPO_NOT_FOUND 404), w')
       \<and> trace w' = [DbSelectFile 1, DbSelectFile 1, GhDeleteAsset ''6'', DbDeleteFile 1,
                      DbSelectRepos]
       \<and> files w' = []
       \<and> map asset_id (gh_assets w') = [''6'']
       \<and> map (\<lambda>x. (rid x, size_mb x)) (repos w') = [(1, 110)])"
proof (intro conjI)
  show "fst (gh_deleteReleaseAsset ''6'' world_u1_gone) = Inr ()"
    by (simp add: delete_defs world_u1_gone_fields)
  show "\<exists>w'. deleteFile 1 ''u1'' world_u1_gone
            = (Inl (AppError ''Repository not found'' REPO_NOT_FOUND 404), w')
       \<and> trace w' = [DbSelectFile 1, DbSelectFile 1, GhDeleteAsset ''6'', DbDeleteFile 1,
                      DbSelectRepos]
       \<and> files w' = []
       \<and> map (\<lambda>x. (rid x, size_mb x)) (repos w') = [(1, 110)]"
    by (simp add: delete_defs world_u1_gone_fields mk_repo_def)
  show "\<exists>w'. deleteFile 1 ''u1'' world_u1_refused
            = (Inl (AppError ''Repository not found'' REPO_NOT_FOUND 404), w')
       \<and> trace w' = [DbSelectFile 1, DbSelectFile 1, GhDeleteAsset ''6'', DbDeleteFile 1,
                      DbSelectRepos]
       \<and> files w' = []
       \<and> map asset_id (gh_assets w') = [''6'']
       \<and> map (\<lambda>x. (rid x, size_mb x)) (repos w') = [(1, 110)]"
    by (simp add: delete_defs world_u1_refused_fields mk_repo_def)
qed

subsection \<open>Batch upload\<close>

lemma store_file_size:
  "store_file f u n rp w = (Inr ok, w') \<Longrightarrow> fs_size (up_file ok) = size_bytes f"
  by (auto simp: store_file_def split: split_all)

lemma uploadFile_size:
  "uploadFile (Some f) u w = (Inr ok, w') \<Longrightarrow> fs_size (up_file ok) = size_bytes f"
  by (auto simp: uploadFile_def Let_def split: split_all dest: store_file_size)

lemma uploadFile_invalid:
  "validateFile w (Some f) = Some e \<Longrightarrow> uploadFile (Some f) u w = (Inl e, w)"
  by (simp add: uploadFile_def)

lemma upload_loop_shape:
  "upload_loop fs u res w = (res', w') \<Longrightarrow>
   \<exists>ss ff. successful res' = successful res @ ss \<and> failed res' = failed res @ ff
     \<and> length ss + length ff = length fs
     \<and> set (map fi_filename ff) \<subseteq> set (map originalname fs)
     \<and> totalSize res' = totalSize res + sum_list (map fs_size ss)"
proof (induction fs arbitrary: res w)
  case Nil
  then show ?case by simp
next
  case (Cons f rest)
  obtain r w1 where up: "uploadFile (Some f) u w = (r, w1)"
    by (cases "uploadFile (Some f) u w")
  show ?case
  proof (cases r)
    case (Inl e)
    let ?res1 = "res\<lparr>failed := failed res
               @ [\<lparr>fi_filename = originalname f, fi_error = message e, fi_code = code e\<rparr>]\<rparr>"
    from Cons.prems up Inl have "upload_loop rest u ?res1 w1 = (res', w')" by simp
    from Cons.IH [OF this] obtain ss ff where
      "successful res' = successful res @ ss"
      "failed res' = failed res
          @ \<lparr>fi_filename = originalname f, fi_error = message e, fi_code = code e\<rparr> # ff"
      "length ss + length ff = length rest"
      "set (map fi_filename ff) \<subseteq> set (map originalname rest)"
      "totalSize res' = totalSize res + sum_list (map fs_size ss)"
      by auto
    then show ?thesis
      by (intro exI [of _ ss]
            exI [of _ "\<lparr>fi_filename = originalname f, fi_error = message e, fi_code = code e\<rparr>
                       # ff"]) auto
  next
    case (Inr ok)
    let ?res1 = "res\<lparr>successful := successful res @ [up_file ok],
                     totalSize := totalSize res + size_bytes f\<rparr>"
    let ?w2 = "if rest \<noteq> [] then delay 500 w1 else w1"
    from Cons.prems up Inr have "upload_loop rest u ?res1 ?w2 = (res', w')" by simp
    from Cons.IH [OF this] obtain ss ff where
      "successful res' = successful res @ up_file ok # ss"
      "failed res' = failed res @ ff"
      "length ss + length ff = length rest"
      "set (map fi_filename ff) \<subseteq> set (map originalname rest)"
      "totalSize res' = totalSize res + size_bytes f + sum_list (map fs_size ss)"
      by auto
    moreover from up Inr have "fs_size (up_file ok) = size_bytes f"
      by (simp add: uploadFile_size)
    ultimately show ?thesis
      by (intro exI [of _ "up_file ok # ss"] exI [of _ ff]) auto
  qed
qed

text \<open>
  A batch upload of a list that is not empty returns: the files that were stored and the
  failures are listed item by item, every file is in one of the two lists, the counters
  of the summary are the lengths of the lists, and the flag \<open>success\<close> is true exactly when
  no item failed. A file that fails validation is listed as failed and the rest of the
  list is processed from the same world. The empty list is answered with an error.
\<close>

lemma batch_upload_shape:
  "(fs \<noteq> [] \<longrightarrow>
      (\<exists>b w'. uploadMultipleFiles fs u w = (Inr b, w')
         \<and> success b = (errors b = [])
         \<and> length (uploaded b) + length (errors b) = length fs
         \<and> summary_totalFiles b = length fs
         \<and> summary_successful b = length (uploaded b)
         \<and> summary_failed b = length (errors b)
         \<and> summary_totalSize b = sum_list (map fs_size (uploaded b))
         \<and> set (map fi_filename (errors b)) \<subseteq> set (map originalname fs)))
   \<and> (validateFile w (Some f) = Some e \<longrightarrow>
        upload_loop (f # rest) u res w =
          upload_loop rest u
            (res\<lparr>failed := failed res
               @ [\<lparr>fi_filename = originalname f, fi_error = message e, fi_code = code e\<rparr>]\<rparr>) w)
   \<and> uploadMultipleFiles [] u w
        = (Inl (AppError ''No files provided'' VALIDATION_ERROR 400), w)"
proof (intro conjI impI)
  assume ne: "fs \<noteq> []"
  obtain res' w' where loop:
    "upload_loop fs u \<lparr>successful = [], failed = [], totalSize = 0\<rparr> w = (res', w')"
    by (cases "upload_loop fs u \<lparr>successful = [], failed = [], totalSize = 0\<rparr> w")
  from upload_loop_shape [OF loop] have shape:
    "length (successful res') + length (failed res') = length fs"
    "set (map fi_filename (failed res')) \<subseteq> set (map originalname fs)"
    "totalSize res' = sum_list (map fs_size (successful res'))"
    by auto
  let ?b = "\<lparr>success = (length (failed res') = 0),
                   summary_totalFiles = length fs,
                   summary_successful = length (successful res'),
                   summary_failed = length (failed res'),
                   summary_totalSize = totalSize res',
                   uploaded = successful res',
                   errors = failed res'\<rparr>"
  have run: "uploadMultipleFiles fs u w = (Inr ?b, w')"
    using ne loop by (simp add: uploadMultipleFiles_def)
  show "\<exists>b w'. uploadMultipleFiles fs u w = (Inr b, w')
         \<and> success b = (errors b = [])
         \<and> length (uploaded b) + length (errors b) = length fs
         \<and> summary_totalFiles b = length fs
         \<and> summary_successful b = length (uploaded b)
         \<and> summary_failed b = length (errors b)
         \<and> summary_totalSize b = sum_list (map fs_size (uploaded b))
         \<and> set (map fi_filename (errors b)) \<subseteq> set (map originalname fs)"
    using run shape by (intro exI [of _ ?b] exI [of _ w']) simp
next
  assume "validateFile w (Some f) = Some e"
  then show "upload_loop (f # rest) u res w =
          upload_loop rest u
            (res\<lparr>failed := failed res
               @ [\<lparr>fi_filename = originalname f, fi_error = message e, fi_code = code e\<rparr>]\<rparr>) w"
    by (simp add: uploadFile_invalid)
next
  show "uploadMultipleFiles [] u w
        = (Inl (AppError ''No files provided'' VALIDATION_ERROR 400), w)"
    by (simp add: uploadMultipleFiles_def)
qed

lemma validateFile_batch_files:
  assumes "env_MAX_FILE_SIZE_MB w = None"
  shows "validateFile w (Some file_a) = None"
    and "validateFile w (Some file_exe) = Some (AppError ''Invalid file type'' INVALID_FILE_TYPE 400)"
    and "validateFile w (Some file_c) = None"
  using assms
  by (simp_all add: validateFile_def file_a_def file_exe_def file_c_def MAX_FILE_SIZE_BYTES_def
      env_or_def ALLOWED_MIME_TYPES_def is_space_def unsafe_char_def sanitizeFilename_def)

text \<open>
  C8. Three files, of which the second has a type that is not allowed, uploaded in one
  batch by a user with one repository at 100 MB: the first and the third file are stored
  at the provider and in the table of files, but each of the two uploads raises when the
  size of the repository is to be updated. The batch returns with no stored file, three
  failures and \<open>success\<close> false, and the cached size is still 100 MB.
\<close>

theorem batch_example_for_owned_repository:
  "\<exists>b w'. uploadMultipleFiles [file_a, file_exe, file_c] ''u1'' world_u1 = (Inr b, w')
     \<and> success b = False \<and> uploaded b = []
     \<and> summary_totalFiles b = 3 \<and> summary_successful b = 0 \<and> summary_failed b = 3
     \<and> errors b =
         [\<lparr>fi_filename = ''a.txt'', fi_error = ''Repository not found'',
           fi_code = REPO_NOT_FOUND\<rparr>,
          \<lparr>fi_filename = ''b.exe'', fi_error = ''Invalid file type'',
           fi_code = INVALID_FILE_TYPE\<rparr>,
          \<lparr>fi_filename = ''c.txt'', fi_error = ''Repository not found'',
           fi_code = REPO_NOT_FOUND\<rparr>]
     \<and> map (\<lambda>x. (fid x, f_user_id x, repo_id x, f_size_mb x)) (files w')
         = [(1, ''u1'', Some 1, 1), (2, ''u1'', Some 1, 2)]
     \<and> map (\<lambda>a. (asset_repo a, asset_size a)) (gh_assets w')
         = [(''user_u1_bucket_1'', 1048576), (''user_u1_bucket_1'', 2097152)]
     \<and> map size_mb (repos world_u1) = [100]
     \<and> map size_mb (repos w') = [100]"
proof -
  let ?r1 = "mk_repo 1 ''u1'' ''user_u1_bucket_1'' 100 True 10"
  let ?nf = "AppError ''Repository not found'' REPO_NOT_FOUND 404"
  let ?bad = "AppError ''Invalid file type'' INVALID_FILE_TYPE 400"
  have mba: "bytesToMb (int (size_bytes file_a)) = 1"
    and mbc: "bytesToMb (int (size_bytes file_c)) = 2"
    by (simp_all add: bytesToMb_def file_a_def file_c_def)
  have fit1: "find (\<lambda>r. size_mb r + bytesToMb (int (size_bytes file_a)) \<le> max_size_mb r)
                (select_repos ''u1'' True (repos world_u1)) = Some ?r1"
    unfolding mba by (simp add: select_repos_def world_u1_fields mk_repo_def)
  have calm1: "\<not> shouldRotateRepository world_u1 ?r1 (bytesToMb (int (size_bytes file_a)))"
    unfolding mba by (simp add: shouldRotateRepository_def mk_repo_def)
  have remote1: "name ?r1 \<in> set (gh_repos world_u1)"
    by (simp add: world_u1_fields mk_repo_def)
  have none1: "find (\<lambda>x. rid x = rid ?r1) (select_repos [] False (repos world_u1)) = None"
    by (simp add: select_repos_def world_u1_fields mk_repo_def)
  from ff_uploadFile_plain [OF world_u1_fields(5) validateFile_batch_files(1) fit1 calm1
      remote1, OF world_u1_fields(6)]
  obtain w1 where up1: "uploadFile (Some file_a) ''u1'' world_u1 = (Inl ?nf, w1)"
    and n1: "no_faults w1" "gh_repos w1 = gh_repos world_u1"
      "env_MAX_FILE_SIZE_MB w1 = None" "repos w1 = repos world_u1"
    and a1: "map (\<lambda>a. (asset_repo a, asset_size a)) (gh_assets w1)
         = [(''user_u1_bucket_1'', 1048576)]"
    and f1: "map (\<lambda>x. (fid x, f_user_id x, repo_id x, f_size_mb x)) (files w1)
         = [(1, ''u1'', Some 1, 1)]"
    unfolding none1 mba
    by (elim exE conjE)
       (simp add: world_u1_fields file_a_def mk_repo_def fresh_id_def)
  have up2: "uploadFile (Some file_exe) ''u1'' w1 = (Inl ?bad, w1)"
    by (rule uploadFile_invalid) (rule validateFile_batch_files(2) [OF n1(3)])
  have fit3: "find (\<lambda>r. size_mb r + bytesToMb (int (size_bytes file_c)) \<le> max_size_mb r)
                (select_repos ''u1'' True (repos w1)) = Some ?r1"
    unfolding mbc n1(4) by (simp add: select_repos_def world_u1_fields mk_repo_def)
  have calm3: "\<not> shouldRotateRepository w1 ?r1 (bytesToMb (int (size_bytes file_c)))"
    unfolding mbc by (simp add: shouldRotateRepository_def mk_repo_def)
  have remote3: "name ?r1 \<in> set (gh_repos w1)"
    by (simp add: n1 world_u1_fields mk_repo_def)
  have none3: "find (\<lambda>x. rid x = rid ?r1) (select_repos [] False (repos w1)) = None"
    unfolding n1(4) by (rule none1)
  have ids: "map fid (files w1) = [1]"
  proof -
    have "map fid (files w1)
        = map fst (map (\<lambda>x. (fid x, f_user_id x, repo_id x, f_size_mb x)) (files w1))"
      by simp
    then show ?thesis unfolding f1 by simp
  qed
  from ff_uploadFile_plain [OF n1(1) validateFile_batch_files(3) fit3 calm3 remote3,
      OF n1(3)]
  obtain w3 where up3: "uploadFile (Some file_c) ''u1'' w1 = (Inl ?nf, w3)"
    and n3: "repos w3 = repos w1"
    and a3: "map (\<lambda>a. (asset_repo a, asset_size a)) (gh_assets w3)
         = [(''user_u1_bucket_1'', 1048576), (''user_u1_bucket_1'', 2097152)]"
    and f3: "map (\<lambda>x. (fid x, f_user_id x, repo_id x, f_size_mb x)) (files w3)
         = [(1, ''u1'', Some 1, 1), (2, ''u1'', Some 1, 2)]"
    unfolding none3 mbc a1 f1 ids
    by (elim exE conjE) (simp add: file_c_def mk_repo_def fresh_id_def)
  have run: "uploadMultipleFiles [file_a, file_exe, file_c] ''u1'' world_u1 =
      (Inr \<lparr>success = False, summary_totalFiles = 3, summary_successful = 0,
            summary_failed = 3, summary_totalSize = 0, uploaded = [],
            errors =
              [\<lparr>fi_filename = ''a.txt'', fi_error = ''Repository not found'',
                fi_code = REPO_NOT_FOUND\<rparr>,
               \<lparr>fi_filename = ''b.exe'', fi_error = ''Invalid file type'',
                fi_code = INVALID_FILE_TYPE\<rparr>,
               \<lparr>fi_filename = ''c.txt'', fi_error = ''Repository not found'',
                fi_code = REPO_NOT_FOUND\<rparr>]\<rparr>, w3)"
    by (simp add: uploadMultipleFiles_def up1 up2 up3)
       (simp add: file_a_def file_exe_def file_c_def)
  have rows: "map size_mb (repos world_u1) = [100]"
    by (simp add: world_u1_fields mk_repo_def)
  show ?thesis
    unfolding run
    by (intro exI conjI, rule refl) (simp_all add: a3 f3 n3 n1(4) rows)
qed

subsection \<open>Reconciliation of the cached size\<close>

lemma fold_record_call_fields [simp]:
  "repos (fold (\<lambda>a. record_call (f a)) xs w) = repos w"
  "gh_repos (fold (\<lambda>a. record_call (f a)) xs w) = gh_repos w"
  "gh_assets (fold (\<lambda>a. record_call (f a)) xs w) = gh_assets w"
  "files (fold (\<lambda>a. record_call (f a)) xs w) = files w"
  "gh_unscoped (fold (\<lambda>a. record_call (f a)) xs w) = gh_unscoped w"
  "no_faults (fold (\<lambda>a. record_call (f a)) xs w) = no_faults w"
  by (induction xs arbitrary: w) simp_all


lemma ff_sum_release_assets_refused:
  "no_faults w \<Longrightarrow> gh_unscoped w = Some st \<Longrightarrow>
   sum_release_assets (a # rest) n s w =
     (Inl (handleGitHubError (Some st) False ''repository stats retrieval''),
      record_call (GhListAssets (asset_id a)) w)"
  by (simp add: ff_gh_request)

lemma first_page_keep [simp]:
  "first_page n (record_call c w) = first_page n w"
  "first_page n (fold (\<lambda>a. record_call (f a)) xs w) = first_page n w"
  "first_page n (w\<lparr>repos := rs\<rparr>) = first_page n w"
  by (simp_all add: first_page_def)

lemma reported_size_mb_keep [simp]:
  "reported_size_mb n (record_call c w) = reported_size_mb n w"
  "reported_size_mb n (fold (\<lambda>a. record_call (f a)) xs w) = reported_size_mb n w"
  "reported_size_mb n (w\<lparr>repos := rs\<rparr>) = reported_size_mb n w"
  by (simp_all add: reported_size_mb_def)

lemma stats_answered_keep [simp]:
  "stats_answered (record_call c w) n = stats_answered w n"
  by (simp add: stats_answered_def)

lemma stats_error_keep [simp]:
  "stats_error (record_call c w) = stats_error w"
  by (simp add: stats_error_def)




















end
